(* ===== verification/Prelude.thy ===== *)
theory Prelude
  imports Complex_Main "HOL-Library.Multiset" "HOL-Library.Char_ord" "HOL-Library.List_Lexorder"
begin

text \<open>
  Shared vocabulary of the exporter model: Go's error values as one datatype, the
  three ways a Go call can end (return nil, return an error, panic), the state of a
  \<open>context.Context\<close>, the collections of characteristic equations the component
  theories add to, and generic lemmas on lists and multisets that the component
  proofs share.  Go's \<open>float64\<close> gauge values and server versions are modelled as
  \<open>rat\<close>: the values the code produces (0, 1, decimal versions such as 5.7, durations)
  are short decimals, and rounding of decimal literals to \<open>float64\<close> is monotone, so the
  comparisons the code makes agree.
\<close>

section \<open>Errors, results and contexts\<close>

text \<open>
  Every error value that reaches a caller in the modelled code.  The constructors are
  grouped by the package that produces them: \<open>context\<close>, the MySQL driver,
  \<open>database/sql\<close>, the Prometheus client, and the exporter's own orchestration
  taxonomy (spec section 7).
\<close>

datatype go_error =
    ErrCanceled                        \<comment> \<open>\<open>context.Canceled\<close>\<close>
  | ErrDeadlineExceeded                \<comment> \<open>\<open>context.DeadlineExceeded\<close>\<close>
  | ErrDriver string                   \<comment> \<open>an error reported by the server or the driver\<close>
  | ErrConvertNull                     \<comment> \<open>\<open>converting NULL to string is unsupported\<close>\<close>
  | ErrScanArgs nat nat                \<comment> \<open>\<open>sql: expected %d destination arguments in Scan, not %d\<close>\<close>
  | ErrScanColumn nat string go_error  \<comment> \<open>\<open>sql: Scan error on column index %d, name %q: %w\<close>\<close>
  | ErrRowsClosed                      \<comment> \<open>\<open>sql: Rows are closed\<close>\<close>
  | ErrScanNoNext                      \<comment> \<open>\<open>sql: Scan called without calling Next\<close>\<close>
  | ErrMetricName string               \<comment> \<open>\<open>%q is not a valid metric name\<close>\<close>
  | ErrLabelName string                \<comment> \<open>\<open>%q is not a valid label name\<close>\<close>
  | ErrDuplicateLabels                 \<comment> \<open>duplicate label names in a descriptor\<close>
  | ErrLabelCardinality nat nat        \<comment> \<open>inconsistent label cardinality: expected, got\<close>
  | ErrLabelUtf8 string                \<comment> \<open>\<open>label value %q is not valid UTF-8\<close>\<close>
  | ErrNilDB                           \<comment> \<open>nil pointer dereference on an unopened handle\<close>
  | ErrConnection                      \<comment> \<open>\<open>ConnectionError\<close>\<close>
  | ErrVersionProbe                    \<comment> \<open>\<open>VersionProbeError\<close>\<close>
  | ErrTimeout                         \<comment> \<open>\<open>TimeoutError\<close>\<close>

text \<open>
  How a call of a scraper's \<open>Scrape\<close> ends: \<open>return nil\<close>, \<open>return err\<close>, or a
  panic (\<open>MustNewConstMetric\<close>, a nil dereference), which in Go kills the process
  when it happens in a goroutine.
\<close>

datatype run_result = RetNil | RetErr go_error | Panic go_error

fun is_panic :: "run_result \<Rightarrow> bool" where
  "is_panic (Panic _) = True"
| "is_panic _ = False"

fun ret_error :: "run_result \<Rightarrow> go_error option" where
  "ret_error RetNil = None"
| "ret_error (RetErr e) = Some e"
| "ret_error (Panic e) = Some e"

text \<open>The state of the \<open>context.Context\<close> a call receives, and what \<open>ctx.Err()\<close> returns.\<close>

datatype go_context = Background | CtxCanceled | CtxDeadline

fun ctx_err :: "go_context \<Rightarrow> go_error option" where
  "ctx_err Background = None"
| "ctx_err CtxCanceled = Some ErrCanceled"
| "ctx_err CtxDeadline = Some ErrDeadlineExceeded"

section \<open>Collections of characteristic equations\<close>

named_theorems exporter_simps "characteristic equations of the exporter model"
named_theorems exporter_invs "invariant preservation facts of the exporter model"

section \<open>Generic list and multiset lemmas\<close>

lemma filter_concat_map [simp]:
  "filter P (concat (map f xs)) = concat (map (\<lambda>x. filter P (f x)) xs)"
  by (induction xs) auto

lemma mset_concat_map_cong:
  assumes "\<And>x. x \<in> set xs \<Longrightarrow> mset (f x) = mset (g x)"
  shows "mset (concat (map f xs)) = mset (concat (map g xs))"
  using assms by (induction xs) auto

lemma map_concat_map:
  "map g (concat (map f xs)) = concat (map (\<lambda>x. map g (f x)) xs)"
  by (induction xs) auto

lemma distinct_map_filter_sub:
  "distinct (map f xs) \<Longrightarrow> distinct (map f (filter P xs))"
  by (simp add: distinct_map_filter)

lemma take_append_drop_concat [simp]:
  "concat (map (\<lambda>x. take (k x) (f x) @ drop (k x) (f x)) xs) = concat (map f xs)"
  by (induction xs) auto

lemma find_Some_in:
  "find P xs = Some x \<Longrightarrow> x \<in> set xs \<and> P x"
  by (metis find_Some_iff nth_mem)

lemma mset_concat_list_update:
  "i < length xss \<Longrightarrow>
     mset (concat (xss[i := ys])) + mset (xss ! i) = mset (concat xss) + mset ys"
proof (induction xss arbitrary: i)
  case (Cons xs xss)
  then show ?case by (cases i) (simp_all add: add.commute add.left_commute)
qed simp

lemma filter_eq_key_distinct:
  "distinct (map f xs) \<Longrightarrow> x \<in> set xs \<Longrightarrow> filter (\<lambda>y. f y = f x) xs = [x]"
  by (induction xs) (auto simp add: filter_empty_conv image_iff)

lemma count_mset_map_singleton:
  "count (mset (map (\<lambda>y. [f y]) xs)) [a] = length (filter (\<lambda>y. f y = a) xs)"
  by (induction xs) auto


lemma nth_append_Cons_other:
  "j < length (xs @ y # ys) \<Longrightarrow> j \<noteq> length xs \<Longrightarrow> (xs @ y # ys) ! j \<in> set (xs @ ys)"
  by (cases "j < length xs") (auto simp add: nth_append nth_Cons' dest: nth_mem)

end
