(* ===== verification/Prometheus.thy ===== *)
theory Prometheus
  imports Prelude
begin

text \<open>
  The part of the Prometheus Go client (\<open>client_golang\<close>) that the scrapers call:
  metric descriptors (\<open>NewDesc\<close>, \<open>BuildFQName\<close>), constant metrics
  (\<open>NewConstMetric\<close>, \<open>MustNewConstMetric\<close>) and the checks they make (metric and label
  name syntax under the legacy validation scheme, label cardinality, UTF-8 validity of
  label values, as \<open>unicode/utf8.ValidString\<close> decides it).  These are library
  functions the repository only calls; they are modelled from the client's documented
  behaviour because the scraper's panics and the label-schema invariant of the spec
  (section 3) depend on them.  Strings are byte lists, as Go strings are.
\<close>

section \<open>Descriptors and metrics\<close>

datatype ValueType = CounterValue | GaugeValue | UntypedValue

record Desc =
  fqName :: string
  desc_help :: string
  variableLabels :: "string list"
  constLabels :: "(string \<times> string) list"
  desc_err :: "go_error option"

record Metric =
  metric_desc :: Desc
  metric_type :: ValueType
  metric_value :: rat
  labelValues :: "string list"

definition BuildFQName :: "string \<Rightarrow> string \<Rightarrow> string \<Rightarrow> string" where
  "BuildFQName namespace subsystem name =
     (if name = [] then []
      else if namespace \<noteq> [] \<and> subsystem \<noteq> [] then namespace @ ''_'' @ subsystem @ ''_'' @ name
      else if namespace \<noteq> [] then namespace @ ''_'' @ name
      else if subsystem \<noteq> [] then subsystem @ ''_'' @ name
      else name)"

section \<open>Name syntax\<close>

definition is_ascii_letter :: "char \<Rightarrow> bool" where
  "is_ascii_letter c \<longleftrightarrow>
     (let n = (of_char c :: nat) in (65 \<le> n \<and> n \<le> 90) \<or> (97 \<le> n \<and> n \<le> 122))"

definition is_ascii_digit :: "char \<Rightarrow> bool" where
  "is_ascii_digit c \<longleftrightarrow> (let n = (of_char c :: nat) in 48 \<le> n \<and> n \<le> 57)"

text \<open>\<open>model.IsValidMetricName\<close>, legacy scheme: \<open>^[a-zA-Z_:][a-zA-Z0-9_:]*$\<close>.\<close>

definition IsValidMetricName :: "string \<Rightarrow> bool" where
  "IsValidMetricName s =
     (case s of
       [] \<Rightarrow> False
     | c # cs \<Rightarrow> (is_ascii_letter c \<or> c = CHR ''_'' \<or> c = CHR '':'') \<and>
         list_all (\<lambda>d. is_ascii_letter d \<or> is_ascii_digit d \<or> d = CHR ''_'' \<or> d = CHR '':'') cs)"

text \<open>\<open>checkLabelName\<close>: \<open>^[a-zA-Z_][a-zA-Z0-9_]*$\<close> and not the reserved prefix \<open>__\<close>.\<close>

definition checkLabelName :: "string \<Rightarrow> bool" where
  "checkLabelName s =
     ((case s of
        [] \<Rightarrow> False
      | c # cs \<Rightarrow> (is_ascii_letter c \<or> c = CHR ''_'') \<and>
          list_all (\<lambda>d. is_ascii_letter d \<or> is_ascii_digit d \<or> d = CHR ''_'') cs)
      \<and> take 2 s \<noteq> ''__'')"

section \<open>UTF-8 validity\<close>

text \<open>
  \<open>utf8.ValidString\<close> over the bytes of a string: well-formed sequences only, no
  overlong encodings, no surrogates (\<open>ED A0..BF\<close>), nothing above U+10FFFF.  The
  second byte of a multi-byte sequence has a narrower range after \<open>E0\<close>, \<open>ED\<close>,
  \<open>F0\<close> and \<open>F4\<close>, as Go's \<open>acceptRanges\<close> table says.
\<close>

definition utf8_cont :: "nat \<Rightarrow> bool" where
  "utf8_cont c \<longleftrightarrow> 0x80 \<le> c \<and> c \<le> 0xBF"

definition utf8_second_ok :: "nat \<Rightarrow> nat \<Rightarrow> bool" where
  "utf8_second_ok b c =
     (if b = 0xE0 then 0xA0 \<le> c \<and> c \<le> 0xBF
      else if b = 0xED then 0x80 \<le> c \<and> c \<le> 0x9F
      else if b = 0xF0 then 0x90 \<le> c \<and> c \<le> 0xBF
      else if b = 0xF4 then 0x80 \<le> c \<and> c \<le> 0x8F
      else utf8_cont c)"

fun utf8_valid_bytes :: "nat list \<Rightarrow> bool" where
  "utf8_valid_bytes [] = True"
| "utf8_valid_bytes (b # bs) =
     (if b < 0x80 then utf8_valid_bytes bs
      else if 0xC2 \<le> b \<and> b \<le> 0xDF then
        (case bs of c # r \<Rightarrow> utf8_cont c \<and> utf8_valid_bytes r | [] \<Rightarrow> False)
      else if 0xE0 \<le> b \<and> b \<le> 0xEF then
        (case bs of
          c1 # c2 # r \<Rightarrow> utf8_second_ok b c1 \<and> utf8_cont c2 \<and> utf8_valid_bytes r
        | _ \<Rightarrow> False)
      else if 0xF0 \<le> b \<and> b \<le> 0xF4 then
        (case bs of
          c1 # c2 # c3 # r \<Rightarrow>
            utf8_second_ok b c1 \<and> utf8_cont c2 \<and> utf8_cont c3 \<and> utf8_valid_bytes r
        | _ \<Rightarrow> False)
      else False)"

definition utf8_ValidString :: "string \<Rightarrow> bool" where
  "utf8_ValidString s = utf8_valid_bytes (map of_char s)"

section \<open>Constructors\<close>

text \<open>
  \<open>NewDesc\<close> records the first problem it finds in the descriptor's \<open>err\<close> field and
  returns the descriptor anyway, checking in this order: the metric name; the names of
  the constant labels; their values, which must be UTF-8 (taken in the order of their
  sorted names); the names of the variable labels; and last that no label name occurs
  twice among both.  The constant labels are a Go map, so which invalid name is
  reported first depends on its iteration order; the model takes the list's order.
\<close>

definition NewDesc :: "string \<Rightarrow> string \<Rightarrow> string list \<Rightarrow> (string \<times> string) list \<Rightarrow> Desc" where
  "NewDesc fq h vls cls =
     (let d = \<lparr>fqName = fq, desc_help = h, variableLabels = vls, constLabels = cls, desc_err = None\<rparr>
      in if \<not> IsValidMetricName fq then d\<lparr>desc_err := Some (ErrMetricName fq)\<rparr>
         else (case find (\<lambda>l. \<not> checkLabelName l) (map fst cls) of
                 Some l \<Rightarrow> d\<lparr>desc_err := Some (ErrLabelName l)\<rparr>
               | None \<Rightarrow>
                   (case find (\<lambda>v. \<not> utf8_ValidString v) (map snd (sort_key fst cls)) of
                      Some v \<Rightarrow> d\<lparr>desc_err := Some (ErrLabelUtf8 v)\<rparr>
                    | None \<Rightarrow>
                        (case find (\<lambda>l. \<not> checkLabelName l) vls of
                           Some l \<Rightarrow> d\<lparr>desc_err := Some (ErrLabelName l)\<rparr>
                         | None \<Rightarrow>
                             if \<not> distinct (map fst cls @ vls) then d\<lparr>desc_err := Some ErrDuplicateLabels\<rparr>
                             else d))))"

definition validateLabelValues :: "string list \<Rightarrow> nat \<Rightarrow> go_error option" where
  "validateLabelValues vals n =
     (if length vals \<noteq> n then Some (ErrLabelCardinality n (length vals))
      else (case find (\<lambda>v. \<not> utf8_ValidString v) vals of
              Some v \<Rightarrow> Some (ErrLabelUtf8 v)
            | None \<Rightarrow> None))"

definition NewConstMetric :: "Desc \<Rightarrow> ValueType \<Rightarrow> rat \<Rightarrow> string list \<Rightarrow> go_error + Metric" where
  "NewConstMetric d t v lvs =
     (case desc_err d of
       Some e \<Rightarrow> Inl e
     | None \<Rightarrow>
         (case validateLabelValues lvs (length (variableLabels d)) of
           Some e \<Rightarrow> Inl e
         | None \<Rightarrow> Inr \<lparr>metric_desc = d, metric_type = t, metric_value = v, labelValues = lvs\<rparr>))"

text \<open>\<open>MustNewConstMetric\<close> panics with the error \<open>NewConstMetric\<close> returns.\<close>

definition MustNewConstMetric :: "Desc \<Rightarrow> ValueType \<Rightarrow> rat \<Rightarrow> string list \<Rightarrow> run_result + Metric" where
  "MustNewConstMetric d t v lvs =
     (case NewConstMetric d t v lvs of Inl e \<Rightarrow> Inl (Panic e) | Inr m \<Rightarrow> Inr m)"

section \<open>Lemmas\<close>

lemma BuildFQName_full [exporter_simps]:
  "namespace \<noteq> [] \<Longrightarrow> subsystem \<noteq> [] \<Longrightarrow> name \<noteq> [] \<Longrightarrow>
     BuildFQName namespace subsystem name = namespace @ ''_'' @ subsystem @ ''_'' @ name"
  by (simp add: BuildFQName_def)

lemma NewDesc_sel [simp]:
  "fqName (NewDesc fq h vls cls) = fq"
  "variableLabels (NewDesc fq h vls cls) = vls"
  by (simp_all add: NewDesc_def Let_def split: option.splits)

lemma validateLabelValues_None:
  "validateLabelValues vals n = None \<longleftrightarrow> length vals = n \<and> list_all utf8_ValidString vals"
proof (cases "find (\<lambda>v. \<not> utf8_ValidString v) vals")
  case None
  then have "list_all utf8_ValidString vals"
    by (simp add: find_None_iff list_all_iff)
  with None show ?thesis by (simp add: validateLabelValues_def)
next
  case (Some v)
  then have "v \<in> set vals \<and> \<not> utf8_ValidString v"
    by (rule find_Some_in)
  with Some show ?thesis by (auto simp add: validateLabelValues_def list_all_iff)
qed

lemma validateLabelValues_utf8:
  assumes "length vals = n" and "\<not> list_all utf8_ValidString vals"
  shows "\<exists>v \<in> set vals. \<not> utf8_ValidString v \<and> validateLabelValues vals n = Some (ErrLabelUtf8 v)"
proof -
  from assms(2) obtain v where v: "find (\<lambda>v. \<not> utf8_ValidString v) vals = Some v"
    by (cases "find (\<lambda>v. \<not> utf8_ValidString v) vals") (auto simp add: find_None_iff list_all_iff)
  then have "v \<in> set vals \<and> \<not> utf8_ValidString v"
    by (auto dest: find_Some_in)
  with v assms(1) show ?thesis
    by (auto simp add: validateLabelValues_def)
qed

lemma NewConstMetric_ok [exporter_simps]:
  "desc_err d = None \<Longrightarrow> length lvs = length (variableLabels d) \<Longrightarrow> list_all utf8_ValidString lvs \<Longrightarrow>
     NewConstMetric d t v lvs =
       Inr \<lparr>metric_desc = d, metric_type = t, metric_value = v, labelValues = lvs\<rparr>"
  using validateLabelValues_None [of lvs "length (variableLabels d)"]
  by (simp add: NewConstMetric_def)

lemma NewConstMetric_Inr:
  "NewConstMetric d t v lvs = Inr m \<Longrightarrow>
     m = \<lparr>metric_desc = d, metric_type = t, metric_value = v, labelValues = lvs\<rparr> \<and>
     desc_err d = None \<and> length lvs = length (variableLabels d) \<and> list_all utf8_ValidString lvs"
  using validateLabelValues_None [of lvs "length (variableLabels d)"]
  by (auto simp add: NewConstMetric_def split: option.splits)

lemma MustNewConstMetric_Inl_panic:
  "MustNewConstMetric d t v lvs = Inl p \<Longrightarrow> is_panic p"
  by (auto simp add: MustNewConstMetric_def split: sum.splits)

lemma MustNewConstMetric_Inr:
  "MustNewConstMetric d t v lvs = Inr m \<Longrightarrow> NewConstMetric d t v lvs = Inr m"
  by (auto simp add: MustNewConstMetric_def split: sum.splits)

lemma MustNewConstMetric_utf8:
  assumes "desc_err d = None" and "length lvs = length (variableLabels d)"
    and "\<not> list_all utf8_ValidString lvs"
  shows "\<exists>s \<in> set lvs. \<not> utf8_ValidString s \<and> MustNewConstMetric d t v lvs = Inl (Panic (ErrLabelUtf8 s))"
  using validateLabelValues_utf8 [OF assms(2,3)] assms(1)
  by (auto simp add: MustNewConstMetric_def NewConstMetric_def)

lemma utf8_valid_bytes_ascii:
  "list_all (\<lambda>b. b < 0x80) bs \<Longrightarrow> utf8_valid_bytes bs"
  by (induction bs) auto

lemma utf8_ValidString_ascii:
  "list_all (\<lambda>c. (of_char c :: nat) < 0x80) s \<Longrightarrow> utf8_ValidString s"
  by (simp add: utf8_ValidString_def utf8_valid_bytes_ascii list_all_iff)

end
