(* ===== verification/SqlRows.thy ===== *)
theory SqlRows
  imports Prelude
begin

text \<open>
  The part of Go's \<open>database/sql\<close> that a scraper's row loop uses: a result set
  (\<open>*sql.Rows\<close>) delivered by the driver, its iteration with \<open>Next\<close>, the error that
  ended the iteration (\<open>Err\<close>), and \<open>Scan\<close> into string destinations with
  \<open>convertAssign\<close>.  A result set is the list of rows the driver delivers before
  \<open>Next\<close> returns false, plus the error, if any, that made it return false (a broken
  connection, or the query's context being cancelled or timing out mid-stream).
  Character columns arrive from the MySQL driver as bytes or as SQL NULL.  The cursor
  (\<open>rows_cursor\<close>) adds what a caller sees while iterating: the current row, the
  recorded error, whether the set is closed; \<open>Rows_Next\<close>, \<open>Rows_Scan_cur\<close>,
  \<open>Rows_Close\<close> and \<open>Rows_Err\<close> follow \<open>database/sql\<close>'s \<open>Next\<close>,
  \<open>Scan\<close>, \<open>Close\<close> and \<open>Err\<close>, and every \<open>Next\<close> that reports a row
  consumes one, which is what makes a loop over it terminate.
\<close>

section \<open>Result sets\<close>

datatype sql_value = SqlNull | SqlBytes string

record Rows =
  rs_columns :: "string list"
  rs_data :: "sql_value list list"
  rs_err :: "go_error option"

text \<open>
  The driver's invariant: every row has one value per column (\<open>lastcols\<close> is allocated
  with \<open>len(Columns())\<close>).
\<close>

definition Rows_wf :: "Rows \<Rightarrow> bool" where
  "Rows_wf rs \<longleftrightarrow> list_all (\<lambda>r. length r = length (rs_columns rs)) (rs_data rs)"

section \<open>Scan\<close>

text \<open>The text of a non-NULL value (a helper of the lemmas below).\<close>

fun sql_text :: "sql_value \<Rightarrow> string" where
  "sql_text SqlNull = []"
| "sql_text (SqlBytes s) = s"

text \<open>\<open>convertAssign\<close> into a \<open>*string\<close>: bytes are copied, NULL is refused.\<close>

fun convertAssign_string :: "sql_value \<Rightarrow> go_error + string" where
  "convertAssign_string SqlNull = Inl ErrConvertNull"
| "convertAssign_string (SqlBytes s) = Inr s"

text \<open>
  The column loop of \<open>Rows.Scan\<close>: column \<open>i\<close> is converted into destination \<open>i\<close>;
  the first failure is wrapped with the column's index and name and ends the scan.
\<close>

fun scan_columns :: "nat \<Rightarrow> (string \<times> sql_value) list \<Rightarrow> go_error + string list" where
  "scan_columns i [] = Inr []"
| "scan_columns i ((c, v) # cvs) =
     (case convertAssign_string v of
       Inl e \<Rightarrow> Inl (ErrScanColumn i c e)
     | Inr s \<Rightarrow> (case scan_columns (Suc i) cvs of Inl e \<Rightarrow> Inl e | Inr ss \<Rightarrow> Inr (s # ss)))"

text \<open>
  \<open>Rows.Scan(dest...)\<close> with \<open>n\<close> string destinations on the current row: the
  number of destinations must equal the number of columns, then each column is
  converted in order.
\<close>

definition Rows_Scan :: "string list \<Rightarrow> sql_value list \<Rightarrow> nat \<Rightarrow> go_error + string list" where
  "Rows_Scan cols row n =
     (if n \<noteq> length row then Inl (ErrScanArgs (length row) n)
      else scan_columns 0 (zip cols row))"

section \<open>The result-set cursor\<close>

text \<open>
  \<open>*sql.Rows\<close> as the cursor a caller iterates: the rows the driver has not yet
  delivered and how the stream ends (the fields of \<open>Rows\<close>), the current row
  (\<open>lastcols\<close>), the error that ended the iteration (\<open>lasterr\<close>, with \<open>io.EOF\<close>
  written as \<open>None\<close>), and whether the set is closed.  \<open>QueryContext\<close> returns it
  fresh: nothing read, nothing failed, open.
\<close>

record rows_cursor = Rows +
  cur_last :: "sql_value list option"
  cur_lasterr :: "go_error option"
  cur_closed :: bool

definition rows_open :: "Rows \<Rightarrow> rows_cursor" where
  "rows_open rs =
     \<lparr>rs_columns = rs_columns rs, rs_data = rs_data rs, rs_err = rs_err rs,
      cur_last = None, cur_lasterr = None, cur_closed = False\<rparr>"

text \<open>
  \<open>Rows.Next\<close>: false on a closed set; otherwise the next row becomes the current one,
  or, at the end of the stream, the end's error is recorded and the set closes itself
  (\<open>nextLocked\<close> reports \<open>doClose\<close> for \<open>io.EOF\<close> and for an error alike).
\<close>

definition Rows_Next :: "rows_cursor \<Rightarrow> bool \<times> rows_cursor" where
  "Rows_Next c =
     (if cur_closed c then (False, c)
      else (case rs_data c of
              row # rest \<Rightarrow> (True, c\<lparr>rs_data := rest, cur_last := Some row\<rparr>)
            | [] \<Rightarrow> (False, c\<lparr>cur_lasterr := rs_err c, cur_closed := True\<rparr>)))"

text \<open>
  \<open>Rows.Scan\<close> on the cursor, in Go's order of checks: a recorded error, a closed
  set, no current row; then the scan of the current row.
\<close>

definition Rows_Scan_cur :: "rows_cursor \<Rightarrow> nat \<Rightarrow> go_error + string list" where
  "Rows_Scan_cur c n =
     (case cur_lasterr c of
        Some e \<Rightarrow> Inl e
      | None \<Rightarrow>
          (if cur_closed c then Inl ErrRowsClosed
           else (case cur_last c of
                   None \<Rightarrow> Inl ErrScanNoNext
                 | Some row \<Rightarrow> Rows_Scan (rs_columns c) row n)))"

text \<open>\<open>Rows.Close\<close>, idempotent, and \<open>Rows.Err\<close>, the error that ended the iteration.\<close>

definition Rows_Close :: "rows_cursor \<Rightarrow> rows_cursor" where
  "Rows_Close c = c\<lparr>cur_closed := True\<rparr>"

definition Rows_Err :: "rows_cursor \<Rightarrow> go_error option" where
  "Rows_Err c = cur_lasterr c"

section \<open>Lemmas\<close>

lemma scan_columns_ok:
  "\<forall>cv \<in> set cvs. snd cv \<noteq> SqlNull \<Longrightarrow> scan_columns i cvs = Inr (map (sql_text \<circ> snd) cvs)"
proof (induction i cvs rule: scan_columns.induct)
  case (2 i c v cvs)
  then show ?case by (cases v) auto
qed simp

lemma scan_columns_null:
  "\<exists>cv \<in> set cvs. snd cv = SqlNull \<Longrightarrow> \<exists>e. scan_columns i cvs = Inl e"
proof (induction i cvs rule: scan_columns.induct)
  case (2 i c v cvs)
  then show ?case by (cases v) (auto split: sum.splits)
qed simp

lemma scan_columns_Inr:
  "scan_columns i cvs = Inr ss \<longleftrightarrow>
     (\<forall>cv \<in> set cvs. snd cv \<noteq> SqlNull) \<and> ss = map (sql_text \<circ> snd) cvs"
proof (cases "\<forall>cv \<in> set cvs. snd cv \<noteq> SqlNull")
  case True
  then show ?thesis by (auto simp add: scan_columns_ok)
next
  case False
  then obtain e where "scan_columns i cvs = Inl e"
    using scan_columns_null by blast
  with False show ?thesis by simp
qed

lemma zip_snd_null:
  "length cols = length row \<Longrightarrow> (\<exists>cv \<in> set (zip cols row). snd cv = SqlNull) \<longleftrightarrow> SqlNull \<in> set row"
  by (metis (mono_tags, lifting) image_iff list.set_map map_snd_zip)

lemma Rows_Scan_Inr:
  "Rows_Scan cols row n = Inr ss \<longleftrightarrow>
     n = length row \<and> (\<forall>cv \<in> set (zip cols row). snd cv \<noteq> SqlNull) \<and>
     ss = map (sql_text \<circ> snd) (zip cols row)"
  by (auto simp add: Rows_Scan_def scan_columns_Inr)

lemma Rows_Scan_ok [simp]:
  assumes "length cols = length row" and "SqlNull \<notin> set row" and "n = length row"
  shows "Rows_Scan cols row n = Inr (map sql_text row)"
proof -
  have "\<forall>cv \<in> set (zip cols row). snd cv \<noteq> SqlNull"
    using assms zip_snd_null by blast
  moreover have "map (sql_text \<circ> snd) (zip cols row) = map sql_text row"
    using assms(1) by (metis map_map map_snd_zip)
  ultimately show ?thesis using assms(3) by (simp add: Rows_Scan_Inr)
qed

lemma Rows_Scan_null:
  assumes "length cols = length row" and "SqlNull \<in> set row"
  shows "\<exists>e. Rows_Scan cols row n = Inl e"
proof (cases "Rows_Scan cols row n")
  case (Inr ss)
  then have "\<forall>cv \<in> set (zip cols row). snd cv \<noteq> SqlNull"
    by (simp add: Rows_Scan_Inr)
  with assms zip_snd_null show ?thesis by blast
qed simp


text \<open>\<open>Scan\<close> on a row fails only with a count mismatch or a column's conversion error.\<close>

lemma Rows_Scan_Inl:
  "Rows_Scan cols row n = Inl e \<Longrightarrow>
     (\<exists>a b. e = ErrScanArgs a b) \<or> (\<exists>i col e'. e = ErrScanColumn i col e')"
proof -
  have "scan_columns i cvs = Inl e \<Longrightarrow> \<exists>i col e'. e = ErrScanColumn i col e'" for i cvs
    by (induction i cvs rule: scan_columns.induct) (auto split: sum.splits)
  then show "Rows_Scan cols row n = Inl e \<Longrightarrow> ?thesis"
    by (auto simp add: Rows_Scan_def split: if_splits)
qed

subsection \<open>The cursor\<close>

lemma rows_open_sel [simp]:
  "rs_columns (rows_open rs) = rs_columns rs" "rs_data (rows_open rs) = rs_data rs"
  "rs_err (rows_open rs) = rs_err rs" "cur_lasterr (rows_open rs) = None"
  "cur_closed (rows_open rs) = False" "cur_last (rows_open rs) = None"
  by (simp_all add: rows_open_def)

lemma Rows_Next_row [simp]:
  "\<not> cur_closed c \<Longrightarrow> rs_data c = row # rest \<Longrightarrow>
     Rows_Next c = (True, c\<lparr>rs_data := rest, cur_last := Some row\<rparr>)"
  by (simp add: Rows_Next_def)

lemma Rows_Next_end [simp]:
  "\<not> cur_closed c \<Longrightarrow> rs_data c = [] \<Longrightarrow>
     Rows_Next c = (False, c\<lparr>cur_lasterr := rs_err c, cur_closed := True\<rparr>)"
  by (simp add: Rows_Next_def)

lemma Rows_Next_closed [simp]: "cur_closed c \<Longrightarrow> Rows_Next c = (False, c)"
  by (simp add: Rows_Next_def)

lemma Rows_Next_shrinks:
  "Rows_Next c = (True, c') \<Longrightarrow> length (rs_data c') < length (rs_data c)"
  by (auto simp add: Rows_Next_def split: if_splits list.splits)

text \<open>What a call of \<open>Next\<close> did, read off its result.\<close>

lemma Rows_Next_True:
  "Rows_Next c = (True, c1) \<Longrightarrow>
     \<exists>row. rs_data c = row # rs_data c1 \<and> \<not> cur_closed c \<and> \<not> cur_closed c1 \<and>
       cur_last c1 = Some row \<and> cur_lasterr c1 = cur_lasterr c \<and> rs_columns c1 = rs_columns c \<and>
       rs_err c1 = rs_err c"
  by (auto simp add: Rows_Next_def split: if_splits list.splits)

lemma Rows_Next_False:
  "Rows_Next c = (False, c1) \<Longrightarrow> \<not> cur_closed c \<Longrightarrow>
     rs_data c = [] \<and> rs_data c1 = [] \<and> cur_closed c1 \<and> cur_lasterr c1 = rs_err c"
  by (auto simp add: Rows_Next_def split: if_splits list.splits)

lemma Rows_Scan_cur_row [simp]:
  "cur_lasterr c = None \<Longrightarrow> \<not> cur_closed c \<Longrightarrow> cur_last c = Some row \<Longrightarrow>
     Rows_Scan_cur c n = Rows_Scan (rs_columns c) row n"
  by (simp add: Rows_Scan_cur_def)

lemma Rows_Close_sel [simp]:
  "cur_closed (Rows_Close c) = True" "cur_lasterr (Rows_Close c) = cur_lasterr c"
  "rs_data (Rows_Close c) = rs_data c"
  by (simp_all add: Rows_Close_def)

lemma Rows_Close_idem: "Rows_Close (Rows_Close c) = Rows_Close c"
  by (simp add: Rows_Close_def)

lemma Rows_Scan_length:
  "Rows_Scan cols row n = Inr vals \<Longrightarrow> length cols = n \<Longrightarrow> length vals = n"
  by (auto simp add: Rows_Scan_Inr)

end
