(* ===== verification/Instance.thy ===== *)
theory Instance
  imports SqlRows
begin

text \<open>
  The \<open>instance\<close> handle (spec section 4.2; its Go code is not among the sources, so it
  is modelled from the spec).  An instance owns at most one live connection to its
  target server, established lazily by \<open>Connection\<close> and cached; \<open>getDB\<close> is the
  accessor scrapers use; \<open>Close\<close> releases the connection once and is safe on an
  instance that never connected.  Concurrent callers are serialised by the instance's
  lock, so every interleaving of calls from several goroutines is a sequence of whole
  calls: \<open>inst_run\<close> over an arbitrary list of calls covers them all.  The fields
  \<open>inst_opened\<close> and \<open>inst_released\<close> count the connections created and released, so
  that "exactly one connection" and "released exactly once" are statements about the
  state.  \<open>QueryContext\<close> is \<open>database/sql\<close>'s entry point for a query on the
  handle: it checks the context before the server is asked.
\<close>

section \<open>State and operations\<close>

text \<open>
  What a live connection answers: \<open>QueryContext\<close> for a SQL text under a context, and
  the version probe of the cycle.  This is the database boundary of spec section 6.
\<close>

record Server =
  srv_query :: "go_context \<Rightarrow> string \<Rightarrow> go_error + Rows"
  srv_version :: "go_error + rat"

text \<open>
  \<open>(*sql.DB).QueryContext\<close>: before it takes a connection from the pool,
  \<open>db.conn\<close> returns \<open>ctx.Err()\<close> when the context is already done; otherwise
  the query goes to the server.  A context that expires while the rows stream is
  part of the server's answer (how the result set ends).
\<close>

definition QueryContext :: "Server \<Rightarrow> go_context \<Rightarrow> string \<Rightarrow> go_error + Rows" where
  "QueryContext db ctx q = (case ctx_err ctx of Some e \<Rightarrow> Inl e | None \<Rightarrow> srv_query db ctx q)"

record db_instance =
  inst_target :: "Server option"
  inst_db :: "Server option"
  inst_opened :: nat
  inst_released :: nat
  inst_closed :: bool

definition newInstance :: "Server option \<Rightarrow> db_instance" where
  "newInstance t = \<lparr>inst_target = t, inst_db = None, inst_opened = 0, inst_released = 0,
                    inst_closed = False\<rparr>"

definition getDB :: "db_instance \<Rightarrow> Server option" where
  "getDB i = inst_db i"

text \<open>
  \<open>Connection()\<close>: the cached connection if there is one; otherwise establish it, which
  fails with \<open>ConnectionError\<close> when the target cannot be reached.  A closed instance
  refuses.
\<close>

definition Connection :: "db_instance \<Rightarrow> (go_error + Server) \<times> db_instance" where
  "Connection i =
     (if inst_closed i then (Inl ErrConnection, i)
      else (case inst_db i of
              Some s \<Rightarrow> (Inr s, i)
            | None \<Rightarrow>
                (case inst_target i of
                   None \<Rightarrow> (Inl ErrConnection, i)
                 | Some s \<Rightarrow> (Inr s, i\<lparr>inst_db := Some s, inst_opened := Suc (inst_opened i)\<rparr>))))"

definition Close :: "db_instance \<Rightarrow> db_instance" where
  "Close i =
     (if inst_closed i then i
      else i\<lparr>inst_db := None, inst_closed := True,
             inst_released := inst_released i + (if inst_db i = None then 0 else 1)\<rparr>)"

datatype inst_op = OpConnection | OpGetDB | OpClose

fun inst_step :: "db_instance \<Rightarrow> inst_op \<Rightarrow> db_instance" where
  "inst_step i OpConnection = snd (Connection i)"
| "inst_step i OpGetDB = i"
| "inst_step i OpClose = Close i"

fun inst_run :: "db_instance \<Rightarrow> inst_op list \<Rightarrow> db_instance" where
  "inst_run i [] = i"
| "inst_run i (op # ops) = inst_run (inst_step i op) ops"

text \<open>
  The instance invariant: at most one connection was ever created; every created
  connection is either the cached one or released; a closed instance caches nothing;
  only closing releases.
\<close>

definition inst_inv :: "db_instance \<Rightarrow> bool" where
  "inst_inv i \<longleftrightarrow>
     inst_opened i \<le> 1 \<and>
     inst_opened i = inst_released i + (if inst_db i = None then 0 else 1) \<and>
     (inst_closed i \<longrightarrow> inst_db i = None) \<and>
     (\<not> inst_closed i \<longrightarrow> inst_released i = 0) \<and>
     (inst_db i \<noteq> None \<longrightarrow> inst_db i = inst_target i)"

section \<open>Lemmas\<close>

lemma QueryContext_live [simp]:
  "ctx_err ctx = None \<Longrightarrow> QueryContext db ctx q = srv_query db ctx q"
  by (simp add: QueryContext_def)

lemma QueryContext_done [simp]:
  "ctx_err ctx = Some e \<Longrightarrow> QueryContext db ctx q = Inl e"
  by (simp add: QueryContext_def)

lemma inst_inv_newInstance [exporter_invs]: "inst_inv (newInstance t)"
  by (simp add: inst_inv_def newInstance_def)

lemma Connection_inv [exporter_invs]:
  "inst_inv i \<Longrightarrow> inst_inv (snd (Connection i))"
  by (auto simp add: inst_inv_def Connection_def split: option.splits)

lemma Close_inv [exporter_invs]:
  "inst_inv i \<Longrightarrow> inst_inv (Close i)"
  by (auto simp add: inst_inv_def Close_def)

lemma inst_step_inv [exporter_invs]:
  "inst_inv i \<Longrightarrow> inst_inv (inst_step i op)"
  by (cases op) (simp_all add: Connection_inv Close_inv)

lemma inst_run_inv [exporter_invs]:
  "inst_inv i \<Longrightarrow> inst_inv (inst_run i ops)"
  by (induction ops arbitrary: i) (simp_all add: inst_step_inv)

lemma Connection_cached [exporter_simps]:
  "\<not> inst_closed i \<Longrightarrow> inst_db i = Some s \<Longrightarrow> Connection i = (Inr s, i)"
  by (simp add: Connection_def)

lemma Connection_Inr_getDB:
  "fst (Connection i) = Inr s \<Longrightarrow> getDB (snd (Connection i)) = Some s"
  by (auto simp add: Connection_def getDB_def split: if_splits option.splits)

lemma Connection_Inl:
  "fst (Connection i) = Inl e \<Longrightarrow> e = ErrConnection \<and> snd (Connection i) = i"
  by (auto simp add: Connection_def split: if_splits option.splits)

lemma Connection_Inr_idem [exporter_simps]:
  "Connection i = (Inr s, i') \<Longrightarrow> Connection i' = (Inr s, i')"
  by (auto simp add: Connection_def split: if_splits option.splits)

lemma Close_idem [exporter_simps]: "Close (Close i) = Close i"
  by (simp add: Close_def)

end
