(* ===== verification/Scraper.thy ===== *)
theory Scraper
  imports Prometheus Instance
begin

text \<open>
  The scraper capability contract (spec section 4.1; the \<open>Scraper\<close> interface the
  source implements with \<open>var _ Scraper = ScrapePrimaryKey{}\<close>).  A scraper is a record
  of its four methods; \<open>Scrape\<close> is a function of the context and the instance whose
  result is what the call does: the metrics it sends on the channel, in order, and how
  it ends.  The logger argument of the Go method only writes logs and is left out.
  The predicates below are the obligations the orchestrator relies on; each scraper
  theory discharges them for its own \<open>Scrape\<close>.
\<close>

section \<open>The interface\<close>

text \<open>
  The collector package's \<open>namespace\<close> constant, the first part of every metric name
  (defined outside the sources; the exporter's metrics are \<open>mysql_...\<close>).
\<close>

definition namespace :: string where
  "namespace = ''mysql''"

record scrape_run =
  sent :: "Metric list"
  ret :: run_result

record Scraper =
  sc_Name :: string
  sc_Help :: string
  sc_Version :: rat
  sc_Scrape :: "go_context \<Rightarrow> db_instance \<Rightarrow> scrape_run"

text \<open>Spec section 8: the names of the registered scrapers are pairwise distinct.\<close>

definition registry_ok :: "Scraper list \<Rightarrow> bool" where
  "registry_ok scs \<longleftrightarrow> distinct (map sc_Name scs) \<and> (\<forall>s \<in> set scs. sc_Name s \<noteq> [])"

text \<open>
  The label-schema obligation of spec section 3: every metric a call sends carries a
  descriptor without error and exactly one label value per variable label.
\<close>

definition fixed_label_schema :: "scrape_run \<Rightarrow> bool" where
  "fixed_label_schema r \<longleftrightarrow>
     (\<forall>m \<in> set (sent r). desc_err (metric_desc m) = None \<and>
        length (labelValues m) = length (variableLabels (metric_desc m)))"

section \<open>Lemmas\<close>

lemma registry_ok_filter:
  "registry_ok scs \<Longrightarrow> registry_ok (filter P scs)"
  by (auto simp add: registry_ok_def distinct_map_filter)

end
