(* ===== verification/PrimaryQuery.thy ===== *)
theory PrimaryQuery
  imports SqlRows
begin

text \<open>
  The query of the primary-key scraper, \<open>primaryQuery\<close> in
  \<open>src/collector/primary.go\<close>, and its meaning: the two \<open>information_schema\<close>
  tables it reads as records, the \<open>LEFT JOIN ... ON\<close>, the \<open>WHERE\<close> filter, the
  \<open>SELECT\<close> list as the driver delivers it and the \<open>ORDER BY\<close>, and what it means
  for a result set to be a correct answer.  The specification side is the list of base
  tables without a primary key outside the two system schemas; the lemmas show that the
  query computes exactly that list (the anti-join) and what the rows of a correct answer
  are.
\<close>

section \<open>The query text and its meaning\<close>

definition primaryQuery :: string where
  "primaryQuery =
     ''SELECT t.table_schema , t.table_name , t.engine '' @
     ''FROM information_schema.tables t '' @
     ''LEFT JOIN information_schema.table_constraints tc '' @
     ''ON t.table_schema = tc.table_schema AND t.table_name = tc.table_name '' @
     ''AND tc.constraint_type = 'PRIMARY KEY' '' @
     ''WHERE t.table_type = 'BASE TABLE' AND tc.constraint_type IS NULL '' @
     ''AND t.table_schema!='performance_schema' AND t.table_schema!='mysql' '' @
     ''ORDER BY t.table_name;''"

text \<open>The columns of \<open>information_schema.tables\<close> and \<open>table_constraints\<close> the query reads.\<close>

record info_table =
  t_table_schema :: string
  t_table_name :: string
  t_engine :: "string option"
  t_table_type :: string

record info_constraint =
  tc_table_schema :: string
  tc_table_name :: string
  tc_constraint_type :: string

record info_schema =
  is_tables :: "info_table list"
  is_constraints :: "info_constraint list"

text \<open>The \<open>ON\<close> condition of the join.\<close>

definition primary_on :: "info_table \<Rightarrow> info_constraint \<Rightarrow> bool" where
  "primary_on t tc \<longleftrightarrow>
     t_table_schema t = tc_table_schema tc \<and> t_table_name t = tc_table_name tc \<and>
     tc_constraint_type tc = ''PRIMARY KEY''"

text \<open>
  \<open>LEFT JOIN\<close>: every left row with each right row that satisfies the condition, or,
  when none does, once with a NULL-extended right side (\<open>None\<close>).
\<close>

definition left_join :: "('a \<Rightarrow> 'b \<Rightarrow> bool) \<Rightarrow> 'a list \<Rightarrow> 'b list \<Rightarrow> ('a \<times> 'b option) list" where
  "left_join on ls rs =
     concat (map (\<lambda>l. case filter (on l) rs of
                         [] \<Rightarrow> [(l, None)]
                       | ms \<Rightarrow> map (\<lambda>r. (l, Some r)) ms) ls)"

text \<open>The \<open>WHERE\<close> clause; \<open>tc.constraint_type IS NULL\<close> holds of a NULL-extended row only.\<close>

definition primary_where :: "info_table \<times> info_constraint option \<Rightarrow> bool" where
  "primary_where jr \<longleftrightarrow>
     (let t = fst jr; tc = snd jr in
        t_table_type t = ''BASE TABLE'' \<and> map_option tc_constraint_type tc = None \<and>
        t_table_schema t \<noteq> ''performance_schema'' \<and> t_table_schema t \<noteq> ''mysql'')"

text \<open>\<open>FROM ... LEFT JOIN ... WHERE\<close>: the joined rows the query keeps.\<close>

definition primary_from_where :: "info_schema \<Rightarrow> (info_table \<times> info_constraint option) list" where
  "primary_from_where db =
     filter primary_where (left_join primary_on (is_tables db) (is_constraints db))"

text \<open>The \<open>SELECT\<close> list, as the driver delivers it: character columns as bytes, NULL as NULL.\<close>

definition primary_select :: "info_table \<times> info_constraint option \<Rightarrow> sql_value list" where
  "primary_select jr =
     (let t = fst jr in
        [SqlBytes (t_table_schema t), SqlBytes (t_table_name t),
         (case t_engine t of None \<Rightarrow> SqlNull | Some e \<Rightarrow> SqlBytes e)])"

text \<open>
  \<open>ORDER BY t.table_name\<close>: rows come sorted by the table name under the column's
  collation, given as a sort key \<open>coll\<close>; rows with equal keys (the same table name in
  two schemas) may come in either order, so the clause admits every such ordering.
\<close>

definition row_table_name :: "sql_value list \<Rightarrow> string" where
  "row_table_name r = (case r of [_, SqlBytes n, _] \<Rightarrow> n | _ \<Rightarrow> [])"

definition primary_order_by :: "(string \<Rightarrow> 'k::linorder) \<Rightarrow> sql_value list list \<Rightarrow> bool" where
  "primary_order_by coll rows \<longleftrightarrow> sorted (map (coll \<circ> row_table_name) rows)"

text \<open>
  A correct answer of the server to \<open>primaryQuery\<close>: three columns, the selected rows
  of the kept joined rows in an order \<open>ORDER BY\<close> admits, and no error that cut the
  stream short.
\<close>

definition primaryQuery_answer :: "(string \<Rightarrow> 'k::linorder) \<Rightarrow> info_schema \<Rightarrow> Rows \<Rightarrow> bool" where
  "primaryQuery_answer coll db rs \<longleftrightarrow>
     length (rs_columns rs) = 3 \<and> rs_err rs = None \<and>
     mset (rs_data rs) = mset (map primary_select (primary_from_where db)) \<and>
     primary_order_by coll (rs_data rs)"

section \<open>What the query is meant to list\<close>

text \<open>
  The base tables outside \<open>mysql\<close> and \<open>performance_schema\<close> that no
  \<open>PRIMARY KEY\<close> constraint names, and the label values of a table's gauge.
\<close>

text \<open>
  A table has a primary key when some \<open>PRIMARY KEY\<close> constraint names its schema and
  name.  This is stated on its own, not through the query's \<open>ON\<close> clause, so that the
  lemmas below check that clause against it (\<open>has_primary_key_on\<close>).
\<close>

definition has_primary_key :: "info_schema \<Rightarrow> info_table \<Rightarrow> bool" where
  "has_primary_key db t \<longleftrightarrow>
     (\<exists>c \<in> set (is_constraints db). tc_constraint_type c = ''PRIMARY KEY'' \<and>
        tc_table_schema c = t_table_schema t \<and> tc_table_name c = t_table_name t)"

definition tables_without_pk :: "info_schema \<Rightarrow> info_table list" where
  "tables_without_pk db =
     filter (\<lambda>t. t_table_type t = ''BASE TABLE'' \<and>
                 t_table_schema t \<noteq> ''performance_schema'' \<and> t_table_schema t \<noteq> ''mysql'' \<and>
                 \<not> has_primary_key db t) (is_tables db)"

definition table_labels :: "info_table \<Rightarrow> string list" where
  "table_labels t = [t_table_schema t, t_table_name t, the (t_engine t)]"

section \<open>Lemmas\<close>

subsection \<open>The query\<close>

lemma left_join_Cons:
  "left_join on (l # ls) rs =
     (case filter (on l) rs of [] \<Rightarrow> [(l, None)] | ms \<Rightarrow> map (\<lambda>r. (l, Some r)) ms) @
     left_join on ls rs"
  by (simp add: left_join_def)

lemma primary_where_Some [simp]: "\<not> primary_where (t, Some r)"
  by (simp add: primary_where_def)

text \<open>The query's \<open>ON\<close> clause matches exactly the constraints that give a table a primary key.\<close>

lemma has_primary_key_on:
  "has_primary_key db t \<longleftrightarrow> list_ex (primary_on t) (is_constraints db)"
  unfolding has_primary_key_def primary_on_def list_ex_iff by metis

lemma has_primary_key_filter:
  "has_primary_key db t \<longleftrightarrow> filter (primary_on t) (is_constraints db) \<noteq> []"
  by (simp add: has_primary_key_on list_ex_iff filter_empty_conv)

lemma primary_where_left_join:
  "filter primary_where (left_join primary_on ts cs) =
     map (\<lambda>t. (t, None))
       (filter (\<lambda>t. t_table_type t = ''BASE TABLE'' \<and>
                   t_table_schema t \<noteq> ''performance_schema'' \<and> t_table_schema t \<noteq> ''mysql'' \<and>
                   \<not> list_ex (primary_on t) cs) ts)"
proof (induction ts)
  case Nil
  then show ?case by (simp add: left_join_def)
next
  case (Cons t ts)
  show ?case
  proof (cases "filter (primary_on t) cs")
    case Nil
    then have "\<not> list_ex (primary_on t) cs"
      by (simp add: list_ex_iff filter_empty_conv)
    with Nil Cons.IH show ?thesis
      by (simp add: left_join_Cons primary_where_def)
  next
    case (Cons m ms)
    then have "list_ex (primary_on t) cs"
      by (metis list.distinct(1) list_ex_iff filter_empty_conv)
    with Cons Cons.IH show ?thesis
      by (simp add: left_join_Cons filter_empty_conv)
  qed
qed

text \<open>C2: the query's \<open>LEFT JOIN ... WHERE tc.constraint_type IS NULL\<close> is the anti-join.\<close>

theorem primary_from_where_antijoin:
  "primary_from_where db = map (\<lambda>t. (t, None)) (tables_without_pk db)"
  by (simp add: primary_from_where_def tables_without_pk_def has_primary_key_on
                primary_where_left_join)

subsection \<open>Rows of a correct answer\<close>

lemma primary_select_text:
  "t_engine t \<noteq> None \<Longrightarrow> map sql_text (primary_select (t, x)) = table_labels t"
  by (auto simp add: primary_select_def table_labels_def)

lemma row_table_name_select [simp]:
  "row_table_name (primary_select (t, x)) = t_table_name t"
  by (simp add: row_table_name_def primary_select_def split: option.splits)

lemma primaryQuery_answer_rows:
  assumes "primaryQuery_answer coll db rs" and "r \<in> set (rs_data rs)"
  shows "\<exists>t \<in> set (tables_without_pk db). r = primary_select (t, None)"
proof -
  from assms(1) have "set (rs_data rs) = set (map primary_select (primary_from_where db))"
    by (metis primaryQuery_answer_def set_mset_mset)
  with assms(2) show ?thesis
    by (auto simp add: primary_from_where_def tables_without_pk_def has_primary_key_on
                       primary_where_left_join)
qed

lemma primaryQuery_answer_mset:
  "primaryQuery_answer coll db rs \<Longrightarrow>
     mset (rs_data rs) = mset (map (\<lambda>t. primary_select (t, None)) (tables_without_pk db))"
  by (simp add: primaryQuery_answer_def primary_from_where_def tables_without_pk_def
                has_primary_key_on primary_where_left_join comp_def)

end
