(* ===== verification/Primary.thy ===== *)
theory Primary
  imports Scraper PrimaryQuery
begin

text \<open>
  The primary-key scraper, \<open>src/collector/primary.go\<close>: one SQL query over
  \<open>information_schema\<close> that lists the base tables without a \<open>PRIMARY KEY\<close>
  constraint (outside the \<open>mysql\<close> and \<open>performance_schema\<close> schemas), and one gauge
  \<open>mysql_primary_key_check{table_schema, table_name, engine} 0\<close> per row.  The query
  and its meaning are in \<open>PrimaryQuery\<close>.  This theory holds, in the file's order: the
  subsystem, the label names and the descriptor; the four methods of the \<open>Scraper\<close>
  interface, with \<open>Scrape\<close> written as the code runs it, on the result-set cursor of
  \<open>SqlRows\<close> (\<open>primary_query\<close>, the three scan variables, \<open>primary_scan\<close>,
  \<open>primary_emit\<close>, the loop \<open>primary_rows_loop\<close> and the whole method
  \<open>ScrapePrimaryKey_Run\<close> with its deferred \<open>Close\<close>), and the same loop read over
  the list of delivered rows (\<open>primary_row_loop\<close>), the reference the proofs work with.
  The lemmas: the descriptor's fields; the cursor loop refines the list loop; the list
  loop's result on every branch (all rows good, a NULL column, a label value that is not
  UTF-8); \<open>Scrape\<close> end to end against a server that answers the query correctly; the
  label schema is fixed on every branch; \<open>rows.Err()\<close> is never read; the loop ends
  normally only at the end of the result set; the result set is always closed; at most
  one gauge per row; scanning a selected row gives back the table's labels; scan errors
  come only from delivered rows; a result set of another shape fails the first scan; a
  nil handle makes \<open>Scrape\<close> panic.  The cursor-loop lemmas go by
  \<open>primary_rows_loop_run_induct\<close>, one case per way an iteration ends.
\<close>

section \<open>The subsystem\<close>

text \<open>
  \<open>primarySubsystem\<close>, the middle part of the metric's name and the scraper's name.
  The query \<open>primaryQuery\<close> and its meaning are in \<open>PrimaryQuery\<close>.
\<close>

definition primarySubsystem :: string where
  "primarySubsystem = ''primary_key''"

section \<open>Labels and descriptor\<close>

definition PrimarylabelNames :: "string list" where
  "PrimarylabelNames = [''table_schema'', ''table_name'', ''engine'']"

definition CheckPrimaryKeyDesc :: Desc where
  "CheckPrimaryKeyDesc =
     NewDesc (BuildFQName namespace primarySubsystem ''check'')
       ''Check table have `PRIMARY KEY`.'' PrimarylabelNames []"

section \<open>The scraper\<close>

definition ScrapePrimaryKey_Name :: string where
  "ScrapePrimaryKey_Name = primarySubsystem"

definition ScrapePrimaryKey_Help :: string where
  "ScrapePrimaryKey_Help = ''Check table have `PRIMARY KEY`.''"

definition ScrapePrimaryKey_Version :: rat where
  "ScrapePrimaryKey_Version = 5.7"

text \<open>
  The row loop read over the list of rows the driver delivers: scan the three columns;
  a scan error returns it; otherwise \<open>MustNewConstMetric\<close> builds the gauge (or
  panics) and it is sent on \<open>ch\<close>; after the last row the function returns nil, since
  \<open>primaryRows.Err()\<close> is never read.  This is the reference semantics of the loop;
  \<open>primary_rows_loop\<close> below runs it on the result-set cursor as the code does and
  is proved to compute the same run.
\<close>

fun primary_row_loop :: "string list \<Rightarrow> sql_value list list \<Rightarrow> scrape_run" where
  "primary_row_loop cols [] = \<lparr>sent = [], ret = RetNil\<rparr>"
| "primary_row_loop cols (row # rows) =
     (case Rows_Scan cols row 3 of
        Inl err \<Rightarrow> \<lparr>sent = [], ret = RetErr err\<rparr>
      | Inr vals \<Rightarrow>
          (case MustNewConstMetric CheckPrimaryKeyDesc GaugeValue 0 vals of
             Inl p \<Rightarrow> \<lparr>sent = [], ret = p\<rparr>
           | Inr m \<Rightarrow> (let r = primary_row_loop cols rows in r\<lparr>sent := m # sent r\<rparr>)))"

text \<open>
  The prologue of \<open>Scrape\<close>: take the instance's handle and run the query
  (\<open>fmt.Sprint\<close> of a single string is the string); the query's error is returned.  A
  handle that was never opened is a nil \<open>*sql.DB\<close>, and calling \<open>QueryContext\<close> on
  it panics.
\<close>

definition primary_query :: "go_context \<Rightarrow> db_instance \<Rightarrow> run_result + Rows" where
  "primary_query ctx inst =
     (case getDB inst of
        None \<Rightarrow> Inl (Panic ErrNilDB)
      | Some db \<Rightarrow>
          (case QueryContext db ctx primaryQuery of
             Inl err \<Rightarrow> Inl (RetErr err)
           | Inr primaryRows \<Rightarrow> Inr primaryRows))"

text \<open>The three scan destinations, declared before the loop with Go's zero value.\<close>

record primary_vars =
  table_schema :: string
  table_name :: string
  engine :: string

definition primary_vars_zero :: primary_vars where
  "primary_vars_zero = \<lparr>table_schema = [], table_name = [], engine = []\<rparr>"

text \<open>
  \<open>primaryRows.Scan(&table_schema, &table_name, &engine)\<close>: destination \<open>i\<close> gets
  column \<open>i\<close>; an error is returned as it is.
\<close>

definition primary_scan :: "rows_cursor \<Rightarrow> primary_vars \<Rightarrow> go_error + primary_vars" where
  "primary_scan c vars =
     (case Rows_Scan_cur c 3 of
        Inl err \<Rightarrow> Inl err
      | Inr vals \<Rightarrow> Inr (vars\<lparr>table_schema := vals ! 0, table_name := vals ! 1, engine := vals ! 2\<rparr>))"

text \<open>The metric the loop body builds from the three variables (line 108).\<close>

definition primary_emit :: "primary_vars \<Rightarrow> run_result + Metric" where
  "primary_emit vars =
     MustNewConstMetric CheckPrimaryKeyDesc GaugeValue 0 [table_schema vars, table_name vars, engine vars]"

text \<open>
  \<open>for primaryRows.Next() { ... }\<close> on the cursor: each iteration advances the
  cursor, scans, returns on a scan error, builds the metric (a panic ends the call) and
  sends it.  The loop ends when \<open>Next\<close> reports false.  It terminates because every
  \<open>Next\<close> that reports true consumes one of the rows the driver still holds.
\<close>

function primary_rows_loop :: "rows_cursor \<Rightarrow> primary_vars \<Rightarrow> scrape_run \<times> rows_cursor" where
  "primary_rows_loop c vars =
     (case Rows_Next c of
        (False, c1) \<Rightarrow> (\<lparr>sent = [], ret = RetNil\<rparr>, c1)
      | (True, c1) \<Rightarrow>
          (case primary_scan c1 vars of
             Inl err \<Rightarrow> (\<lparr>sent = [], ret = RetErr err\<rparr>, c1)
           | Inr vars1 \<Rightarrow>
               (case primary_emit vars1 of
                  Inl p \<Rightarrow> (\<lparr>sent = [], ret = p\<rparr>, c1)
                | Inr m \<Rightarrow> (case primary_rows_loop c1 vars1 of (r, c2) \<Rightarrow> (r\<lparr>sent := m # sent r\<rparr>, c2)))))"
  by pat_completeness auto
termination
  by (relation "measure (\<lambda>(c, vars). length (rs_data c))")
     (auto simp add: Rows_Next_def split: if_splits list.splits)

declare primary_rows_loop.simps [simp del]

text \<open>
  The whole method: the prologue, \<open>defer primaryRows.Close()\<close>, the variables, the
  loop.  Its second component is the result set as the caller leaves it (\<open>None\<close> when
  no result set was opened); the deferred \<open>Close\<close> runs on every way out after line 89,
  a panic included.
\<close>

definition ScrapePrimaryKey_Run :: "go_context \<Rightarrow> db_instance \<Rightarrow> scrape_run \<times> rows_cursor option" where
  "ScrapePrimaryKey_Run ctx inst =
     (case primary_query ctx inst of
        Inl r \<Rightarrow> (\<lparr>sent = [], ret = r\<rparr>, None)
      | Inr primaryRows \<Rightarrow>
          (case primary_rows_loop (rows_open primaryRows) primary_vars_zero of
             (r, c) \<Rightarrow> (r, Some (Rows_Close c))))"

definition ScrapePrimaryKey_Scrape :: "go_context \<Rightarrow> db_instance \<Rightarrow> scrape_run" where
  "ScrapePrimaryKey_Scrape ctx inst = fst (ScrapePrimaryKey_Run ctx inst)"

definition ScrapePrimaryKey :: Scraper where
  "ScrapePrimaryKey =
     \<lparr>sc_Name = ScrapePrimaryKey_Name, sc_Help = ScrapePrimaryKey_Help,
      sc_Version = ScrapePrimaryKey_Version, sc_Scrape = ScrapePrimaryKey_Scrape\<rparr>"

section \<open>Specification helpers\<close>

text \<open>The gauge the loop sends for the label values it scanned.\<close>

definition primary_gauge :: "string list \<Rightarrow> Metric" where
  "primary_gauge vals =
     \<lparr>metric_desc = CheckPrimaryKeyDesc, metric_type = GaugeValue, metric_value = 0,
      labelValues = vals\<rparr>"

text \<open>A row the loop turns into a gauge: three non-NULL columns whose text is UTF-8.\<close>

definition primary_row_good :: "sql_value list \<Rightarrow> bool" where
  "primary_row_good row \<longleftrightarrow>
     length row = 3 \<and> SqlNull \<notin> set row \<and> list_all (utf8_ValidString \<circ> sql_text) row"

section \<open>Lemmas\<close>

subsection \<open>The descriptor\<close>

lemma CheckPrimaryKeyDesc_eq:
  "CheckPrimaryKeyDesc =
     \<lparr>fqName = ''mysql_primary_key_check'', desc_help = ScrapePrimaryKey_Help,
      variableLabels = PrimarylabelNames, constLabels = [], desc_err = None\<rparr>"
  by (simp add: CheckPrimaryKeyDesc_def NewDesc_def BuildFQName_def namespace_def
                primarySubsystem_def PrimarylabelNames_def IsValidMetricName_def
                checkLabelName_def is_ascii_letter_def is_ascii_digit_def
                ScrapePrimaryKey_Help_def)

lemma CheckPrimaryKeyDesc_sel [simp]:
  "desc_err CheckPrimaryKeyDesc = None"
  "variableLabels CheckPrimaryKeyDesc = PrimarylabelNames"
  "length PrimarylabelNames = 3"
  by (simp_all add: CheckPrimaryKeyDesc_eq PrimarylabelNames_def)

subsection \<open>The row loop\<close>

lemma MustNewConstMetric_primary [simp]:
  "length vals = 3 \<Longrightarrow> list_all utf8_ValidString vals \<Longrightarrow>
     MustNewConstMetric CheckPrimaryKeyDesc GaugeValue 0 vals = Inr (primary_gauge vals)"
  by (simp add: MustNewConstMetric_def NewConstMetric_ok primary_gauge_def)

lemma primary_row_loop_append:
  "primary_row_loop cols (xs @ ys) =
     (if ret (primary_row_loop cols xs) = RetNil
      then (primary_row_loop cols ys)
             \<lparr>sent := sent (primary_row_loop cols xs) @ sent (primary_row_loop cols ys)\<rparr>
      else primary_row_loop cols xs)"
proof (induction xs)
  case Nil
  then show ?case by simp
next
  case (Cons x xs)
  show ?case
  proof (cases "Rows_Scan cols x 3")
    case (Inr vals)
    then show ?thesis
      using Cons.IH MustNewConstMetric_Inl_panic [of CheckPrimaryKeyDesc GaugeValue 0 vals]
      by (cases "MustNewConstMetric CheckPrimaryKeyDesc GaugeValue 0 vals")
         (auto simp add: Let_def elim: is_panic.elims)
  qed simp
qed

lemma primary_row_loop_good:
  assumes "length cols = 3" and "list_all primary_row_good rows"
  shows "primary_row_loop cols rows =
           \<lparr>sent = map (primary_gauge \<circ> map sql_text) rows, ret = RetNil\<rparr>"
  using assms(2)
proof (induction rows)
  case (Cons row rows)
  then have "length row = 3" and "SqlNull \<notin> set row"
    and "list_all utf8_ValidString (map sql_text row)"
    by (simp_all add: primary_row_good_def list_all_iff)
  with assms(1) Cons show ?case
    by (simp add: Let_def)
qed simp

lemma primary_row_loop_null:
  assumes "length cols = 3" and "length row = 3" and "SqlNull \<in> set row"
  shows "\<exists>e. primary_row_loop cols (row # rows) = \<lparr>sent = [], ret = RetErr e\<rparr>"
  using Rows_Scan_null [of cols row 3] assms by auto

lemma primary_row_loop_utf8:
  assumes "length cols = 3" and "length row = 3" and "SqlNull \<notin> set row"
    and "\<not> list_all (utf8_ValidString \<circ> sql_text) row"
  shows "\<exists>v. \<not> utf8_ValidString v \<and>
           primary_row_loop cols (row # rows) = \<lparr>sent = [], ret = Panic (ErrLabelUtf8 v)\<rparr>"
proof -
  have "\<not> list_all utf8_ValidString (map sql_text row)"
    using assms(4) by (simp add: list_all_iff)
  then obtain v where "\<not> utf8_ValidString v"
    and "MustNewConstMetric CheckPrimaryKeyDesc GaugeValue 0 (map sql_text row) =
         Inl (Panic (ErrLabelUtf8 v))"
    using MustNewConstMetric_utf8 [of CheckPrimaryKeyDesc "map sql_text row"] assms(2)
    by auto
  with assms(1-3) show ?thesis by auto
qed

subsection \<open>The loop on the result-set cursor\<close>

lemma primary_rows_loop_end:
  "Rows_Next c = (False, c1) \<Longrightarrow> primary_rows_loop c vars = (\<lparr>sent = [], ret = RetNil\<rparr>, c1)"
  by (simp add: primary_rows_loop.simps [of c vars])

lemma primary_rows_loop_next:
  "Rows_Next c = (True, c1) \<Longrightarrow>
     primary_rows_loop c vars =
       (case primary_scan c1 vars of
          Inl err \<Rightarrow> (\<lparr>sent = [], ret = RetErr err\<rparr>, c1)
        | Inr vars1 \<Rightarrow>
            (case primary_emit vars1 of
               Inl p \<Rightarrow> (\<lparr>sent = [], ret = p\<rparr>, c1)
             | Inr m \<Rightarrow> (case primary_rows_loop c1 vars1 of (r, c2) \<Rightarrow> (r\<lparr>sent := m # sent r\<rparr>, c2))))"
  by (simp add: primary_rows_loop.simps [of c vars])

text \<open>
  Induction over a finished run of the loop, one case per way an iteration can go:
  \<open>Next\<close> reports the end, \<open>Scan\<close> fails, \<open>MustNewConstMetric\<close> panics, or the
  gauge is sent and the loop goes on.  The facts below follow it.
\<close>

lemma primary_rows_loop_run_induct [consumes 1, case_names Stop ScanErr Panic Send]:
  assumes run: "primary_rows_loop c vars = (r, c')"
    and stop: "\<And>c vars c'. Rows_Next c = (False, c') \<Longrightarrow> P c vars \<lparr>sent = [], ret = RetNil\<rparr> c'"
    and scanerr: "\<And>c vars c' e. Rows_Next c = (True, c') \<Longrightarrow> primary_scan c' vars = Inl e \<Longrightarrow>
                     P c vars \<lparr>sent = [], ret = RetErr e\<rparr> c'"
    and panic: "\<And>c vars c' vars1 p. Rows_Next c = (True, c') \<Longrightarrow> primary_scan c' vars = Inr vars1 \<Longrightarrow>
                   primary_emit vars1 = Inl p \<Longrightarrow> P c vars \<lparr>sent = [], ret = p\<rparr> c'"
    and send: "\<And>c vars c1 vars1 m r2 c'. Rows_Next c = (True, c1) \<Longrightarrow> primary_scan c1 vars = Inr vars1 \<Longrightarrow>
                  primary_emit vars1 = Inr m \<Longrightarrow> primary_rows_loop c1 vars1 = (r2, c') \<Longrightarrow>
                  P c1 vars1 r2 c' \<Longrightarrow> P c vars (r2\<lparr>sent := m # sent r2\<rparr>) c'"
  shows "P c vars r c'"
  using run
proof (induction c vars arbitrary: r c' rule: primary_rows_loop.induct)
  case (1 c vars)
  obtain b c1 where nx: "Rows_Next c = (b, c1)" by fastforce
  show ?case
  proof (cases b)
    case False
    with "1.prems" nx stop show ?thesis by (simp add: primary_rows_loop_end)
  next
    case True
    have nx1: "Rows_Next c = (True, c1)" using nx True by simp
    show ?thesis
    proof (cases "primary_scan c1 vars")
      case (Inl e)
      with "1.prems" nx True scanerr show ?thesis by (auto simp add: primary_rows_loop_next)
    next
      case (Inr vars1)
      show ?thesis
      proof (cases "primary_emit vars1")
        case (Inl p)
        with "1.prems" nx True Inr panic show ?thesis by (auto simp add: primary_rows_loop_next)
      next
        case (Inr m)
        obtain r2 c2 where rc: "primary_rows_loop c1 vars1 = (r2, c2)" by fastforce
        with "1.prems" nx True \<open>primary_scan c1 vars = Inr vars1\<close> Inr
        have "r = r2\<lparr>sent := m # sent r2\<rparr>" "c' = c2" by (auto simp add: primary_rows_loop_next)
        with send [OF nx1 \<open>primary_scan c1 vars = Inr vars1\<close> Inr rc]
             "1.IH" [OF nx [symmetric] eqTrueI [OF True] \<open>primary_scan c1 vars = Inr vars1\<close> Inr rc] rc
        show ?thesis by simp
      qed
    qed
  qed
qed

lemma primary_scan_emit:
  assumes "length (rs_columns c) = 3" and "cur_lasterr c = None" and "\<not> cur_closed c"
    and "cur_last c = Some row" and "Rows_Scan (rs_columns c) row 3 = Inr vals"
  shows "\<exists>vars1. primary_scan c vars = Inr vars1 \<and>
           primary_emit vars1 = MustNewConstMetric CheckPrimaryKeyDesc GaugeValue 0 vals"
proof -
  have "length vals = 3" using Rows_Scan_length assms(1,5) by blast
  then obtain a b d where "vals = [a, b, d]" by (auto simp add: numeral_3_eq_3 length_Suc_conv)
  then show ?thesis using assms(2-5) by (simp add: primary_scan_def primary_emit_def)
qed

lemma primary_rows_loop_refines:
  assumes "length (rs_columns c) = 3" and "cur_lasterr c = None" and "\<not> cur_closed c"
  shows "fst (primary_rows_loop c vars) = primary_row_loop (rs_columns c) (rs_data c)"
  using assms
proof (induction "rs_data c" arbitrary: c vars)
  case Nil
  then show ?case by (simp add: primary_rows_loop_end)
next
  case (Cons row rest)
  define c1 where "c1 = c\<lparr>rs_data := rest, cur_last := Some row\<rparr>"
  have nx: "Rows_Next c = (True, c1)" using Cons.hyps(2) Cons.prems by (simp add: c1_def)
  have c1: "length (rs_columns c1) = 3" "cur_lasterr c1 = None" "\<not> cur_closed c1"
    "cur_last c1 = Some row" "rs_data c1 = rest" "rs_columns c1 = rs_columns c"
    using Cons.prems by (simp_all add: c1_def)
  show ?case
  proof (cases "Rows_Scan (rs_columns c) row 3")
    case (Inl e)
    then have "primary_scan c1 vars = Inl e" using c1 by (simp add: primary_scan_def)
    with Inl Cons.hyps(2) [symmetric] show ?thesis by (simp add: primary_rows_loop_next [OF nx])
  next
    case (Inr vals)
    obtain vars1 where sc: "primary_scan c1 vars = Inr vars1"
      and em: "primary_emit vars1 = MustNewConstMetric CheckPrimaryKeyDesc GaugeValue 0 vals"
      using primary_scan_emit [OF c1(1-4)] Inr c1(6) by fastforce
    show ?thesis
    proof (cases "MustNewConstMetric CheckPrimaryKeyDesc GaugeValue 0 vals")
      case (Inl p)
      with Inr Cons.hyps(2) [symmetric] sc em show ?thesis by (simp add: primary_rows_loop_next [OF nx])
    next
      case (Inr m)
      have IH: "fst (primary_rows_loop c1 vars1) = primary_row_loop (rs_columns c) rest"
        using Cons.hyps(1) [of c1 vars1] c1 by simp
      obtain r c2 where rc: "primary_rows_loop c1 vars1 = (r, c2)" by fastforce
      with IH have "r = primary_row_loop (rs_columns c) rest" by simp
      with Inr \<open>Rows_Scan (rs_columns c) row 3 = Inr vals\<close> Cons.hyps(2) [symmetric] sc em rc
      show ?thesis by (simp add: primary_rows_loop_next [OF nx] Let_def)
    qed
  qed
qed

lemma primary_emit_Inr:
  "primary_emit vars = Inr m \<Longrightarrow>
     m = primary_gauge [table_schema vars, table_name vars, engine vars] \<and>
     list_all utf8_ValidString [table_schema vars, table_name vars, engine vars]"
  by (auto simp add: primary_emit_def MustNewConstMetric_def primary_gauge_def
           dest!: NewConstMetric_Inr split: sum.splits)

lemma primary_emit_Inl:
  "primary_emit vars = Inl p \<Longrightarrow> \<exists>v. p = Panic (ErrLabelUtf8 v)"
  by (auto simp add: primary_emit_def MustNewConstMetric_def NewConstMetric_def
                     validateLabelValues_def split: sum.splits option.splits if_splits)

text \<open>
  The facts below follow the loop's own induction: one iteration, then the rest of the
  loop on the advanced cursor.
\<close>

lemma primary_rows_loop_sent:
  "m \<in> set (sent (fst (primary_rows_loop c vars))) \<Longrightarrow>
     \<exists>vals. m = primary_gauge vals \<and> length vals = 3 \<and> list_all utf8_ValidString vals"
proof -
  obtain r c' where run: "primary_rows_loop c vars = (r, c')" by fastforce
  have "m \<in> set (sent r) \<longrightarrow> (\<exists>vals. m = primary_gauge vals \<and> length vals = 3 \<and>
          list_all utf8_ValidString vals)"
    using run by (induction rule: primary_rows_loop_run_induct) (auto dest!: primary_emit_Inr)
  then show "m \<in> set (sent (fst (primary_rows_loop c vars))) \<Longrightarrow> ?thesis" using run by simp
qed

lemma primary_rows_loop_panic_utf8:
  "ret (fst (primary_rows_loop c vars)) = Panic e \<Longrightarrow> \<exists>v. e = ErrLabelUtf8 v"
proof -
  obtain r c' where run: "primary_rows_loop c vars = (r, c')" by fastforce
  have "ret r = Panic e \<longrightarrow> (\<exists>v. e = ErrLabelUtf8 v)"
    using run by (induction rule: primary_rows_loop_run_induct) (auto dest: primary_emit_Inl)
  then show "ret (fst (primary_rows_loop c vars)) = Panic e \<Longrightarrow> ?thesis" using run by simp
qed

lemma primary_rows_loop_exit:
  "primary_rows_loop c vars = (r, c') \<Longrightarrow> \<not> cur_closed c \<Longrightarrow> ret r = RetNil \<Longrightarrow>
     cur_closed c' \<and> rs_data c' = [] \<and> cur_lasterr c' = rs_err c"
proof (induction rule: primary_rows_loop_run_induct)
  case (Stop c vars c')
  from Rows_Next_False [OF Stop.hyps Stop.prems(1)] show ?case by simp
next
  case (ScanErr c vars c' e)
  then show ?case by simp
next
  case (Panic c vars c' vars1 p)
  then show ?case by (auto dest: primary_emit_Inl)
next
  case (Send c vars c1 vars1 m r2 c')
  from Rows_Next_True [OF Send.hyps(1)] have "\<not> cur_closed c1" "rs_err c1 = rs_err c" by auto
  with Send.IH Send.prems show ?case by simp
qed

lemma primary_rows_loop_bound:
  "primary_rows_loop c vars = (r, c') \<Longrightarrow> length (sent r) + length (rs_data c') \<le> length (rs_data c)"
proof (induction rule: primary_rows_loop_run_induct)
  case (Stop c vars c')
  then show ?case by (auto simp add: Rows_Next_def split: if_splits list.splits)
qed (auto dest!: Rows_Next_True)

lemma primary_rows_loop_position:
  "primary_rows_loop c vars = (r, c') \<Longrightarrow> \<not> cur_closed c \<Longrightarrow>
     rs_data c' = drop (length (sent r) + (if ret r = RetNil then 0 else 1)) (rs_data c)"
proof (induction rule: primary_rows_loop_run_induct)
  case (Stop c vars c')
  from Rows_Next_False [OF Stop.hyps Stop.prems] show ?case by simp
next
  case (ScanErr c vars c' e)
  then show ?case by (auto dest!: Rows_Next_True)
next
  case (Panic c vars c' vars1 p)
  then show ?case by (auto dest!: primary_emit_Inl Rows_Next_True)
next
  case (Send c vars c1 vars1 m r2 c')
  from Rows_Next_True [OF Send.hyps(1)] obtain row where
    "rs_data c = row # rs_data c1" "\<not> cur_closed c1" by auto
  with Send.IH show ?case by simp
qed

text \<open>
  A scan error of the loop, on a cursor that has not failed, is the error \<open>Scan\<close> gives
  on one of the rows the cursor still held: the loop scans only after a \<open>Next\<close> that
  delivered a row.
\<close>

lemma primary_rows_loop_scan_error:
  assumes "primary_rows_loop c vars = (r, c')" and "cur_lasterr c = None" and "ret r = RetErr e"
  shows "\<exists>row \<in> set (rs_data c). Rows_Scan (rs_columns c) row 3 = Inl e"
  using assms
proof (induction rule: primary_rows_loop_run_induct)
  case (ScanErr c vars c' e')
  then show ?case by (auto simp add: primary_scan_def dest!: Rows_Next_True split: sum.splits)
next
  case (Panic c vars c' vars1 p)
  then show ?case by (auto dest: primary_emit_Inl)
next
  case (Send c vars c1 vars1 m r2 c')
  then show ?case by (auto dest!: Rows_Next_True)
qed simp

lemma ScrapePrimaryKey_Run_query:
  "ScrapePrimaryKey_Run ctx inst =
     (case getDB inst of
        None \<Rightarrow> (\<lparr>sent = [], ret = Panic ErrNilDB\<rparr>, None)
      | Some db \<Rightarrow>
          (case QueryContext db ctx primaryQuery of
             Inl err \<Rightarrow> (\<lparr>sent = [], ret = RetErr err\<rparr>, None)
           | Inr rs \<Rightarrow>
               (fst (primary_rows_loop (rows_open rs) primary_vars_zero),
                Some (Rows_Close (snd (primary_rows_loop (rows_open rs) primary_vars_zero))))))"
  by (simp add: ScrapePrimaryKey_Run_def primary_query_def split: option.splits sum.splits prod.splits)

lemma ScrapePrimaryKey_Run_rows:
  "getDB inst = Some db \<Longrightarrow> QueryContext db ctx primaryQuery = Inr rs \<Longrightarrow>
     ScrapePrimaryKey_Run ctx inst =
       (fst (primary_rows_loop (rows_open rs) primary_vars_zero),
        Some (Rows_Close (snd (primary_rows_loop (rows_open rs) primary_vars_zero))))"
  by (simp add: ScrapePrimaryKey_Run_query)

lemma ScrapePrimaryKey_Scrape_connected:
  "getDB inst = Some db \<Longrightarrow> ret (ScrapePrimaryKey_Scrape ctx inst) \<noteq> Panic ErrNilDB"
  using primary_rows_loop_panic_utf8
  by (fastforce simp add: ScrapePrimaryKey_Scrape_def ScrapePrimaryKey_Run_query split: sum.splits)

lemma ScrapePrimaryKey_Scrape_sent_gauge:
  "m \<in> set (sent (ScrapePrimaryKey_Scrape ctx inst)) \<Longrightarrow>
     \<exists>vals. m = primary_gauge vals \<and> length vals = 3 \<and> list_all utf8_ValidString vals"
  by (auto simp add: ScrapePrimaryKey_Scrape_def ScrapePrimaryKey_Run_query
           split: option.splits sum.splits dest: primary_rows_loop_sent)

subsection \<open>Rows of a correct answer\<close>

lemma primary_gauge_sel [simp]:
  "labelValues (primary_gauge vals) = vals"
  "metric_desc (primary_gauge vals) = CheckPrimaryKeyDesc"
  "metric_type (primary_gauge vals) = GaugeValue"
  "metric_value (primary_gauge vals) = 0"
  by (simp_all add: primary_gauge_def)

lemma primary_select_good:
  "t_engine t \<noteq> None \<Longrightarrow> list_all utf8_ValidString (table_labels t) \<Longrightarrow>
     primary_row_good (primary_select (t, x))"
  by (auto simp add: primary_row_good_def primary_select_def table_labels_def)

subsection \<open>Scrape\<close>

lemma ScrapePrimaryKey_Scrape_rows:
  "getDB inst = Some db \<Longrightarrow> QueryContext db ctx primaryQuery = Inr rs \<Longrightarrow>
     length (rs_columns rs) = 3 \<Longrightarrow>
     ScrapePrimaryKey_Scrape ctx inst = primary_row_loop (rs_columns rs) (rs_data rs)"
  using primary_rows_loop_refines [of "rows_open rs" primary_vars_zero]
  by (simp add: ScrapePrimaryKey_Scrape_def ScrapePrimaryKey_Run_query)

text \<open>
  The run of \<open>Scrape\<close> against a correct answer, the core the claims about a correct
  server share: nil, one gauge per row, and the rows' labels are the tables' labels.
\<close>

lemma ScrapePrimaryKey_Scrape_answer:
  assumes db: "getDB inst = Some db"
    and q: "QueryContext db ctx primaryQuery = Inr rs"
    and ans: "primaryQuery_answer coll info rs"
    and tbl: "\<forall>t \<in> set (tables_without_pk info).
                t_engine t \<noteq> None \<and> list_all utf8_ValidString (table_labels t)"
  shows "ScrapePrimaryKey_Scrape ctx inst =
           \<lparr>sent = map (primary_gauge \<circ> map sql_text) (rs_data rs), ret = RetNil\<rparr>"
    and "mset (map (map sql_text) (rs_data rs)) = mset (map table_labels (tables_without_pk info))"
proof -
  let ?T = "tables_without_pk info"
  have good: "list_all primary_row_good (rs_data rs)"
    using primaryQuery_answer_rows [OF ans] tbl primary_select_good
    by (fastforce simp add: list_all_iff)
  have cols: "length (rs_columns rs) = 3"
    using ans by (simp add: primaryQuery_answer_def)
  show "ScrapePrimaryKey_Scrape ctx inst =
          \<lparr>sent = map (primary_gauge \<circ> map sql_text) (rs_data rs), ret = RetNil\<rparr>"
    using ScrapePrimaryKey_Scrape_rows [OF db q cols] primary_row_loop_good [OF cols good] by simp
  have "mset (map (map sql_text) (rs_data rs)) =
          mset (map (\<lambda>t. map sql_text (primary_select (t, None))) ?T)"
    by (simp add: primaryQuery_answer_mset [OF ans] multiset.map_comp comp_def)
  also have "\<dots> = mset (map table_labels ?T)"
    using tbl primary_select_text by (metis (mono_tags, lifting) map_eq_conv)
  finally show "mset (map (map sql_text) (rs_data rs)) = mset (map table_labels ?T)" .
qed

text \<open>
  C1: against a server whose answer to the query is correct, \<open>Scrape\<close> returns nil and
  sends one gauge per base table without a primary key (outside the two system
  schemas), labelled with its schema, name and engine, valued 0, in table-name order;
  provided those tables have an engine and UTF-8 names, as the loop needs.
\<close>

theorem ScrapePrimaryKey_Scrape_correct:
  assumes db: "getDB inst = Some db"
    and q: "QueryContext db ctx primaryQuery = Inr rs"
    and ans: "primaryQuery_answer coll info rs"
    and tbl: "\<forall>t \<in> set (tables_without_pk info).
                t_engine t \<noteq> None \<and> list_all utf8_ValidString (table_labels t)"
  shows "ret (ScrapePrimaryKey_Scrape ctx inst) = RetNil \<and>
         mset (map labelValues (sent (ScrapePrimaryKey_Scrape ctx inst))) =
           mset (map table_labels (tables_without_pk info)) \<and>
         (\<forall>m \<in> set (sent (ScrapePrimaryKey_Scrape ctx inst)).
            metric_desc m = CheckPrimaryKeyDesc \<and> metric_type m = GaugeValue \<and>
            metric_value m = 0) \<and>
         sorted (map (\<lambda>m. coll (labelValues m ! 1)) (sent (ScrapePrimaryKey_Scrape ctx inst)))"
proof -
  note run = ScrapePrimaryKey_Scrape_answer(1) [OF db q ans tbl]
    and labels = ScrapePrimaryKey_Scrape_answer(2) [OF db q ans tbl]
  have ord: "map (\<lambda>m. coll (labelValues m ! 1)) (sent (ScrapePrimaryKey_Scrape ctx inst)) =
          map (coll \<circ> row_table_name) (rs_data rs)"
  proof -
    have "map sql_text r ! 1 = row_table_name r" if r: "r \<in> set (rs_data rs)" for r
    proof -
      obtain t where rt: "r = primary_select (t, None)"
        using primaryQuery_answer_rows [OF ans r] by blast
      then have "row_table_name r = t_table_name t" by simp
      moreover have "map sql_text r ! 1 = t_table_name t"
        using rt by (simp add: primary_select_def)
      ultimately show ?thesis by simp
    qed
    then show ?thesis by (simp add: run)
  qed
  have "sorted (map (coll \<circ> row_table_name) (rs_data rs))"
    using ans by (simp add: primaryQuery_answer_def primary_order_by_def)
  then have srt: "sorted (map (\<lambda>m. coll (labelValues m ! 1)) (sent (ScrapePrimaryKey_Scrape ctx inst)))"
    by (subst ord)
  show ?thesis
  proof (intro conjI)
    show "sorted (map (\<lambda>m. coll (labelValues m ! 1)) (sent (ScrapePrimaryKey_Scrape ctx inst)))"
      by (rule srt)
  qed (use run labels in \<open>simp_all add: comp_def\<close>)
qed

lemma primary_row_loop_prefix:
  assumes "length cols = 3" and "list_all primary_row_good good"
  shows "primary_row_loop cols (good @ rest) =
           (primary_row_loop cols rest)
             \<lparr>sent := map (primary_gauge \<circ> map sql_text) good @ sent (primary_row_loop cols rest)\<rparr>"
  using primary_row_loop_good [OF assms] by (simp add: primary_row_loop_append)

text \<open>C7: a failing query sends nothing and returns the query's error.\<close>

theorem ScrapePrimaryKey_Scrape_query_error:
  "getDB inst = Some db \<Longrightarrow> QueryContext db ctx primaryQuery = Inl e \<Longrightarrow>
     ScrapePrimaryKey_Scrape ctx inst = \<lparr>sent = [], ret = RetErr e\<rparr>"
  by (simp add: ScrapePrimaryKey_Scrape_def ScrapePrimaryKey_Run_query)

text \<open>
  C8: a row with a NULL column (a base table whose \<open>engine\<close> is NULL) ends the scrape
  with a scan error after the gauges of the rows before it have been sent.
\<close>

theorem ScrapePrimaryKey_Scrape_null_column:
  assumes "getDB inst = Some db" and "QueryContext db ctx primaryQuery = Inr rs"
    and "length (rs_columns rs) = 3" and "rs_data rs = good @ row # rest"
    and "list_all primary_row_good good" and "length row = 3" and "SqlNull \<in> set row"
  shows "\<exists>e. ScrapePrimaryKey_Scrape ctx inst =
               \<lparr>sent = map (primary_gauge \<circ> map sql_text) good, ret = RetErr e\<rparr>"
proof -
  obtain e where "primary_row_loop (rs_columns rs) (row # rest) = \<lparr>sent = [], ret = RetErr e\<rparr>"
    using primary_row_loop_null assms(3,6,7) by blast
  then show ?thesis
    using assms ScrapePrimaryKey_Scrape_rows primary_row_loop_prefix by simp
qed

text \<open>
  C9: \<open>primaryRows.Err()\<close> is never read.  When the row stream was cut short by an
  error (the context's deadline passing mid-stream, a broken connection), \<open>Scrape\<close>
  still returns nil after sending the gauges of the rows that did arrive.
\<close>

theorem ScrapePrimaryKey_Scrape_ignores_rows_err:
  assumes "getDB inst = Some db" and "QueryContext db ctx primaryQuery = Inr rs"
    and "length (rs_columns rs) = 3" and "list_all primary_row_good (rs_data rs)"
    and "rs_err rs = Some e"
  shows "ScrapePrimaryKey_Scrape ctx inst =
           \<lparr>sent = map (primary_gauge \<circ> map sql_text) (rs_data rs), ret = RetNil\<rparr>"
  using assms(1-4) ScrapePrimaryKey_Scrape_rows primary_row_loop_good by simp

text \<open>
  C10: a label value that is not valid UTF-8 makes \<open>MustNewConstMetric\<close> panic, after
  the gauges of the rows before it have been sent.
\<close>

theorem ScrapePrimaryKey_Scrape_panics_on_utf8:
  assumes "getDB inst = Some db" and "QueryContext db ctx primaryQuery = Inr rs"
    and "length (rs_columns rs) = 3" and "rs_data rs = good @ row # rest"
    and "list_all primary_row_good good" and "length row = 3" and "SqlNull \<notin> set row"
    and "\<not> list_all (utf8_ValidString \<circ> sql_text) row"
  shows "\<exists>v. \<not> utf8_ValidString v \<and>
           ScrapePrimaryKey_Scrape ctx inst =
             \<lparr>sent = map (primary_gauge \<circ> map sql_text) good, ret = Panic (ErrLabelUtf8 v)\<rparr>"
proof -
  obtain v where "\<not> utf8_ValidString v"
    and "primary_row_loop (rs_columns rs) (row # rest) = \<lparr>sent = [], ret = Panic (ErrLabelUtf8 v)\<rparr>"
    using primary_row_loop_utf8 assms(3,6,7,8) by blast
  then show ?thesis
    using assms ScrapePrimaryKey_Scrape_rows primary_row_loop_prefix by auto
qed

text \<open>An instance that was never connected has a nil handle, and \<open>Scrape\<close> panics.\<close>

lemma ScrapePrimaryKey_Scrape_nil:
  "getDB inst = None \<Longrightarrow> ScrapePrimaryKey_Scrape ctx inst = \<lparr>sent = [], ret = Panic ErrNilDB\<rparr>"
  by (simp add: ScrapePrimaryKey_Scrape_def ScrapePrimaryKey_Run_query)

text \<open>
  C11: on every branch and against any server, each metric \<open>Scrape\<close> sends is a gauge
  of the check descriptor with value 0 and three label values, one per label name: the
  label schema of spec section 3 never varies.
\<close>

theorem ScrapePrimaryKey_Scrape_label_schema:
  "fixed_label_schema (ScrapePrimaryKey_Scrape ctx inst) \<and>
   (\<forall>m \<in> set (sent (ScrapePrimaryKey_Scrape ctx inst)).
      metric_desc m = CheckPrimaryKeyDesc \<and> metric_type m = GaugeValue \<and> metric_value m = 0 \<and>
      length (labelValues m) = length PrimarylabelNames)"
  using ScrapePrimaryKey_Scrape_sent_gauge by (fastforce simp add: fixed_label_schema_def)

text \<open>
  C12: on every branch, the row loop sends the gauges of a prefix of the rows, in the
  rows' order, every row of the prefix good; it returns nil exactly when the prefix is
  all the rows.
\<close>

theorem primary_row_loop_sends_prefix:
  assumes "length cols = 3"
  shows "\<exists>k \<le> length rows.
           sent (primary_row_loop cols rows) = map (primary_gauge \<circ> map sql_text) (take k rows) \<and>
           list_all primary_row_good (take k rows) \<and>
           (ret (primary_row_loop cols rows) = RetNil \<longleftrightarrow> k = length rows)"
proof (induction rows)
  case Nil
  then show ?case by simp
next
  case (Cons row rows)
  show ?case
  proof (cases "primary_row_good row")
    case True
    then obtain k where k: "k \<le> length rows"
      and IH: "sent (primary_row_loop cols rows) = map (primary_gauge \<circ> map sql_text) (take k rows) \<and>
               list_all primary_row_good (take k rows) \<and>
               (ret (primary_row_loop cols rows) = RetNil \<longleftrightarrow> k = length rows)"
      using Cons.IH by blast
    have "primary_row_loop cols (row # rows) =
            (primary_row_loop cols rows)\<lparr>sent := primary_gauge (map sql_text row) # sent (primary_row_loop cols rows)\<rparr>"
      using primary_row_loop_prefix [OF assms, of "[row]" rows] True by simp
    with k IH True show ?thesis
      by (intro exI [of _ "Suc k"]) simp
  next
    case False
    have "ret (primary_row_loop cols (row # rows)) \<noteq> RetNil \<and> sent (primary_row_loop cols (row # rows)) = []"
    proof (cases "length row = 3 \<and> SqlNull \<notin> set row")
      case True
      with False have u: "\<not> list_all (utf8_ValidString \<circ> sql_text) row"
        by (simp add: primary_row_good_def)
      from True have "length row = 3" and "SqlNull \<notin> set row" by simp_all
      then obtain v where "primary_row_loop cols (row # rows) = \<lparr>sent = [], ret = Panic (ErrLabelUtf8 v)\<rparr>"
        using primary_row_loop_utf8 [OF assms _ _ u] by blast
      then show ?thesis by simp
    next
      case bad: False
      show ?thesis
      proof (cases "length row = 3")
        case True
        with bad have "SqlNull \<in> set row" by simp
        then obtain e where "primary_row_loop cols (row # rows) = \<lparr>sent = [], ret = RetErr e\<rparr>"
          using primary_row_loop_null [OF assms True] by blast
        then show ?thesis by simp
      next
        case False
        then show ?thesis by (simp add: Rows_Scan_def)
      qed
    qed
    then show ?thesis by (intro exI [of _ 0]) simp
  qed
qed

text \<open>
  C13: against a server that answers the query correctly, every gauge \<open>Scrape\<close> sends
  names a base table without a primary key outside the two system schemas, with its
  schema, name and engine, on every branch (even when a later row stops the loop).
\<close>

theorem ScrapePrimaryKey_Scrape_only_tables_without_pk:
  assumes db: "getDB inst = Some db" and q: "QueryContext db ctx primaryQuery = Inr rs"
    and ans: "primaryQuery_answer coll info rs"
  shows "\<forall>m \<in> set (sent (ScrapePrimaryKey_Scrape ctx inst)).
           \<exists>t \<in> set (tables_without_pk info). labelValues m = table_labels t"
proof
  fix m
  assume m: "m \<in> set (sent (ScrapePrimaryKey_Scrape ctx inst))"
  have cols: "length (rs_columns rs) = 3"
    using ans by (simp add: primaryQuery_answer_def)
  obtain k where pre: "sent (primary_row_loop (rs_columns rs) (rs_data rs)) =
                         map (primary_gauge \<circ> map sql_text) (take k (rs_data rs))"
    and good: "list_all primary_row_good (take k (rs_data rs))"
    using primary_row_loop_sends_prefix [OF cols] by blast
  have "sent (ScrapePrimaryKey_Scrape ctx inst) = map (primary_gauge \<circ> map sql_text) (take k (rs_data rs))"
    using ScrapePrimaryKey_Scrape_rows [OF db q cols] pre by simp
  with m obtain r where r: "r \<in> set (take k (rs_data rs))" and mr: "m = primary_gauge (map sql_text r)"
    by auto
  have "r \<in> set (rs_data rs)" using r by (rule in_set_takeD)
  then obtain t where t: "t \<in> set (tables_without_pk info)" and rt: "r = primary_select (t, None)"
    using primaryQuery_answer_rows [OF ans] by blast
  have "SqlNull \<notin> set r" using r good by (auto simp add: list_all_iff primary_row_good_def)
  then have eng: "t_engine t \<noteq> None" using rt by (auto simp add: primary_select_def split: option.splits)
  have "labelValues m = table_labels t"
    using mr rt primary_select_text [OF eng] by simp
  with t show "\<exists>t \<in> set (tables_without_pk info). labelValues m = table_labels t" by blast
qed

text \<open>
  C18: the loop on the result-set cursor refines the loop over the delivered rows.  From
  a freshly opened cursor over three columns, it computes the run of
  \<open>primary_row_loop\<close>, and it leaves the cursor just past the rows it read: one per
  gauge sent, and the failing row if the run did not end with nil.
\<close>

theorem primary_rows_loop_refines_list:
  assumes "length (rs_columns c) = 3" and "cur_lasterr c = None" and "\<not> cur_closed c"
    and "primary_rows_loop c vars = (r, c')"
  shows "r = primary_row_loop (rs_columns c) (rs_data c) \<and>
         rs_data c' = drop (length (sent r) + (if ret r = RetNil then 0 else 1)) (rs_data c)"
  using primary_rows_loop_refines [OF assms(1-3), of vars] primary_rows_loop_position [OF assms(4,3)]
        assms(4) by simp

text \<open>
  C19: the \<open>for primaryRows.Next()\<close> loop ends normally only at the end of the result
  set: \<open>Next\<close> has delivered every row (one gauge each), reported the end and closed
  the set, and \<open>Err()\<close> then holds how the stream ended, the error included.
\<close>

theorem primary_rows_loop_exits_at_end:
  assumes "\<not> cur_closed c" and "primary_rows_loop c vars = (r, c')" and "ret r = RetNil"
  shows "cur_closed c' \<and> rs_data c' = [] \<and> Rows_Err c' = rs_err c \<and>
         length (sent r) = length (rs_data c)"
proof -
  have fin: "cur_closed c' \<and> rs_data c' = [] \<and> cur_lasterr c' = rs_err c"
    by (rule primary_rows_loop_exit [OF assms(2,1,3)])
  have "rs_data c' = drop (length (sent r)) (rs_data c)"
    using primary_rows_loop_position [OF assms(2,1)] assms(3) by simp
  with fin have "length (rs_data c) \<le> length (sent r)" by simp
  moreover have "length (sent r) \<le> length (rs_data c)"
    using primary_rows_loop_bound [OF assms(2)] by simp
  ultimately show ?thesis using fin by (simp add: Rows_Err_def)
qed

text \<open>
  C20: \<open>defer primaryRows.Close()\<close>.  \<open>Scrape\<close> leaves a result set behind exactly
  when the query returned one, and that result set is closed on every way out: nil, a
  scan error, a panic of \<open>MustNewConstMetric\<close>.
\<close>

theorem ScrapePrimaryKey_Run_closes_rows:
  "(snd (ScrapePrimaryKey_Run ctx inst) = None \<or>
    (\<exists>c. snd (ScrapePrimaryKey_Run ctx inst) = Some c \<and> cur_closed c)) \<and>
   (snd (ScrapePrimaryKey_Run ctx inst) \<noteq> None \<longleftrightarrow>
    (\<exists>db rs. getDB inst = Some db \<and> QueryContext db ctx primaryQuery = Inr rs))"
  by (simp add: ScrapePrimaryKey_Run_def primary_query_def split: option.splits sum.splits prod.splits)

text \<open>
  C21: against any server, \<open>Scrape\<close> sends at most one gauge per row of the result set.
\<close>

theorem ScrapePrimaryKey_Scrape_sends_at_most_rows:
  assumes "getDB inst = Some db" and "QueryContext db ctx primaryQuery = Inr rs"
  shows "length (sent (ScrapePrimaryKey_Scrape ctx inst)) \<le> length (rs_data rs)"
proof -
  obtain r c' where rc: "primary_rows_loop (rows_open rs) primary_vars_zero = (r, c')" by fastforce
  then have "length (sent r) \<le> length (rs_data rs)"
    using primary_rows_loop_bound [OF rc] by simp
  with rc show ?thesis
    by (simp add: ScrapePrimaryKey_Scrape_def ScrapePrimaryKey_Run_rows [OF assms])
qed

text \<open>
  C22: round trip through the database boundary.  Scanning the row the query selects
  for a table with an engine writes back the table's schema, name and engine into the
  three variables.
\<close>

theorem primary_scan_select_roundtrip:
  assumes "length (rs_columns c) = 3" and "cur_lasterr c = None" and "\<not> cur_closed c"
    and "cur_last c = Some (primary_select (t, None))" and "t_engine t \<noteq> None"
  shows "\<exists>vars1. primary_scan c vars = Inr vars1 \<and> table_schema vars1 = t_table_schema t \<and>
           table_name vars1 = t_table_name t \<and> Some (engine vars1) = t_engine t"
  using assms by (auto simp add: primary_scan_def primary_select_def)

text \<open>
  C23: the loop uses the cursor in the order \<open>database/sql\<close> requires.  Every scan
  error \<open>Scrape\<close> returns on a result set is the error \<open>Scan\<close> gives on one of its
  rows, never "Rows are closed" nor "Scan called without calling Next".
\<close>

theorem ScrapePrimaryKey_Scrape_scan_error_from_row:
  assumes "getDB inst = Some db" and "QueryContext db ctx primaryQuery = Inr rs"
    and "ret (ScrapePrimaryKey_Scrape ctx inst) = RetErr e"
  shows "(\<exists>row \<in> set (rs_data rs). Rows_Scan (rs_columns rs) row 3 = Inl e) \<and>
         e \<noteq> ErrRowsClosed \<and> e \<noteq> ErrScanNoNext"
proof -
  obtain r c' where run: "primary_rows_loop (rows_open rs) primary_vars_zero = (r, c')" by fastforce
  with assms have "ret r = RetErr e"
    by (simp add: ScrapePrimaryKey_Scrape_def ScrapePrimaryKey_Run_rows)
  with run obtain row where row: "row \<in> set (rs_data rs)" "Rows_Scan (rs_columns rs) row 3 = Inl e"
    using primary_rows_loop_scan_error by fastforce
  then show ?thesis using Rows_Scan_Inl [OF row(2)] by auto
qed

text \<open>
  C24: a result set whose shape is not the three columns the query selects (a server
  that answers with other columns) makes the first \<open>Scan\<close> fail on the count of
  destinations: \<open>Scrape\<close> sends nothing and returns that error.
\<close>

theorem ScrapePrimaryKey_Scrape_column_mismatch:
  assumes "getDB inst = Some db" and "QueryContext db ctx primaryQuery = Inr rs"
    and "Rows_wf rs" and "rs_data rs \<noteq> []" and "length (rs_columns rs) \<noteq> 3"
  shows "ScrapePrimaryKey_Scrape ctx inst =
           \<lparr>sent = [], ret = RetErr (ErrScanArgs (length (rs_columns rs)) 3)\<rparr>"
proof -
  obtain row rest where d: "rs_data rs = row # rest" using assms(4) by (cases "rs_data rs") auto
  have "length row = length (rs_columns rs)" using assms(3) d by (simp add: Rows_wf_def)
  then have "primary_scan ((rows_open rs)\<lparr>rs_data := rest, cur_last := Some row\<rparr>) primary_vars_zero =
               Inl (ErrScanArgs (length (rs_columns rs)) 3)"
    using assms(5) by (simp add: primary_scan_def Rows_Scan_def)
  then show ?thesis using assms(1,2) d
    by (simp add: ScrapePrimaryKey_Scrape_def ScrapePrimaryKey_Run_rows primary_rows_loop_next)
qed

text \<open>
  C26: \<open>Scrape\<close> uses \<open>instance.getDB()\<close> without a nil check.  On an instance
  that never connected the handle is nil, \<open>db.QueryContext\<close> dereferences it, and
  \<open>Scrape\<close> panics instead of returning an error; nothing is sent and no result set
  is opened.
\<close>

theorem ScrapePrimaryKey_Run_nil_db:
  assumes "getDB inst = None"
  shows "ScrapePrimaryKey_Run ctx inst = (\<lparr>sent = [], ret = Panic ErrNilDB\<rparr>, None)"
  using assms by (simp add: ScrapePrimaryKey_Run_def primary_query_def)

end
