(* ===== verification/Sink.thy ===== *)
theory Sink
  imports Prometheus
begin

text \<open>
  The metric sink (spec sections 2, 5 and 9): the channel through which the concurrent
  scrapers and the reporter send metrics to the exposition layer.  It is open while the
  cycle runs; after the cycle closes it, a late send (from a unit of work the
  orchestrator stopped waiting for) is a no-op that is only counted, never a panic and
  never an item of the output.  Sends from several producers interleave in any order;
  \<open>sink_step\<close> is that interleaving as a step relation over per-producer queues,
  and its lemmas say that every interleaving delivers the same multiset of metrics,
  and that from any state an interleaving can reach, the producers can still all be
  drained (\<open>sink_steps_drain\<close>): delivery never gets stuck; and each producer's
  sends are delivered in its own order (\<open>sink_steps_filter\<close>).
\<close>

section \<open>State and operations\<close>

record sink =
  sk_open :: bool
  sk_items :: "Metric list"
  sk_dropped :: nat

definition sink_new :: sink where
  "sink_new = \<lparr>sk_open = True, sk_items = [], sk_dropped = 0\<rparr>"

definition sink_send :: "Metric \<Rightarrow> sink \<Rightarrow> sink" where
  "sink_send m s =
     (if sk_open s then s\<lparr>sk_items := sk_items s @ [m]\<rparr>
      else s\<lparr>sk_dropped := Suc (sk_dropped s)\<rparr>)"

fun sink_send_all :: "Metric list \<Rightarrow> sink \<Rightarrow> sink" where
  "sink_send_all [] s = s"
| "sink_send_all (m # ms) s = sink_send_all ms (sink_send m s)"

definition sink_close :: "sink \<Rightarrow> sink" where
  "sink_close s = s\<lparr>sk_open := False\<rparr>"

definition sink_drain :: "sink \<Rightarrow> Metric list" where
  "sink_drain s = sk_items s"

text \<open>
  Concurrent producers: producer \<open>i\<close> has the queue \<open>qs ! i\<close> of metrics it still has
  to send; one step sends the head of one non-empty queue.
\<close>

inductive sink_step :: "Metric list list \<times> sink \<Rightarrow> Metric list list \<times> sink \<Rightarrow> bool" where
  send: "i < length qs \<Longrightarrow> qs ! i = m # rest \<Longrightarrow>
           sink_step (qs, s) (qs[i := rest], sink_send m s)"

inductive sink_steps :: "Metric list list \<times> sink \<Rightarrow> Metric list list \<times> sink \<Rightarrow> bool" where
  refl: "sink_steps c c"
| step: "sink_step c c' \<Longrightarrow> sink_steps c' c'' \<Longrightarrow> sink_steps c c''"

inductive_cases sink_stepE: "sink_step (qs, s) c"

section \<open>Lemmas\<close>

lemma sink_send_all_append [simp]:
  "sink_send_all (xs @ ys) s = sink_send_all ys (sink_send_all xs s)"
  by (induction xs arbitrary: s) auto

lemma sk_open_send_all [simp]: "sk_open (sink_send_all ms s) = sk_open s"
  by (induction ms arbitrary: s) (auto simp add: sink_send_def)

lemma sk_items_send_all_open [simp]:
  "sk_open s \<Longrightarrow> sk_items (sink_send_all ms s) = sk_items s @ ms"
  by (induction ms arbitrary: s) (auto simp add: sink_send_def)

lemma sk_items_send_all_closed [simp]:
  "\<not> sk_open s \<Longrightarrow> sk_items (sink_send_all ms s) = sk_items s"
  by (induction ms arbitrary: s) (auto simp add: sink_send_def)

lemma sk_dropped_send_all_open [simp]:
  "sk_open s \<Longrightarrow> sk_dropped (sink_send_all ms s) = sk_dropped s"
  by (induction ms arbitrary: s) (auto simp add: sink_send_def)

lemma sk_dropped_send_all_closed:
  "\<not> sk_open s \<Longrightarrow> sk_dropped (sink_send_all ms s) = sk_dropped s + length ms"
  by (induction ms arbitrary: s) (auto simp add: sink_send_def)

lemma sink_close_sel [simp]:
  "sk_open (sink_close s) = False"
  "sk_items (sink_close s) = sk_items s"
  "sk_dropped (sink_close s) = sk_dropped s"
  by (simp_all add: sink_close_def)

lemma sink_new_sel [simp]:
  "sk_open sink_new" "sk_items sink_new = []" "sk_dropped sink_new = 0"
  by (simp_all add: sink_new_def)

text \<open>
  One step keeps the multiset of metrics sent plus still queued, and, while the sink is
  open, every producer's sent-and-queued sequence is its original sequence.
\<close>

lemma sink_send_open [simp]: "sk_open (sink_send m s) = sk_open s"
  by (simp add: sink_send_def)

lemma sk_items_send_open [simp]:
  "sk_open s \<Longrightarrow> sk_items (sink_send m s) = sk_items s @ [m]"
  by (simp add: sink_send_def)

lemma sk_dropped_send_open [simp]:
  "sk_open s \<Longrightarrow> sk_dropped (sink_send m s) = sk_dropped s"
  by (simp add: sink_send_def)

lemma sk_items_send_closed [simp]:
  "\<not> sk_open s \<Longrightarrow> sk_items (sink_send m s) = sk_items s"
  by (simp add: sink_send_def)

lemma sink_step_open:
  "sink_step (qs, s) (qs', s') \<Longrightarrow> sk_open s' = sk_open s"
  by (auto elim: sink_step.cases)

lemma sink_step_mset:
  assumes "sink_step (qs, s) (qs', s')" and "sk_open s"
  shows "mset (sk_items s') + mset (concat qs') = mset (sk_items s) + mset (concat qs)"
  using assms(1)
proof (cases rule: sink_step.cases)
  case (send i m rest)
  have "mset (concat (qs[i := rest])) + mset (m # rest) = mset (concat qs) + mset rest"
    using send mset_concat_list_update [of i qs rest] by simp
  then have "mset (concat qs') + {#m#} = mset (concat qs)"
    using send by (simp add: add.commute add.left_commute)
  then show ?thesis
    using send assms(2) by (simp add: sink_send_def add.commute add.left_commute)
qed

lemma sink_steps_mset:
  "sink_steps c c' \<Longrightarrow> sk_open (snd c) \<Longrightarrow>
     sk_open (snd c') \<and>
     mset (sk_items (snd c')) + mset (concat (fst c')) = mset (sk_items (snd c)) + mset (concat (fst c))"
proof (induction rule: sink_steps.induct)
  case (refl c)
  then show ?case by simp
next
  case (step c c' c'')
  obtain qs s qs' s' where c: "c = (qs, s)" and c': "c' = (qs', s')" by fastforce
  with step.hyps(1) step.prems have "sk_open s'" and
    "mset (sk_items s') + mset (concat qs') = mset (sk_items s) + mset (concat qs)"
    using sink_step_open sink_step_mset by auto
  with step.IH c c' show ?case by simp
qed


subsection \<open>Every interleaving can be completed\<close>

lemma sink_steps_trans:
  "sink_steps a b \<Longrightarrow> sink_steps b c \<Longrightarrow> sink_steps a c"
  by (induction rule: sink_steps.induct) (auto intro: sink_steps.step)

text \<open>One producer sends all that it still has, the others waiting.\<close>

lemma sink_steps_drain_one:
  "i < length qs \<Longrightarrow> sink_steps (qs, s) (qs[i := []], sink_send_all (qs ! i) s)"
proof (induction "qs ! i" arbitrary: qs s)
  case Nil
  then show ?case by (metis list_update_id sink_send_all.simps(1) sink_steps.refl)
next
  case (Cons m rest)
  have st: "sink_step (qs, s) (qs[i := rest], sink_send m s)"
    using Cons.hyps(2) Cons.prems by (metis sink_step.send)
  have "sink_steps (qs[i := rest], sink_send m s)
          ((qs[i := rest])[i := []], sink_send_all (qs[i := rest] ! i) (sink_send m s))"
    using Cons.hyps(1) [of "qs[i := rest]"] Cons.prems by simp
  with st Cons.hyps(2) [symmetric] Cons.prems show ?case
    by (auto intro: sink_steps.step)
qed

text \<open>The producers send in turn, the first one first: the queues are drained.\<close>

lemma sink_steps_drain_prefix:
  "j \<le> length qs \<Longrightarrow>
     sink_steps (qs, s) (replicate j [] @ drop j qs, sink_send_all (concat (take j qs)) s)"
proof (induction j)
  case 0
  then show ?case by (simp add: sink_steps.refl)
next
  case (Suc j)
  let ?qs = "replicate j [] @ drop j qs"
  have j: "j < length qs" using Suc.prems by simp
  have nth: "?qs ! j = qs ! j" using j by (simp add: nth_append)
  have upd: "?qs[j := []] = replicate (Suc j) [] @ drop (Suc j) qs"
    using j by (simp add: list_update_append Cons_nth_drop_Suc [symmetric] replicate_append_same [symmetric])
  have "sink_steps (?qs, sink_send_all (concat (take j qs)) s)
          (?qs[j := []], sink_send_all (?qs ! j) (sink_send_all (concat (take j qs)) s))"
    using j by (intro sink_steps_drain_one) simp
  then have "sink_steps (?qs, sink_send_all (concat (take j qs)) s)
               (replicate (Suc j) [] @ drop (Suc j) qs, sink_send_all (concat (take (Suc j) qs)) s)"
    using j by (simp add: nth upd take_Suc_conv_app_nth)
  with Suc.IH Suc.prems show ?case by (auto intro: sink_steps_trans)
qed

lemma sink_steps_drain:
  "sink_steps (qs, s) (replicate (length qs) [], sink_send_all (concat qs) s)"
  using sink_steps_drain_prefix [of "length qs" qs s] by simp


subsection \<open>Each producer's order is kept\<close>

text \<open>
  The channel is first in, first out for each producer.  When only producer \<open>i\<close>
  sends metrics satisfying \<open>P\<close>, the metrics satisfying \<open>P\<close> that the sink has
  delivered since are exactly those producer \<open>i\<close> has sent, in its order.
\<close>

lemma sink_steps_filter:
  assumes "sink_steps c c'" and "sk_open (snd c)" and "i < length (fst c)"
    and "\<forall>j < length (fst c). j \<noteq> i \<longrightarrow> \<not> list_ex P (fst c ! j)"
  shows "\<exists>p new. fst c ! i = p @ fst c' ! i \<and> sk_items (snd c') = sk_items (snd c) @ new \<and>
           filter P new = filter P p"
  using assms
proof (induction rule: sink_steps.induct)
  case (refl c)
  show ?case by (rule exI [of _ "[]"], rule exI [of _ "[]"]) simp
next
  case (step c c1 c2)
  obtain qs s where c: "c = (qs, s)" by fastforce
  from step.hyps(1) obtain j m rest where j: "j < length qs" "qs ! j = m # rest"
    and c1: "c1 = (qs[j := rest], sink_send m s)"
    unfolding c by (auto elim: sink_step.cases)
  have op: "sk_open s" using step.prems(1) c by simp
  have other: "\<forall>j' < length (fst c1). j' \<noteq> i \<longrightarrow> \<not> list_ex P (fst c1 ! j')"
  proof (intro allI impI)
    fix j' assume j': "j' < length (fst c1)" "j' \<noteq> i"
    then have "\<not> list_ex P (qs ! j')" using step.prems(3) c c1 by simp
    then show "\<not> list_ex P (fst c1 ! j')"
      using c1 j by (cases "j' = j") simp_all
  qed
  obtain p new where p: "fst c1 ! i = p @ fst c2 ! i"
    and new: "sk_items (snd c2) = sk_items (snd c1) @ new" and f: "filter P new = filter P p"
    using step.IH [OF _ _ other] c1 op step.prems(2) c by auto
  show ?case
  proof (cases "j = i")
    case True
    then have "fst c ! i = (m # p) @ fst c2 ! i" using p c c1 j by simp
    moreover have "sk_items (snd c2) = sk_items (snd c) @ m # new" using new c c1 op by simp
    moreover have "filter P (m # new) = filter P (m # p)" using f by simp
    ultimately show ?thesis by blast
  next
    case False
    then have "\<not> P m" using step.prems(3) c j by auto
    moreover have "fst c ! i = p @ fst c2 ! i" using p c c1 False by simp
    moreover have "sk_items (snd c2) = sk_items (snd c) @ m # new" using new c c1 op by simp
    ultimately show ?thesis using f by auto
  qed
qed


end
