(* ===== verification/Orchestrator.thy ===== *)
theory Orchestrator
  imports Scraper Sink
begin

text \<open>
  The scrape orchestrator and the meta-metrics reporter (spec sections 4.3, 4.4, 5 and
  7; their Go code is not among the sources, so they are modelled from the spec).  One
  collection cycle is a state machine over the phases
  \<open>Idle \<rightarrow> Selecting \<rightarrow> Running \<rightarrow> Aggregating \<rightarrow> Done\<close>, one
  \<open>cycle_step\<close> per phase:
  \<^item> Idle: establish the instance's connection; on failure emit \<open>up 0\<close> and stop;
  \<^item> Selecting: probe the server's version once; on failure emit \<open>up 0\<close> and stop;
    otherwise compute the eligible scrapers (enabled by the configuration and with a
    minimum version not above the reported one);
  \<^item> Running: run every eligible scraper with a live context on the connected instance;
    what each unit did before the deadline is its \<open>progress\<close> in the cycle's
    environment (returned after some duration, or still running after some number of
    sends); the metrics each sent before the deadline reach the sink, in one of the
    interleavings \<open>Sink.sink_step\<close> allows; a panic kills the process;
  \<^item> Aggregating: one outcome per eligible scraper (a unit still running is a
    \<open>TimeoutError\<close> with the deadline as its duration; a returned
    \<open>DeadlineExceeded\<close> is a \<open>TimeoutError\<close> too), the reporter's success and
    duration gauges for each, \<open>up 1\<close>; then the sink is closed and the sends of units
    that are still running arrive after the close and are dropped.
  Four steps take any cycle from Idle to Done, and Done is a fixpoint, so the fuel of
  \<open>Collect\<close> is exactly enough.  Cycles are serialised: \<open>collect_cycles\<close> runs
  one after another on the same instance.
\<close>

section \<open>Configuration and selection\<close>

record config =
  cfg_enabled :: "string list"
  cfg_disabled :: "string list"

definition scraper_enabled :: "config \<Rightarrow> string \<Rightarrow> bool" where
  "scraper_enabled cfg n \<longleftrightarrow> n \<in> set (cfg_enabled cfg) \<and> n \<notin> set (cfg_disabled cfg)"

definition eligible :: "config \<Rightarrow> rat \<Rightarrow> Scraper list \<Rightarrow> Scraper list" where
  "eligible cfg v scs = filter (\<lambda>s. scraper_enabled cfg (sc_Name s) \<and> sc_Version s \<le> v) scs"

section \<open>Units of work and their outcomes\<close>

text \<open>What a unit had done when the orchestrator stopped waiting for it.\<close>

datatype progress = Returned rat | StillRunning nat

record cycle_env =
  env_deadline :: rat
  env_progress :: "string \<Rightarrow> progress"

record outcome =
  oc_name :: string
  oc_success :: bool
  oc_error :: "go_error option"
  oc_duration :: rat

fun outcome_error :: "run_result \<Rightarrow> go_error option" where
  "outcome_error RetNil = None"
| "outcome_error (RetErr ErrDeadlineExceeded) = Some ErrTimeout"
| "outcome_error (RetErr e) = Some e"
| "outcome_error (Panic e) = Some e"

definition unit_outcome :: "rat \<Rightarrow> Scraper \<Rightarrow> scrape_run \<Rightarrow> progress \<Rightarrow> outcome" where
  "unit_outcome deadline s r p =
     (case p of
        Returned d \<Rightarrow>
          \<lparr>oc_name = sc_Name s, oc_success = (ret r = RetNil), oc_error = outcome_error (ret r),
           oc_duration = d\<rparr>
      | StillRunning k \<Rightarrow>
          \<lparr>oc_name = sc_Name s, oc_success = False, oc_error = Some ErrTimeout,
           oc_duration = deadline\<rparr>)"

text \<open>The sends of a unit before the deadline, and those after it.\<close>

definition unit_timely :: "scrape_run \<Rightarrow> progress \<Rightarrow> Metric list" where
  "unit_timely r p = (case p of Returned _ \<Rightarrow> sent r | StillRunning k \<Rightarrow> take k (sent r))"

definition unit_late :: "scrape_run \<Rightarrow> progress \<Rightarrow> Metric list" where
  "unit_late r p = (case p of Returned _ \<Rightarrow> [] | StillRunning k \<Rightarrow> drop k (sent r))"

text \<open>The units of a cycle: each eligible scraper with its run and its progress.\<close>

definition cycle_units ::
  "cycle_env \<Rightarrow> db_instance \<Rightarrow> Scraper list \<Rightarrow> (Scraper \<times> scrape_run \<times> progress) list" where
  "cycle_units env i el =
     map (\<lambda>s. (s, sc_Scrape s Background i, env_progress env (sc_Name s))) el"

section \<open>The reporter\<close>

definition scrapeCollectorSuccess :: Desc where
  "scrapeCollectorSuccess =
     NewDesc (BuildFQName namespace ''exporter'' ''collector_success'')
       ''mysqld_exporter: Whether a collector succeeded.'' [''collector''] []"

definition scrapeDurationSeconds :: Desc where
  "scrapeDurationSeconds =
     NewDesc (BuildFQName namespace ''exporter'' ''collector_duration_seconds'')
       ''Collector time duration.'' [''collector''] []"

definition upDesc :: Desc where
  "upDesc = NewDesc (BuildFQName namespace [] ''up'') ''Whether the MySQL server is up.'' [] []"

definition gauge :: "Desc \<Rightarrow> rat \<Rightarrow> string list \<Rightarrow> Metric" where
  "gauge d v lvs = \<lparr>metric_desc = d, metric_type = GaugeValue, metric_value = v, labelValues = lvs\<rparr>"

definition report_outcome :: "outcome \<Rightarrow> Metric list" where
  "report_outcome oc =
     [gauge scrapeCollectorSuccess (if oc_success oc then 1 else 0) [oc_name oc],
      gauge scrapeDurationSeconds (oc_duration oc) [oc_name oc]]"

definition up_metric :: "bool \<Rightarrow> Metric" where
  "up_metric b = gauge upDesc (if b then 1 else 0) []"

section \<open>The cycle\<close>

datatype phase = Idle | Selecting | Running | Aggregating | Done

record cycle =
  cy_phase :: phase
  cy_inst :: db_instance
  cy_server :: "Server option"
  cy_eligible :: "Scraper list"
  cy_runs :: "(Scraper \<times> scrape_run \<times> progress) list"
  cy_outcomes :: "outcome list"
  cy_sink :: sink
  cy_crash :: "go_error option"

definition cycle_init :: "db_instance \<Rightarrow> cycle" where
  "cycle_init i =
     \<lparr>cy_phase = Idle, cy_inst = i, cy_server = None, cy_eligible = [], cy_runs = [],
      cy_outcomes = [], cy_sink = sink_new, cy_crash = None\<rparr>"

text \<open>A fatal error (no connection, no version): only \<open>up 0\<close>, then the cycle is done.\<close>

definition cycle_fail :: "cycle \<Rightarrow> cycle" where
  "cycle_fail c =
     c\<lparr>cy_phase := Done, cy_sink := sink_close (sink_send (up_metric False) (cy_sink c))\<rparr>"

definition unit_panics :: "Scraper \<times> scrape_run \<times> progress \<Rightarrow> bool" where
  "unit_panics u \<longleftrightarrow> is_panic (ret (fst (snd u)))"

fun cycle_step :: "config \<Rightarrow> Scraper list \<Rightarrow> cycle_env \<Rightarrow> cycle \<Rightarrow> cycle" where
  "cycle_step cfg scs env c =
     (case cy_phase c of
        Idle \<Rightarrow>
          (case Connection (cy_inst c) of
             (Inl _, i) \<Rightarrow> cycle_fail (c\<lparr>cy_inst := i\<rparr>)
           | (Inr srv, i) \<Rightarrow> c\<lparr>cy_phase := Selecting, cy_inst := i, cy_server := Some srv\<rparr>)
      | Selecting \<Rightarrow>
          (case cy_server c of
             None \<Rightarrow> cycle_fail c
           | Some srv \<Rightarrow>
               (case srv_version srv of
                  Inl _ \<Rightarrow> cycle_fail c
                | Inr v \<Rightarrow> c\<lparr>cy_phase := Running, cy_eligible := eligible cfg v scs\<rparr>))
      | Running \<Rightarrow>
          (let units = cycle_units env (cy_inst c) (cy_eligible c) in
           case find unit_panics units of
             Some u \<Rightarrow> c\<lparr>cy_phase := Done, cy_runs := units, cy_crash := ret_error (ret (fst (snd u)))\<rparr>
           | None \<Rightarrow>
               c\<lparr>cy_phase := Aggregating, cy_runs := units,
                 cy_sink := sink_send_all (concat (map (\<lambda>(s, r, p). unit_timely r p) units))
                              (cy_sink c)\<rparr>)
      | Aggregating \<Rightarrow>
          (let ocs = map (\<lambda>(s, r, p). unit_outcome (env_deadline env) s r p) (cy_runs c);
               reported = sink_send_all (concat (map report_outcome ocs) @ [up_metric True]) (cy_sink c)
           in c\<lparr>cy_phase := Done, cy_outcomes := ocs,
                 cy_sink := sink_send_all (concat (map (\<lambda>(s, r, p). unit_late r p) (cy_runs c)))
                              (sink_close reported)\<rparr>)
      | Done \<Rightarrow> c)"

fun cycle_run :: "nat \<Rightarrow> config \<Rightarrow> Scraper list \<Rightarrow> cycle_env \<Rightarrow> cycle \<Rightarrow> cycle" where
  "cycle_run 0 cfg scs env c = c"
| "cycle_run (Suc n) cfg scs env c = cycle_run n cfg scs env (cycle_step cfg scs env c)"

definition Collect :: "config \<Rightarrow> Scraper list \<Rightarrow> cycle_env \<Rightarrow> db_instance \<Rightarrow> cycle" where
  "Collect cfg scs env i = cycle_run 4 cfg scs env (cycle_init i)"

datatype cycle_result = Response "Metric list" | Crashed go_error

definition cycle_output :: "cycle \<Rightarrow> cycle_result" where
  "cycle_output c = (case cy_crash c of Some e \<Rightarrow> Crashed e | None \<Rightarrow> Response (sink_drain (cy_sink c)))"

text \<open>Serialised cycles on one instance: each starts from the instance the last one left.\<close>

fun collect_cycles ::
  "config \<Rightarrow> Scraper list \<Rightarrow> cycle_env list \<Rightarrow> db_instance \<Rightarrow> cycle_result list \<times> db_instance" where
  "collect_cycles cfg scs [] i = ([], i)"
| "collect_cycles cfg scs (env # envs) i =
     (let c = Collect cfg scs env i; (rs, i') = collect_cycles cfg scs envs (cy_inst c)
      in (cycle_output c # rs, i'))"

text \<open>The position of a phase in the cycle, the measure that four steps exhaust.\<close>

fun phase_rank :: "phase \<Rightarrow> nat" where
  "phase_rank Idle = 0"
| "phase_rank Selecting = 1"
| "phase_rank Running = 2"
| "phase_rank Aggregating = 3"
| "phase_rank Done = 4"

text \<open>
  The scrapers of a registry send only their own metrics on the given instance: none
  carries one of the reporter's descriptors.
\<close>

definition own_metrics :: "Scraper list \<Rightarrow> db_instance \<Rightarrow> bool" where
  "own_metrics scs i \<longleftrightarrow>
     (\<forall>s \<in> set scs. \<forall>m \<in> set (sent (sc_Scrape s Background i)).
        metric_desc m \<noteq> scrapeCollectorSuccess \<and> metric_desc m \<noteq> scrapeDurationSeconds \<and>
        metric_desc m \<noteq> upDesc)"

section \<open>Lemmas\<close>

subsection \<open>Phases\<close>

lemma cycle_fail_sel [simp]:
  "cy_phase (cycle_fail c) = Done"
  "cy_runs (cycle_fail c) = cy_runs c"
  "cy_crash (cycle_fail c) = cy_crash c"
  "cy_inst (cycle_fail c) = cy_inst c"
  by (simp_all add: cycle_fail_def)

lemma cycle_step_Done [simp]: "cy_phase c = Done \<Longrightarrow> cycle_step cfg scs env c = c"
  by simp

lemma cycle_run_Done [simp]: "cy_phase c = Done \<Longrightarrow> cycle_run n cfg scs env c = c"
  by (induction n) simp_all

lemma cycle_step_rank:
  "cy_phase c \<noteq> Done \<Longrightarrow>
     phase_rank (cy_phase c) < phase_rank (cy_phase (cycle_step cfg scs env c))"
  by (cases "cy_phase c")
     (auto simp add: Let_def split: prod.splits sum.splits option.splits)

lemma cycle_run_reaches_Done:
  "4 \<le> n + phase_rank (cy_phase c) \<Longrightarrow> cy_phase (cycle_run n cfg scs env c) = Done"
proof (induction n arbitrary: c)
  case 0
  then show ?case by (cases "cy_phase c") simp_all
next
  case (Suc n)
  show ?case
  proof (cases "cy_phase c = Done")
    case False
    then have "4 \<le> n + phase_rank (cy_phase (cycle_step cfg scs env c))"
      using cycle_step_rank [OF False, of cfg scs env] Suc.prems by linarith
    then show ?thesis by (simp add: Suc.IH)
  qed simp
qed

lemma cycle_init_sel [simp]:
  "cy_phase (cycle_init i) = Idle" "cy_inst (cycle_init i) = i" "cy_sink (cycle_init i) = sink_new"
  "cy_runs (cycle_init i) = []" "cy_crash (cycle_init i) = None"
  by (simp_all add: cycle_init_def)

lemma Collect_unfold:
  "Collect cfg scs env i =
     cycle_step cfg scs env (cycle_step cfg scs env (cycle_step cfg scs env
       (cycle_step cfg scs env (cycle_init i))))"
  by (simp add: Collect_def numeral_eq_Suc del: cycle_step.simps)

subsection \<open>The closed forms of a cycle\<close>

lemma Collect_conn_fail:
  "Connection i = (Inl e, i') \<Longrightarrow>
     Collect cfg scs env i = cycle_fail ((cycle_init i)\<lparr>cy_inst := i'\<rparr>)"
  by (simp add: Collect_unfold)

lemma Collect_probe_fail:
  "Connection i = (Inr srv, i') \<Longrightarrow> srv_version srv = Inl e \<Longrightarrow>
     Collect cfg scs env i =
       cycle_fail ((cycle_init i)\<lparr>cy_phase := Selecting, cy_inst := i', cy_server := Some srv\<rparr>)"
  by (simp add: Collect_unfold)

lemma find_unit_panics_None:
  "find unit_panics us = None \<longleftrightarrow> \<not> list_ex unit_panics us"
  by (induction us) auto

lemma Collect_ok:
  assumes "Connection i = (Inr srv, i1)" and "srv_version srv = Inr v"
    and "\<not> list_ex unit_panics (cycle_units env i1 (eligible cfg v scs))"
  shows "Collect cfg scs env i =
    (let units = cycle_units env i1 (eligible cfg v scs);
         ocs = map (\<lambda>(s, r, p). unit_outcome (env_deadline env) s r p) units
     in \<lparr>cy_phase = Done, cy_inst = i1, cy_server = Some srv, cy_eligible = eligible cfg v scs,
         cy_runs = units, cy_outcomes = ocs,
         cy_sink = sink_send_all (concat (map (\<lambda>(s, r, p). unit_late r p) units))
                     (sink_close (sink_send_all (concat (map report_outcome ocs) @ [up_metric True])
                        (sink_send_all (concat (map (\<lambda>(s, r, p). unit_timely r p) units)) sink_new))),
         cy_crash = None\<rparr>)"
proof -
  have "find unit_panics (cycle_units env i1 (eligible cfg v scs)) = None"
    using assms(3) by (simp add: find_unit_panics_None)
  with assms(1,2) show ?thesis by (simp add: Collect_unfold cycle_init_def Let_def)
qed

subsection \<open>What a cycle emits\<close>

lemma meta_fqNames [simp]:
  "fqName scrapeCollectorSuccess = ''mysql_exporter_collector_success''"
  "fqName scrapeDurationSeconds = ''mysql_exporter_collector_duration_seconds''"
  "fqName upDesc = ''mysql_up''"
  by (simp_all add: scrapeCollectorSuccess_def scrapeDurationSeconds_def upDesc_def
                    BuildFQName_def namespace_def)

lemma meta_descs_distinct [simp]:
  "scrapeCollectorSuccess \<noteq> scrapeDurationSeconds" "scrapeDurationSeconds \<noteq> scrapeCollectorSuccess"
  "scrapeCollectorSuccess \<noteq> upDesc" "upDesc \<noteq> scrapeCollectorSuccess"
  "scrapeDurationSeconds \<noteq> upDesc" "upDesc \<noteq> scrapeDurationSeconds"
  by (auto dest!: arg_cong [where f = fqName])

lemma gauge_sel [simp]:
  "metric_desc (gauge d v lvs) = d" "labelValues (gauge d v lvs) = lvs"
  "metric_value (gauge d v lvs) = v" "metric_type (gauge d v lvs) = GaugeValue"
  by (simp_all add: gauge_def)

lemma up_metric_desc [simp]: "metric_desc (up_metric b) = upDesc"
  by (simp add: up_metric_def)

lemma unit_outcome_name [simp]: "oc_name (unit_outcome d s r p) = sc_Name s"
  by (simp add: unit_outcome_def split: progress.splits)

lemma unit_timely_sent: "set (unit_timely r p) \<subseteq> set (sent r)"
  by (auto simp add: unit_timely_def split: progress.splits dest: in_set_takeD)

lemma filter_report_success:
  "filter (\<lambda>m. metric_desc m = scrapeCollectorSuccess) (concat (map report_outcome ocs)) =
     map (\<lambda>oc. gauge scrapeCollectorSuccess (if oc_success oc then 1 else 0) [oc_name oc]) ocs"
  by (induction ocs) (simp_all add: report_outcome_def)

lemma filter_report_duration:
  "filter (\<lambda>m. metric_desc m = scrapeDurationSeconds) (concat (map report_outcome ocs)) =
     map (\<lambda>oc. gauge scrapeDurationSeconds (oc_duration oc) [oc_name oc]) ocs"
  by (induction ocs) (simp_all add: report_outcome_def)

lemma Collect_ok_output:
  assumes "Connection i = (Inr srv, i1)" and "srv_version srv = Inr v"
    and "\<not> list_ex unit_panics (cycle_units env i1 (eligible cfg v scs))"
  shows "cycle_output (Collect cfg scs env i) =
           Response (concat (map (\<lambda>(s, r, p). unit_timely r p) (cy_runs (Collect cfg scs env i))) @
                     concat (map report_outcome (cy_outcomes (Collect cfg scs env i))) @
                     [up_metric True])"
    and "cy_runs (Collect cfg scs env i) = cycle_units env i1 (eligible cfg v scs)"
    and "cy_outcomes (Collect cfg scs env i) =
           map (\<lambda>(s, r, p). unit_outcome (env_deadline env) s r p) (cy_runs (Collect cfg scs env i))"
    and "cy_inst (Collect cfg scs env i) = i1"
  using Collect_ok [OF assms] by (simp_all add: cycle_output_def sink_drain_def Let_def)

lemma own_metrics_timely:
  assumes "own_metrics scs i1" and "eligible cfg v scs = el"
    and "d \<in> {scrapeCollectorSuccess, scrapeDurationSeconds, upDesc}"
  shows "filter (\<lambda>m. metric_desc m = d) (concat (map (\<lambda>(s, r, p). unit_timely r p) (cycle_units env i1 el))) = []"
proof -
  have "\<forall>s \<in> set el. \<forall>m \<in> set (unit_timely (sc_Scrape s Background i1) (env_progress env (sc_Name s))).
          metric_desc m \<noteq> d"
    using assms unit_timely_sent by (fastforce simp add: own_metrics_def eligible_def)
  then show ?thesis by (auto simp add: cycle_units_def filter_empty_conv)
qed

text \<open>
  The reporter's part of a successful cycle: the success and duration gauges in the
  output are exactly one per outcome, and the outcomes are one per eligible scraper,
  in registry order.
\<close>

lemma Collect_ok_meta:
  assumes conn: "Connection i = (Inr srv, i1)" and ver: "srv_version srv = Inr v"
    and np: "\<not> list_ex unit_panics (cycle_units env i1 (eligible cfg v scs))"
    and own: "own_metrics scs i1"
    and out: "cycle_output (Collect cfg scs env i) = Response out"
  shows "filter (\<lambda>m. metric_desc m = scrapeCollectorSuccess) out =
           map (\<lambda>oc. gauge scrapeCollectorSuccess (if oc_success oc then 1 else 0) [oc_name oc])
             (cy_outcomes (Collect cfg scs env i))"
    and "filter (\<lambda>m. metric_desc m = scrapeDurationSeconds) out =
           map (\<lambda>oc. gauge scrapeDurationSeconds (oc_duration oc) [oc_name oc])
             (cy_outcomes (Collect cfg scs env i))"
    and "map oc_name (cy_outcomes (Collect cfg scs env i)) = map sc_Name (eligible cfg v scs)"
proof -
  note eqs = Collect_ok_output [OF conn ver np]
  show "filter (\<lambda>m. metric_desc m = scrapeCollectorSuccess) out =
          map (\<lambda>oc. gauge scrapeCollectorSuccess (if oc_success oc then 1 else 0) [oc_name oc])
            (cy_outcomes (Collect cfg scs env i))"
    using eqs(1) out own_metrics_timely [OF own HOL.refl, of scrapeCollectorSuccess env]
    by (simp add: eqs(2) filter_report_success del: filter_concat_map)
  show "filter (\<lambda>m. metric_desc m = scrapeDurationSeconds) out =
          map (\<lambda>oc. gauge scrapeDurationSeconds (oc_duration oc) [oc_name oc])
            (cy_outcomes (Collect cfg scs env i))"
    using eqs(1) out own_metrics_timely [OF own HOL.refl, of scrapeDurationSeconds env]
    by (simp add: eqs(2) filter_report_duration del: filter_concat_map)
  show "map oc_name (cy_outcomes (Collect cfg scs env i)) = map sc_Name (eligible cfg v scs)"
    by (simp add: eqs(2,3) cycle_units_def comp_def)
qed

lemma cycle_run_add:
  "cycle_run (m + n) cfg scs env c = cycle_run m cfg scs env (cycle_run n cfg scs env c)"
  by (induction n arbitrary: c) simp_all

lemma cycle_step_inst_inv:
  "inst_inv (cy_inst c) \<Longrightarrow> inst_inv (cy_inst (cycle_step cfg scs env c))"
proof (cases "cy_phase c")
  case Idle
  assume inv: "inst_inv (cy_inst c)"
  obtain r i' where ci: "Connection (cy_inst c) = (r, i')" by fastforce
  then have "inst_inv i'" using Connection_inv [OF inv] by simp
  with Idle ci show ?thesis by (cases r) simp_all
qed (simp_all add: Let_def split: option.splits sum.splits)

lemma cycle_run_inst_inv:
  "inst_inv (cy_inst c) \<Longrightarrow> inst_inv (cy_inst (cycle_run n cfg scs env c))"
  by (induction n arbitrary: c) (simp_all add: cycle_step_inst_inv del: cycle_step.simps)

lemma Collect_fail_output:
  "cycle_output (cycle_fail ((cycle_init i)\<lparr>cy_inst := i'\<rparr>)) = Response [up_metric False]"
  "cycle_output (cycle_fail ((cycle_init i)\<lparr>cy_phase := Selecting, cy_inst := i', cy_server := x\<rparr>)) =
     Response [up_metric False]"
  by (simp_all add: cycle_output_def cycle_fail_def cycle_init_def sink_drain_def)

lemma Collect_runs:
  assumes "Connection i = (Inr srv, i1)" and "srv_version srv = Inr v"
  shows "cy_runs (Collect cfg scs env i) = cycle_units env i1 (eligible cfg v scs)"
  using assms by (simp add: Collect_unfold Let_def split: option.splits)

lemma Collect_runs_connected:
  assumes "u \<in> set (cy_runs (Collect cfg scs env i))"
  shows "\<exists>srv i1 v. Connection i = (Inr srv, i1) \<and> srv_version srv = Inr v \<and>
           u \<in> set (cycle_units env i1 (eligible cfg v scs))"
proof -
  obtain r i1 where ci: "Connection i = (r, i1)" by fastforce
  show ?thesis
  proof (cases r)
    case (Inl e)
    with assms ci show ?thesis by (simp add: Collect_conn_fail)
  next
    case (Inr srv)
    show ?thesis
    proof (cases "srv_version srv")
      case (Inl e)
      with assms ci Inr show ?thesis by (simp add: Collect_probe_fail)
    next
      case (Inr v)
      with assms ci \<open>r = Inr srv\<close> show ?thesis by (auto simp add: Collect_runs)
    qed
  qed
qed

lemma filter_named_registry:
  assumes "registry_ok scs" and "s \<in> set scs"
  shows "filter (\<lambda>x. sc_Name x = sc_Name s) (filter P scs) = (if P s then [s] else [])"
proof -
  have "filter (\<lambda>x. sc_Name x = sc_Name s) scs = [s]"
    using assms by (simp add: registry_ok_def filter_eq_key_distinct)
  moreover have "filter (\<lambda>x. sc_Name x = sc_Name s) (filter P scs) =
      filter P (filter (\<lambda>x. sc_Name x = sc_Name s) scs)"
    by (simp add: filter_filter conj_commute)
  ultimately show ?thesis by simp
qed

lemma Collect_ok_reports:
  assumes "Connection i = (Inr srv, i1)" and "srv_version srv = Inr v"
    and "\<not> list_ex unit_panics (cycle_units env i1 (eligible cfg v scs))"
    and "cycle_output (Collect cfg scs env i) = Response out"
  shows "oc \<in> set (cy_outcomes (Collect cfg scs env i)) \<Longrightarrow> set (report_outcome oc) \<subseteq> set out"
    and "up_metric True \<in> set out"
  using Collect_ok_output(1) [OF assms(1-3)] assms(4) by auto

text \<open>A cycle in which some unit panics ends in a crash of the process, with no response.\<close>

lemma find_unit_panics_Some:
  "list_ex unit_panics us \<Longrightarrow> \<exists>u. find unit_panics us = Some u \<and> (\<exists>e. ret (fst (snd u)) = Panic e)"
proof (induction us)
  case (Cons u us)
  then show ?case by (cases "ret (fst (snd u))") (auto simp add: unit_panics_def)
qed simp

lemma Collect_crash_sel:
  assumes "Connection i = (Inr srv, i1)" and "srv_version srv = Inr v"
    and "find unit_panics (cycle_units env i1 (eligible cfg v scs)) = Some u"
  shows "cy_crash (Collect cfg scs env i) = ret_error (ret (fst (snd u)))"
  using assms by (simp add: Collect_unfold cycle_init_def)

lemma Collect_crash:
  assumes "Connection i = (Inr srv, i1)" and "srv_version srv = Inr v"
    and "list_ex unit_panics (cycle_units env i1 (eligible cfg v scs))"
  shows "\<exists>e. cycle_output (Collect cfg scs env i) = Crashed e"
proof -
  obtain u e where f: "find unit_panics (cycle_units env i1 (eligible cfg v scs)) = Some u"
    and e: "ret (fst (snd u)) = Panic e"
    using find_unit_panics_Some [OF assms(3)] by blast
  have "cy_crash (Collect cfg scs env i) = Some e"
    using Collect_crash_sel [OF assms(1,2) f] e by simp
  then show ?thesis by (simp add: cycle_output_def)
qed

subsection \<open>The orchestrator's guarantees\<close>

text \<open>
  In a cycle whose connection and version probe succeed, the success gauges and
  the duration gauges are one per eligible scraper, labelled with its name, no more,
  no fewer and, for a registry with distinct names, without duplicates.
\<close>

theorem Collect_meta_exactly_eligible:
  assumes conn: "Connection inst = (Inr srv, i1)" and ver: "srv_version srv = Inr v"
    and np: "\<not> list_ex unit_panics (cycle_units env i1 (eligible cfg v scs))"
    and own: "own_metrics scs i1" and reg: "registry_ok scs"
  shows "\<exists>out. cycle_output (Collect cfg scs env inst) = Response out \<and>
           map labelValues (filter (\<lambda>m. metric_desc m = scrapeCollectorSuccess) out) =
             map (\<lambda>s. [sc_Name s]) (eligible cfg v scs) \<and>
           map labelValues (filter (\<lambda>m. metric_desc m = scrapeDurationSeconds) out) =
             map (\<lambda>s. [sc_Name s]) (eligible cfg v scs) \<and>
           distinct (map labelValues (filter (\<lambda>m. metric_desc m = scrapeCollectorSuccess) out))"
proof -
  obtain out where out: "cycle_output (Collect cfg scs env inst) = Response out"
    using Collect_ok_output(1) [OF conn ver np] by blast
  note meta = Collect_ok_meta [OF conn ver np own out]
  have names: "map (\<lambda>oc. [oc_name oc]) (cy_outcomes (Collect cfg scs env inst)) =
                 map (\<lambda>s. [sc_Name s]) (eligible cfg v scs)"
    using arg_cong [OF meta(3), of "map (\<lambda>n. [n])"] by (simp add: comp_def)
  have "distinct (map sc_Name (eligible cfg v scs))"
    using registry_ok_filter [OF reg] by (simp add: eligible_def registry_ok_def)
  then have "distinct (map (\<lambda>s. [sc_Name s]) (eligible cfg v scs))"
    by (simp add: distinct_map inj_on_def)
  with out meta(1,2) names show ?thesis by (simp add: comp_def)
qed

text \<open>
  A scraper whose minimum version is above the reported version is neither run nor
  reported: no unit of the cycle is it, and no success or duration gauge carries its
  name.
\<close>

theorem Collect_excludes_newer_scraper:
  assumes conn: "Connection inst = (Inr srv, i1)" and ver: "srv_version srv = Inr v"
    and np: "\<not> list_ex unit_panics (cycle_units env i1 (eligible cfg v scs))"
    and own: "own_metrics scs i1" and reg: "registry_ok scs"
    and s: "s \<in> set scs" and newer: "v < sc_Version s"
  shows "s \<notin> fst ` set (cy_runs (Collect cfg scs env inst)) \<and>
         (\<exists>out. cycle_output (Collect cfg scs env inst) = Response out \<and>
            (\<forall>m \<in> set out. metric_desc m \<in> {scrapeCollectorSuccess, scrapeDurationSeconds} \<longrightarrow>
               labelValues m \<noteq> [sc_Name s]))"
proof -
  note eqs = Collect_ok_output [OF conn ver np]
  have not_el: "s \<notin> set (eligible cfg v scs)"
    using newer by (auto simp add: eligible_def)
  have runs: "fst ` set (cy_runs (Collect cfg scs env inst)) = set (eligible cfg v scs)"
    by (simp add: eqs(2) cycle_units_def image_image)
  obtain out where out: "cycle_output (Collect cfg scs env inst) = Response out"
    using eqs(1) by blast
  note meta = Collect_ok_meta [OF conn ver np own out]
  have inj: "inj_on sc_Name (set scs)"
    using reg by (simp add: registry_ok_def distinct_map)
  have "labelValues m \<noteq> [sc_Name s]"
    if m: "m \<in> set out" and d: "metric_desc m \<in> {scrapeCollectorSuccess, scrapeDurationSeconds}" for m
  proof
    assume lv_s: "labelValues m = [sc_Name s]"
    have "m \<in> set (filter (\<lambda>m. metric_desc m = scrapeCollectorSuccess) out) \<or>
          m \<in> set (filter (\<lambda>m. metric_desc m = scrapeDurationSeconds) out)"
      using m d by auto
    then obtain oc where oc: "oc \<in> set (cy_outcomes (Collect cfg scs env inst))"
      and lv: "labelValues m = [oc_name oc]"
      using meta(1,2) by auto
    have "oc_name oc \<in> sc_Name ` set (eligible cfg v scs)"
      using oc arg_cong [OF meta(3), of set] by auto
    then obtain s' where s': "s' \<in> set (eligible cfg v scs)" and nm: "oc_name oc = sc_Name s'"
      by blast
    have "s' \<in> set scs" using s' by (simp add: eligible_def)
    moreover have "sc_Name s' = sc_Name s" using lv lv_s nm by simp
    ultimately have "s' = s" using inj s by (blast dest: inj_onD)
    with s' not_el show False by simp
  qed
  with runs not_el out show ?thesis by blast
qed

text \<open>
  When the connection cannot be established, or the version probe fails, the cycle
  emits exactly one metric, the reachability gauge at 0, and runs no scraper.
\<close>

theorem Collect_fatal_only_up:
  assumes "fst (Connection inst) = Inl e \<or>
           (fst (Connection inst) = Inr srv \<and> srv_version srv = Inl e)"
  shows "cycle_output (Collect cfg scs env inst) = Response [up_metric False] \<and>
         cy_runs (Collect cfg scs env inst) = []"
proof -
  obtain r i' where ci: "Connection inst = (r, i')" by fastforce
  from assms show ?thesis
  proof
    assume "fst (Connection inst) = Inl e"
    with ci show ?thesis by (simp add: Collect_conn_fail Collect_fail_output)
  next
    assume "fst (Connection inst) = Inr srv \<and> srv_version srv = Inl e"
    with ci show ?thesis by (simp add: Collect_probe_fail Collect_fail_output)
  qed
qed

text \<open>
  Partial-failure isolation.  In a cycle that responds, every eligible scraper has
  the outcome its own run and its own progress determine, and the metrics it sent
  before the deadline are in the output, whatever the other scrapers did (failed,
  timed out, or sent nothing).
\<close>

theorem Collect_outcome_isolated:
  assumes conn: "Connection inst = (Inr srv, i1)" and ver: "srv_version srv = Inr v"
    and np: "\<not> list_ex unit_panics (cycle_units env i1 (eligible cfg v scs))"
    and s: "s \<in> set (eligible cfg v scs)"
  shows "unit_outcome (env_deadline env) s (sc_Scrape s Background i1) (env_progress env (sc_Name s))
           \<in> set (cy_outcomes (Collect cfg scs env inst)) \<and>
         (\<exists>out. cycle_output (Collect cfg scs env inst) = Response out \<and>
            set (unit_timely (sc_Scrape s Background i1) (env_progress env (sc_Name s))) \<subseteq> set out)"
proof -
  note eqs = Collect_ok_output [OF conn ver np]
  have u: "(s, sc_Scrape s Background i1, env_progress env (sc_Name s)) \<in> set (cy_runs (Collect cfg scs env inst))"
    using s by (simp add: eqs(2) cycle_units_def)
  then have "unit_outcome (env_deadline env) s (sc_Scrape s Background i1) (env_progress env (sc_Name s))
               \<in> set (cy_outcomes (Collect cfg scs env inst))"
    by (simp add: eqs(3)) (metis (no_types, lifting) case_prod_conv image_eqI)
  moreover have "set (unit_timely (sc_Scrape s Background i1) (env_progress env (sc_Name s))) \<subseteq>
                   set (concat (map (\<lambda>(s, r, p). unit_timely r p) (cy_runs (Collect cfg scs env inst))))"
    using u by force
  ultimately show ?thesis using eqs(1) by auto
qed

text \<open>
  A scraper still running at the deadline is reported as failed, with the
  deadline as its duration, while the reachability gauge stays at 1: the timeout is
  the scraper's outcome, not the cycle's.
\<close>

theorem Collect_timeout_reported:
  assumes conn: "Connection inst = (Inr srv, i1)" and ver: "srv_version srv = Inr v"
    and np: "\<not> list_ex unit_panics (cycle_units env i1 (eligible cfg v scs))"
    and s: "s \<in> set (eligible cfg v scs)" and run: "env_progress env (sc_Name s) = StillRunning k"
  shows "\<lparr>oc_name = sc_Name s, oc_success = False, oc_error = Some ErrTimeout,
           oc_duration = env_deadline env\<rparr> \<in> set (cy_outcomes (Collect cfg scs env inst)) \<and>
         (\<exists>out. cycle_output (Collect cfg scs env inst) = Response out \<and>
            gauge scrapeCollectorSuccess 0 [sc_Name s] \<in> set out \<and>
            gauge scrapeDurationSeconds (env_deadline env) [sc_Name s] \<in> set out \<and>
            up_metric True \<in> set out)"
proof -
  note eqs = Collect_ok_output [OF conn ver np]
  let ?oc = "unit_outcome (env_deadline env) s (sc_Scrape s Background i1) (StillRunning k)"
  have oc: "?oc \<in> set (cy_outcomes (Collect cfg scs env inst))"
    using s run by (force simp add: eqs(2,3) cycle_units_def)
  have ocv: "?oc = \<lparr>oc_name = sc_Name s, oc_success = False, oc_error = Some ErrTimeout,
                    oc_duration = env_deadline env\<rparr>"
    by (simp add: unit_outcome_def)
  have "set (report_outcome ?oc) \<subseteq> set (concat (map report_outcome (cy_outcomes (Collect cfg scs env inst))))"
    using oc by auto
  then have "gauge scrapeCollectorSuccess 0 [sc_Name s] \<in> set (concat (map report_outcome (cy_outcomes (Collect cfg scs env inst)))) \<and>
             gauge scrapeDurationSeconds (env_deadline env) [sc_Name s] \<in> set (concat (map report_outcome (cy_outcomes (Collect cfg scs env inst))))"
    by (simp add: ocv report_outcome_def)
  with oc ocv eqs(1) show ?thesis by auto
qed

text \<open>
  The cycle terminates within its fuel: four steps take it from Idle to Done,
  and more steps change nothing.
\<close>

theorem Collect_terminates:
  "cy_phase (Collect cfg scs env inst) = Done \<and>
   cycle_run (n + 4) cfg scs env (cycle_init inst) = Collect cfg scs env inst"
proof -
  have fin: "cy_phase (Collect cfg scs env inst) = Done"
    unfolding Collect_def by (rule cycle_run_reaches_Done) simp
  then show ?thesis by (simp add: cycle_run_add Collect_def)
qed

text \<open>
  The sink is closed when a responding cycle ends; what the units that were still
  running send afterwards is dropped (and counted), so the output is exactly the sends
  before the deadline, then the reporter's gauges, then \<open>up 1\<close>.
\<close>

theorem Collect_drops_late_sends:
  assumes conn: "Connection inst = (Inr srv, i1)" and ver: "srv_version srv = Inr v"
    and np: "\<not> list_ex unit_panics (cycle_units env i1 (eligible cfg v scs))"
  shows "\<not> sk_open (cy_sink (Collect cfg scs env inst)) \<and>
         sk_items (cy_sink (Collect cfg scs env inst)) =
           concat (map (\<lambda>(s, r, p). unit_timely r p) (cy_runs (Collect cfg scs env inst))) @
           concat (map report_outcome (cy_outcomes (Collect cfg scs env inst))) @ [up_metric True] \<and>
         sk_dropped (cy_sink (Collect cfg scs env inst)) =
           length (concat (map (\<lambda>(s, r, p). unit_late r p) (cy_runs (Collect cfg scs env inst))))"
  using Collect_ok [OF conn ver np]
  by (simp add: Let_def sk_dropped_send_all_closed)

text \<open>
  Cycles are serialised on one instance and share its connection: over any
  sequence of cycles from a fresh instance, at most one connection is ever created and
  the instance invariant holds at the end.
\<close>

theorem collect_cycles_single_connection:
  "inst_inv (snd (collect_cycles cfg scs envs (newInstance t))) \<and>
   inst_opened (snd (collect_cycles cfg scs envs (newInstance t))) \<le> 1"
proof -
  have "inst_inv (snd (collect_cycles cfg scs envs i))" if "inst_inv i" for i
    using that
  proof (induction envs arbitrary: i)
    case (Cons env envs)
    have "inst_inv (cy_inst (Collect cfg scs env i))"
      unfolding Collect_def by (rule cycle_run_inst_inv) (simp add: Cons.prems)
    then have "inst_inv (snd (collect_cycles cfg scs envs (cy_inst (Collect cfg scs env i))))"
      by (rule Cons.IH)
    then show ?case by (simp add: Let_def split_def)
  qed simp
  then have "inst_inv (snd (collect_cycles cfg scs envs (newInstance t)))"
    by (simp add: inst_inv_newInstance)
  then show ?thesis by (simp add: inst_inv_def)
qed

end
