(* ===== verification/Spec2Isabelle.thy ===== *)
theory Spec2Isabelle
  imports Primary Orchestrator
begin

text \<open>
  \<^bold>\<open>A verification library for the primary-key scraper of mysqld_exporter and the
  scrape orchestration it plugs into.\<close>

  \<^bold>\<open>The program.\<close>  The repository's one source file,
  \<^verbatim>\<open>src/collector/primary.go\<close>, is a leaf scraper: \<open>ScrapePrimaryKey\<close> runs one
  SQL query over \<open>information_schema.tables\<close> left-joined with
  \<open>information_schema.table_constraints\<close> and sends one gauge
  \<open>mysql_primary_key_check{table_schema,table_name,engine} 0\<close> per base table without
  a \<open>PRIMARY KEY\<close> (outside the \<open>mysql\<close> and \<open>performance_schema\<close> schemas).  The
  spec (\<^verbatim>\<open>spec.md\<close>) describes the engine around it, whose code is not among the
  sources: the \<open>Scraper\<close> contract, the \<open>instance\<close> with its lazily opened
  connection, the orchestrator that selects eligible scrapers by configuration and
  version, runs them concurrently under a deadline and isolates their failures, the
  metric sink, and the reporter of the success, duration and \<open>up\<close> gauges.  A cycle
  calls \<open>Connection\<close> on the instance, probes the version, calls each eligible
  scraper's \<open>Scrape\<close> with the instance and the sink, and reports.

  \<^bold>\<open>Theories.\<close>
  \<^item> \<open>Prelude\<close>: Go's error values (\<open>go_error\<close>), how a call ends (\<open>run_result\<close>:
    nil, an error, a panic), context states, the \<open>exporter_simps\<close> and
    \<open>exporter_invs\<close> collections, shared list and multiset lemmas.
  \<^item> \<open>Prometheus\<close>, \<open>SqlRows\<close>: the library functions the scraper calls, modelled
    at their documented behaviour: \<open>BuildFQName\<close>, \<open>NewDesc\<close>, \<open>NewConstMetric\<close>,
    \<open>MustNewConstMetric\<close> with the label-name, constant-label-value, cardinality
    and UTF-8 checks in the client's order (Go's
    \<open>utf8.ValidString\<close> written out byte by byte); \<open>database/sql\<close> result sets
    and their cursor (\<open>Rows_Next\<close>, \<open>Rows_Scan_cur\<close>, \<open>Rows_Close\<close>, \<open>Rows_Err\<close>),
    \<open>Rows.Scan\<close> into strings and \<open>convertAssign\<close>, which refuses NULL.
  \<^item> \<open>Instance\<close> (spec 4.2): the \<open>Server\<close> a connection talks to and
    \<open>(*sql.DB).QueryContext\<close>, which refuses a context that is already done before
    the query reaches the server; \<open>db_instance\<close> with \<open>Connection\<close>, \<open>getDB\<close>,
    \<open>Close\<close>, an invariant (at most one connection ever, released only by closing)
    kept by every operation and by every sequence of serialised calls.
  \<^item> \<open>Scraper\<close> (spec 4.1): the interface as a record of the four methods, the
    collector's \<open>namespace\<close>, the registry and label-schema obligations.
  \<^item> \<open>PrimaryQuery\<close> (\<^verbatim>\<open>primary.go\<close> lines 29 to 48): \<open>primaryQuery\<close> and its
    meaning (\<open>primary_on\<close>, \<open>left_join\<close>, \<open>primary_where\<close>, \<open>primary_select\<close>,
    \<open>primary_order_by\<close>, \<open>primaryQuery_answer\<close>) and what it is meant to list
    (\<open>tables_without_pk\<close>).  The database is a parameter: a \<open>Server\<close> says what
    \<open>QueryContext\<close> returns; the theorems assume of it only that its answer is a
    correct answer to the query, where they need that.
  \<^item> \<open>Primary\<close> (the rest of \<^verbatim>\<open>primary.go\<close>, in the file's order):
    \<open>primarySubsystem\<close>, \<open>PrimarylabelNames\<close>, \<open>CheckPrimaryKeyDesc\<close>, the methods
    \<open>ScrapePrimaryKey_Name\<close>, \<open>_Help\<close>, \<open>_Version\<close>, and \<open>Scrape\<close> as the code
    runs it: \<open>primary_query\<close> (lines 82 to 88), the scan variables
    \<open>primary_vars\<close> (91 to 95), \<open>primary_scan\<close> (98 to 106), \<open>primary_emit\<close>
    (108), the loop \<open>primary_rows_loop\<close> (97 to 109) and the method
    \<open>ScrapePrimaryKey_Run\<close> with \<open>defer primaryRows.Close()\<close>;
    \<open>ScrapePrimaryKey_Scrape\<close> is its run.  \<open>primary_row_loop\<close> is the same loop
    read over the list of delivered rows, proved equal to the cursor loop (C18) and
    used by the other proofs; the lemmas about the cursor loop go by
    \<open>primary_rows_loop_run_induct\<close>, an induction over a finished run with one case
    per way an iteration ends.  \<open>ScrapePrimaryKey\<close> is the scraper as a \<open>Scraper\<close>.
  \<^item> \<open>Sink\<close> (spec 5): open/closed sink, sends after close are counted no-ops; the
    interleaving of several producers as the step relation \<open>sink_step\<close>, every
    interleaving keeping the multiset of sent-plus-queued metrics and each producer's
    order, and every reachable state able to drain all producers.
  \<^item> \<open>Orchestrator\<close> (spec 4.3, 4.4, 7): configuration, \<open>eligible\<close>, per-unit
    outcomes, the reporter's gauges, and the cycle as the phase machine
    \<open>Idle, Selecting, Running, Aggregating, Done\<close> (\<open>cycle_step\<close>), run by
    \<open>Collect\<close>; \<open>collect_cycles\<close> serialises cycles on one instance.
  \<^item> This theory: example data, the primary-key scraper inside a cycle and inside the
    sink's interleavings (C3 to C6, C14, C15, C16, C17, C25), and the witnesses.

  \<^bold>\<open>Concurrency, time, fuel and termination.\<close>  The scrapers of a cycle run in
  parallel; the model fixes, per scraper, what it had done when the orchestrator stopped
  waiting (\<open>progress\<close>: returned after a duration, or still running after some
  sends), which is all the outcome depends on.  Their sends are delivered in one of the
  orders the sink's step relation allows (the model takes registry order for the output
  list and states the orchestrator's guarantees over what is order-independent).  The
  cycle needs no unbounded loop: each phase is one step, four steps reach \<open>Done\<close> from
  \<open>Idle\<close> and \<open>Done\<close> is a fixpoint, so \<open>Collect\<close>'s fuel of 4 is exactly enough
  (lemma \<open>Collect_terminates\<close>).  The row loop of \<open>Scrape\<close> is a \<open>function\<close>
  whose termination is proved with the measure "rows the driver still holds", which
  every \<open>Next\<close> that reports a row decreases; the stream the driver delivers is
  finite in the model (a result set is a list), so every call of \<open>Scrape\<close> returns.

  \<^bold>\<open>What is proved.\<close>  For the scraper: the query's \<open>LEFT JOIN ... IS NULL\<close> is the
  anti-join "base tables without a primary key", the latter stated independently of
  the query's \<open>ON\<close> clause (C2); against a correct answer, \<open>Scrape\<close> returns nil and
  sends exactly one gauge per such table, value 0, in table-name order (C1) and never
  a gauge for another table (C13); the row loop sends the gauges of a good prefix and
  stops at the first bad row (C12); a query error, a context that is already done
  included, sends nothing (C7); a NULL column stops with a scan error after partial
  output (C8); a non-UTF-8 label makes \<open>MustNewConstMetric\<close> panic (C10); the label
  schema never varies (C11); and \<open>rows.Err()\<close> is never read, so a stream cut short
  by the deadline is reported as success (C9).  On the cursor: the loop refines the
  list loop and leaves the cursor just past the rows it read (C18); it ends normally
  only at the end of the result set, all rows consumed, the set closed and \<open>Err()\<close>
  holding the stream's end (C19); the result set is closed on every way out of
  \<open>Scrape\<close> (C20); at most one gauge per row (C21); scanning the row selected for a
  table gives back its labels (C22); every scan error comes from \<open>Scan\<close> on a
  delivered row, never from using the cursor out of order (C23); a result set of
  another shape fails the first \<open>Scan\<close> on the count of destinations (C24); an
  instance that never connected makes \<open>Scrape\<close> panic on its nil handle (C26).  For
  the scraper inside the engine (this theory): it is reported, by one success and one
  duration gauge, exactly when it is enabled and the server is at least 5.7 (C3);
  below 5.7 it is neither run nor reported (C4); whatever the other scrapers do, its
  gauges and its success reach the output (C5); it only ever runs on the connection
  the cycle established, so its nil-handle panic cannot occur (C6); still running at
  the deadline, the gauges it sent are kept and it is reported failed with \<open>up\<close> at
  1 (C14); a whole cycle with it alone has the output of spec section 8 (C15); a scan
  error stays local to the scraper, its earlier gauges kept (C16); but a non-UTF-8
  label crashes the whole cycle, since the panic is not recovered (C17); and however
  its gauges interleave with other producers', the check gauges the cycle delivers are
  exactly those \<open>Scrape\<close> sent, in the order it sent them (C25).  The engine's own
  guarantees, over any registry and any producers, are lemmas of \<open>Sink\<close> (every
  interleaving keeps the multiset of metrics and can be completed) and of \<open>Orchestrator\<close>: meta-metrics exactly one per eligible scraper, newer
  scrapers excluded, fatal errors giving only \<open>up 0\<close>, failure isolation, timeouts as
  the scraper's outcome, termination within the fuel, late sends dropped by the closed
  sink, and the instance invariant kept across serialised cycles.

  \<^bold>\<open>Not modelled.\<close>  Logging (the \<open>logger\<close> argument), the HTTP exposition layer and
  flag parsing (out of the spec's scope), the driver's wire protocol and connection
  pool, and MySQL's evaluation of the query beyond its relational meaning: the
  \<open>ON\<close> and \<open>WHERE\<close> comparisons are string equality, where MySQL compares under
  the column's collation (case-insensitive in 5.7's \<open>information_schema\<close>, so a
  schema named \<open>MySQL\<close> is excluded by the server and kept by the model), and the
  \<open>ORDER BY\<close> collation is a sort key \<open>coll\<close> whose ties (same-named tables of
  different schemas) the server may order either way; \<open>database/sql\<close>'s context watcher is folded into how the
  driver's stream ends (\<open>rs_err\<close>); wall-clock time (durations are given by the cycle's
  environment); a driver that never ends its stream (a result set is finite).  Of
  \<^verbatim>\<open>primary.go\<close> every declaration is modelled; the lines no definition
  translates are the licence header, the package clause and the imports (1 to 24),
  blank lines between declarations, and \<open>var _ Scraper = ScrapePrimaryKey{}\<close>
  (114), a compile-time check that the type has the interface's methods, which the
  record type of \<open>ScrapePrimaryKey\<close> already enforces.  Of the libraries only the
  functions the scraper calls are modelled, so the Prometheus client and
  \<open>database/sql\<close> are partly modelled by design.
\<close>

section \<open>Example data\<close>

text \<open>
  An \<open>information_schema\<close> with a table without a primary key (\<open>shop.orders\<close>, which
  has only a UNIQUE constraint), one with a primary key (\<open>shop.users\<close>), a table of
  the excluded \<open>mysql\<close> schema, a view, and a MyISAM table without a key
  (\<open>shop.audit\<close>); result sets of the query; servers at version 5.7 answering the
  query with a given result set; instances connected to them; a configuration, a
  registry and a cycle environment in which scraper \<open>a\<close> is still running at the
  deadline.
\<close>

definition ex_table :: "string \<Rightarrow> string \<Rightarrow> string option \<Rightarrow> string \<Rightarrow> info_table" where
  "ex_table sch nm eng ty =
     \<lparr>t_table_schema = sch, t_table_name = nm, t_engine = eng, t_table_type = ty\<rparr>"

definition ex_info :: info_schema where
  "ex_info =
     \<lparr>is_tables =
        [ex_table ''shop'' ''orders'' (Some ''InnoDB'') ''BASE TABLE'',
         ex_table ''shop'' ''users'' (Some ''InnoDB'') ''BASE TABLE'',
         ex_table ''mysql'' ''db'' (Some ''InnoDB'') ''BASE TABLE'',
         ex_table ''shop'' ''v_orders'' None ''VIEW'',
         ex_table ''shop'' ''audit'' (Some ''MyISAM'') ''BASE TABLE''],
      is_constraints =
        [\<lparr>tc_table_schema = ''shop'', tc_table_name = ''users'', tc_constraint_type = ''PRIMARY KEY''\<rparr>,
         \<lparr>tc_table_schema = ''shop'', tc_table_name = ''orders'', tc_constraint_type = ''UNIQUE''\<rparr>]\<rparr>"

definition ex_rows_of :: "sql_value list list \<Rightarrow> go_error option \<Rightarrow> Rows" where
  "ex_rows_of d e = \<lparr>rs_columns = [''TABLE_SCHEMA'', ''TABLE_NAME'', ''ENGINE''], rs_data = d, rs_err = e\<rparr>"

definition ex_rows :: Rows where
  "ex_rows =
     ex_rows_of [[SqlBytes ''shop'', SqlBytes ''audit'', SqlBytes ''MyISAM''],
                 [SqlBytes ''shop'', SqlBytes ''orders'', SqlBytes ''InnoDB'']] None"

text \<open>A server at version 5.7 that answers \<open>primaryQuery\<close> with the given result set.\<close>

definition ex_server_of :: "Rows \<Rightarrow> Server" where
  "ex_server_of rs =
     \<lparr>srv_query = (\<lambda>ctx q. if q = primaryQuery then Inr rs else Inl (ErrDriver ''unknown query'')),
      srv_version = Inr 5.7\<rparr>"

definition ex_server :: Server where
  "ex_server = ex_server_of ex_rows"

definition ex_inst_of :: "Server \<Rightarrow> db_instance" where
  "ex_inst_of s = \<lparr>inst_target = Some s, inst_db = Some s, inst_opened = 1,
                   inst_released = 0, inst_closed = False\<rparr>"

definition ex_inst :: db_instance where
  "ex_inst = ex_inst_of ex_server"

text \<open>A server whose every query fails because the cycle's deadline has passed.\<close>

definition ex_dead_server :: Server where
  "ex_dead_server = \<lparr>srv_query = (\<lambda>c q. Inl ErrDeadlineExceeded), srv_version = Inr 5.7\<rparr>"

text \<open>Result sets: a NULL engine in the second row, a label that is not UTF-8, a cut stream.\<close>

definition ex_audit_row :: "sql_value list" where
  "ex_audit_row = [SqlBytes ''shop'', SqlBytes ''audit'', SqlBytes ''MyISAM'']"

definition ex_null_row :: "sql_value list" where
  "ex_null_row = [SqlBytes ''shop'', SqlBytes ''broken'', SqlNull]"

definition ex_bad_utf8_row :: "sql_value list" where
  "ex_bad_utf8_row = [SqlBytes ''shop'', SqlBytes [CHR 0xFF], SqlBytes ''InnoDB'']"

definition ex_cfg :: config where
  "ex_cfg = \<lparr>cfg_enabled = [''primary_key'', ''a'', ''b''], cfg_disabled = []\<rparr>"

definition ex_env :: cycle_env where
  "ex_env = \<lparr>env_deadline = 10, env_progress = (\<lambda>n. if n = ''a'' then StillRunning 0 else Returned 0.25)\<rparr>"

text \<open>Two further scrapers of the spec's example: A needs version 5.0, B needs 8.0.\<close>

definition ex_scraper_a :: Scraper where
  "ex_scraper_a = \<lparr>sc_Name = ''a'', sc_Help = ''A'', sc_Version = 5.0,
                   sc_Scrape = (\<lambda>ctx i. \<lparr>sent = [], ret = RetNil\<rparr>)\<rparr>"

definition ex_scraper_b :: Scraper where
  "ex_scraper_b = \<lparr>sc_Name = ''b'', sc_Help = ''B'', sc_Version = 8.0,
                   sc_Scrape = (\<lambda>ctx i. \<lparr>sent = [], ret = RetErr ErrDeadlineExceeded\<rparr>)\<rparr>"

definition ex_registry :: "Scraper list" where
  "ex_registry = [ScrapePrimaryKey, ex_scraper_a, ex_scraper_b]"

text \<open>
  The same server reporting version 5.6, below the scraper's minimum; and an
  environment in which the primary-key scraper is still running at the deadline after
  one send.
\<close>

definition ex_old_server :: Server where
  "ex_old_server = (ex_server_of ex_rows)\<lparr>srv_version := Inr 5.6\<rparr>"

definition ex_env2 :: cycle_env where
  "ex_env2 = \<lparr>env_deadline = 10, env_progress = (\<lambda>n. Returned 0.5)\<rparr>"

definition ex_env_slow :: cycle_env where
  "ex_env_slow = \<lparr>env_deadline = 10,
                  env_progress = (\<lambda>n. if n = ''primary_key'' then StillRunning 1 else Returned 0.25)\<rparr>"

section \<open>Properties across components\<close>

lemma ScrapePrimaryKey_sel [simp]:
  "sc_Name ScrapePrimaryKey = ''primary_key''"
  "sc_Version ScrapePrimaryKey = ScrapePrimaryKey_Version"
  "sc_Scrape ScrapePrimaryKey = ScrapePrimaryKey_Scrape"
  by (simp_all add: ScrapePrimaryKey_def ScrapePrimaryKey_Name_def primarySubsystem_def)

lemma Connection_Inr_db:
  "Connection inst = (Inr srv, i1) \<Longrightarrow> getDB i1 = Some srv"
  using Connection_Inr_getDB [of inst srv] by simp

text \<open>
  A cycle whose registry is the primary-key scraper alone, the scraper returning before
  the deadline with good rows: its output, eligible or not, and the instance it leaves.
\<close>

lemma Collect_primary_alone:
  assumes conn: "Connection inst = (Inr srv, i1)" and ver: "srv_version srv = Inr v"
    and q: "QueryContext srv Background primaryQuery = Inr rs"
    and cols: "length (rs_columns rs) = 3" and good: "list_all primary_row_good (rs_data rs)"
    and prog: "env_progress env ''primary_key'' = Returned d"
  shows "cycle_output (Collect cfg [ScrapePrimaryKey] env inst) =
           Response (if scraper_enabled cfg ''primary_key'' \<and> 5.7 \<le> v
                     then map (primary_gauge \<circ> map sql_text) (rs_data rs) @
                          [gauge scrapeCollectorSuccess 1 [''primary_key''],
                           gauge scrapeDurationSeconds d [''primary_key''], up_metric True]
                     else [up_metric True])"
    and "cy_inst (Collect cfg [ScrapePrimaryKey] env inst) = i1"
proof -
  have run: "ScrapePrimaryKey_Scrape Background i1 =
               \<lparr>sent = map (primary_gauge \<circ> map sql_text) (rs_data rs), ret = RetNil\<rparr>"
    using ScrapePrimaryKey_Scrape_rows [OF Connection_Inr_db [OF conn] q cols]
          primary_row_loop_good [OF cols good] by simp
  let ?ok = "scraper_enabled cfg ''primary_key'' \<and> 5.7 \<le> v"
  have el: "eligible cfg v [ScrapePrimaryKey] = (if ?ok then [ScrapePrimaryKey] else [])"
    by (simp add: eligible_def ScrapePrimaryKey_Version_def)
  have np: "\<not> list_ex unit_panics (cycle_units env i1 (eligible cfg v [ScrapePrimaryKey]))"
    by (simp add: el cycle_units_def unit_panics_def run)
  note eqs = Collect_ok_output [OF conn ver np]
  show "cycle_output (Collect cfg [ScrapePrimaryKey] env inst) =
          Response (if ?ok then map (primary_gauge \<circ> map sql_text) (rs_data rs) @
                          [gauge scrapeCollectorSuccess 1 [''primary_key''],
                           gauge scrapeDurationSeconds d [''primary_key''], up_metric True]
                     else [up_metric True])"
  proof (cases ?ok)
    case True
    have e: "eligible cfg v [ScrapePrimaryKey] = [ScrapePrimaryKey]"
      using el by (simp only: if_P [OF True])
    show ?thesis
      unfolding if_P [OF True] using eqs(1)
      by (simp add: eqs(2,3) e cycle_units_def run prog unit_timely_def unit_outcome_def
                    report_outcome_def)
  next
    case False
    have e: "eligible cfg v [ScrapePrimaryKey] = []"
      using el by (simp only: if_not_P [OF False])
    show ?thesis
      unfolding if_not_P [OF False] using eqs(1) by (simp add: eqs(2,3) e cycle_units_def)
  qed
  show "cy_inst (Collect cfg [ScrapePrimaryKey] env inst) = i1"
    using Collect_ok [OF conn ver np] by (simp add: Let_def)
qed

text \<open>
  C3: in a cycle whose connection and version probe succeed, over any registry with
  distinct names that holds the primary-key scraper, the output carries exactly one
  success gauge and one duration gauge labelled \<open>primary_key\<close> when the scraper is
  enabled and the server's version is at least its \<open>Version()\<close> 5.7, and none
  otherwise.
\<close>

theorem Collect_primary_reported_iff_eligible:
  assumes conn: "Connection inst = (Inr srv, i1)" and ver: "srv_version srv = Inr v"
    and np: "\<not> list_ex unit_panics (cycle_units env i1 (eligible cfg v scs))"
    and own: "own_metrics scs i1" and reg: "registry_ok scs" and pk: "ScrapePrimaryKey \<in> set scs"
  shows "\<exists>out. cycle_output (Collect cfg scs env inst) = Response out \<and>
           count (mset (map labelValues (filter (\<lambda>m. metric_desc m = scrapeCollectorSuccess) out)))
             [''primary_key''] = (if scraper_enabled cfg ''primary_key'' \<and> 5.7 \<le> v then 1 else 0) \<and>
           count (mset (map labelValues (filter (\<lambda>m. metric_desc m = scrapeDurationSeconds) out)))
             [''primary_key''] = (if scraper_enabled cfg ''primary_key'' \<and> 5.7 \<le> v then 1 else 0)"
proof -
  obtain out where out: "cycle_output (Collect cfg scs env inst) = Response out"
    and s: "map labelValues (filter (\<lambda>m. metric_desc m = scrapeCollectorSuccess) out) =
              map (\<lambda>s. [sc_Name s]) (eligible cfg v scs)"
    and d: "map labelValues (filter (\<lambda>m. metric_desc m = scrapeDurationSeconds) out) =
              map (\<lambda>s. [sc_Name s]) (eligible cfg v scs)"
    using Collect_meta_exactly_eligible [OF conn ver np own reg] by blast
  have "count (mset (map (\<lambda>s. [sc_Name s]) (eligible cfg v scs))) [''primary_key''] =
          length (filter (\<lambda>s. sc_Name s = ''primary_key'') (eligible cfg v scs))"
    by (rule count_mset_map_singleton)
  also have "\<dots> = (if scraper_enabled cfg ''primary_key'' \<and> 5.7 \<le> v then 1 else 0)"
    using filter_named_registry [OF reg pk, of "\<lambda>s. scraper_enabled cfg (sc_Name s) \<and> sc_Version s \<le> v"]
    by (simp add: eligible_def ScrapePrimaryKey_Version_def)
  finally have c: "count (mset (map (\<lambda>s. [sc_Name s]) (eligible cfg v scs))) [''primary_key''] =
                     (if scraper_enabled cfg ''primary_key'' \<and> 5.7 \<le> v then 1 else 0)" .
  have c1: "count (mset (map labelValues (filter (\<lambda>m. metric_desc m = scrapeCollectorSuccess) out)))
              [''primary_key''] = (if scraper_enabled cfg ''primary_key'' \<and> 5.7 \<le> v then 1 else 0)"
    by (subst s) (rule c)
  have c2: "count (mset (map labelValues (filter (\<lambda>m. metric_desc m = scrapeDurationSeconds) out)))
              [''primary_key''] = (if scraper_enabled cfg ''primary_key'' \<and> 5.7 \<le> v then 1 else 0)"
    by (subst d) (rule c)
  from out c1 c2 show ?thesis by blast
qed

text \<open>
  C4: against a server older than 5.7 the primary-key scraper is neither run nor
  reported, whatever the configuration: no unit of the cycle is it, and no success or
  duration gauge is labelled \<open>primary_key\<close>.
\<close>

theorem Collect_primary_skipped_below_57:
  assumes conn: "Connection inst = (Inr srv, i1)" and ver: "srv_version srv = Inr v"
    and np: "\<not> list_ex unit_panics (cycle_units env i1 (eligible cfg v scs))"
    and own: "own_metrics scs i1" and reg: "registry_ok scs" and pk: "ScrapePrimaryKey \<in> set scs"
    and old: "v < 5.7"
  shows "ScrapePrimaryKey \<notin> fst ` set (cy_runs (Collect cfg scs env inst)) \<and>
         (\<exists>out. cycle_output (Collect cfg scs env inst) = Response out \<and>
            (\<forall>m \<in> set out. metric_desc m \<in> {scrapeCollectorSuccess, scrapeDurationSeconds} \<longrightarrow>
               labelValues m \<noteq> [''primary_key'']))"
proof -
  have "v < sc_Version ScrapePrimaryKey" using old by (simp add: ScrapePrimaryKey_Version_def)
  from Collect_excludes_newer_scraper [OF conn ver np own reg pk this] show ?thesis by simp
qed

text \<open>
  C5: failure isolation for the primary-key scraper.  Whatever the other scrapers of
  the registry do (fail, time out, send nothing), when this scraper returns before the
  deadline against a correct answer, the output holds its gauge for every base table
  without a primary key and its success gauge at 1 with its duration.
\<close>

theorem Collect_primary_isolated:
  assumes conn: "Connection inst = (Inr srv, i1)" and ver: "srv_version srv = Inr v"
    and np: "\<not> list_ex unit_panics (cycle_units env i1 (eligible cfg v scs))"
    and pk: "ScrapePrimaryKey \<in> set (eligible cfg v scs)"
    and q: "QueryContext srv Background primaryQuery = Inr rs"
    and ans: "primaryQuery_answer coll info rs"
    and tbl: "\<forall>t \<in> set (tables_without_pk info).
                t_engine t \<noteq> None \<and> list_all utf8_ValidString (table_labels t)"
    and prog: "env_progress env ''primary_key'' = Returned d"
  shows "\<exists>out. cycle_output (Collect cfg scs env inst) = Response out \<and>
           (\<forall>t \<in> set (tables_without_pk info). primary_gauge (table_labels t) \<in> set out) \<and>
           gauge scrapeCollectorSuccess 1 [''primary_key''] \<in> set out \<and>
           gauge scrapeDurationSeconds d [''primary_key''] \<in> set out"
proof -
  have db: "getDB i1 = Some srv" using conn by (rule Connection_Inr_db)
  note run = ScrapePrimaryKey_Scrape_answer(1) [OF db q ans tbl]
    and labels = ScrapePrimaryKey_Scrape_answer(2) [OF db q ans tbl]
  have iso: "unit_outcome (env_deadline env) ScrapePrimaryKey (ScrapePrimaryKey_Scrape Background i1)
               (Returned d) \<in> set (cy_outcomes (Collect cfg scs env inst)) \<and>
             (\<exists>out. cycle_output (Collect cfg scs env inst) = Response out \<and>
               set (unit_timely (ScrapePrimaryKey_Scrape Background i1) (Returned d)) \<subseteq> set out)"
    using Collect_outcome_isolated [OF conn ver np pk] prog by simp
  then obtain out where out: "cycle_output (Collect cfg scs env inst) = Response out"
    and oc: "unit_outcome (env_deadline env) ScrapePrimaryKey (ScrapePrimaryKey_Scrape Background i1)
               (Returned d) \<in> set (cy_outcomes (Collect cfg scs env inst))"
    and tim: "set (unit_timely (ScrapePrimaryKey_Scrape Background i1) (Returned d)) \<subseteq> set out"
    by blast
  have gauges: "set (map (primary_gauge \<circ> map sql_text) (rs_data rs)) \<subseteq> set out"
    using tim by (simp add: run unit_timely_def)
  have lbl: "set (map table_labels (tables_without_pk info)) = set (map (map sql_text) (rs_data rs))"
    using labels by (metis set_mset_mset)
  have tabs: "primary_gauge (table_labels t) \<in> set out" if t: "t \<in> set (tables_without_pk info)" for t
  proof -
    have "table_labels t \<in> set (map (map sql_text) (rs_data rs))"
      using lbl t by (metis image_eqI set_map)
    then obtain r where "r \<in> set (rs_data rs)" and "table_labels t = map sql_text r" by auto
    then show ?thesis using gauges by auto
  qed
  have "set (report_outcome (unit_outcome (env_deadline env) ScrapePrimaryKey
          (ScrapePrimaryKey_Scrape Background i1) (Returned d))) \<subseteq> set out"
    by (rule Collect_ok_reports(1) [OF conn ver np out oc])
  then have "gauge scrapeCollectorSuccess 1 [''primary_key''] \<in> set out \<and>
             gauge scrapeDurationSeconds d [''primary_key''] \<in> set out"
    by (simp add: run unit_outcome_def report_outcome_def)
  with out tabs show ?thesis by blast
qed

text \<open>
  C6: the orchestrator runs the primary-key scraper only on the connection the cycle
  established, in every cycle (also one that ends in a crash): its handle is never
  nil, so the scraper's nil-handle panic cannot happen.
\<close>

theorem Collect_primary_connected:
  assumes "(ScrapePrimaryKey, r, p) \<in> set (cy_runs (Collect cfg scs env inst))"
  shows "\<exists>srv i1. Connection inst = (Inr srv, i1) \<and> getDB i1 = Some srv \<and>
           r = ScrapePrimaryKey_Scrape Background i1 \<and> ret r \<noteq> Panic ErrNilDB"
proof -
  obtain srv i1 v where conn: "Connection inst = (Inr srv, i1)"
    and u: "(ScrapePrimaryKey, r, p) \<in> set (cycle_units env i1 (eligible cfg v scs))"
    using Collect_runs_connected [OF assms] by blast
  have db: "getDB i1 = Some srv" using conn by (rule Connection_Inr_db)
  from u have "r = ScrapePrimaryKey_Scrape Background i1" by (auto simp add: cycle_units_def)
  with conn db show ?thesis using ScrapePrimaryKey_Scrape_connected [OF db] by blast
qed

text \<open>
  C14: the primary-key scraper still running at the deadline after \<open>k\<close> sends: the
  gauges of the first \<open>k\<close> rows are in the output, the scraper is reported failed with
  the deadline as its duration, and \<open>up\<close> stays at 1.
\<close>

theorem Collect_primary_timeout:
  assumes conn: "Connection inst = (Inr srv, i1)" and ver: "srv_version srv = Inr v"
    and np: "\<not> list_ex unit_panics (cycle_units env i1 (eligible cfg v scs))"
    and pk: "ScrapePrimaryKey \<in> set (eligible cfg v scs)"
    and q: "QueryContext srv Background primaryQuery = Inr rs"
    and cols: "length (rs_columns rs) = 3" and good: "list_all primary_row_good (rs_data rs)"
    and prog: "env_progress env ''primary_key'' = StillRunning k"
  shows "\<exists>out. cycle_output (Collect cfg scs env inst) = Response out \<and>
           set (map (primary_gauge \<circ> map sql_text) (take k (rs_data rs))) \<subseteq> set out \<and>
           gauge scrapeCollectorSuccess 0 [''primary_key''] \<in> set out \<and>
           gauge scrapeDurationSeconds (env_deadline env) [''primary_key''] \<in> set out \<and>
           up_metric True \<in> set out"
proof -
  have run: "ScrapePrimaryKey_Scrape Background i1 =
               \<lparr>sent = map (primary_gauge \<circ> map sql_text) (rs_data rs), ret = RetNil\<rparr>"
    using ScrapePrimaryKey_Scrape_rows [OF Connection_Inr_db [OF conn] q cols]
          primary_row_loop_good [OF cols good] by simp
  have pr: "env_progress env (sc_Name ScrapePrimaryKey) = StillRunning k" using prog by simp
  obtain out where out: "cycle_output (Collect cfg scs env inst) = Response out"
    and rep: "gauge scrapeCollectorSuccess 0 [''primary_key''] \<in> set out \<and>
              gauge scrapeDurationSeconds (env_deadline env) [''primary_key''] \<in> set out \<and>
              up_metric True \<in> set out"
    using Collect_timeout_reported [OF conn ver np pk pr] by auto
  have "set (unit_timely (ScrapePrimaryKey_Scrape Background i1) (StillRunning k)) \<subseteq> set out"
    using Collect_outcome_isolated [OF conn ver np pk] out prog by auto
  then have "set (map (primary_gauge \<circ> map sql_text) (take k (rs_data rs))) \<subseteq> set out"
    by (simp add: run unit_timely_def take_map)
  with out rep show ?thesis by blast
qed

text \<open>
  C15: the primary-key scraper inside a cycle.  With the scraper enabled, a server at
  version 5.7 or later whose answer has only good rows, and the scraper returning
  before the deadline after \<open>d\<close> seconds, the cycle's output is one gauge per row, in
  row order, then the success gauge at 1 and the duration gauge at \<open>d\<close> for
  \<open>primary_key\<close>, then \<open>up 1\<close> (spec section 8: three rows give three samples plus
  one success and one duration gauge).
\<close>

theorem primary_scraper_in_cycle:
  assumes conn: "Connection inst = (Inr srv, i1)" and ver: "srv_version srv = Inr v"
    and newer: "5.7 \<le> v" and en: "scraper_enabled cfg ''primary_key''"
    and q: "QueryContext srv Background primaryQuery = Inr rs"
    and cols: "length (rs_columns rs) = 3" and good: "list_all primary_row_good (rs_data rs)"
    and prog: "env_progress env ''primary_key'' = Returned d"
  shows "cycle_output (Collect cfg [ScrapePrimaryKey] env inst) =
           Response (map (primary_gauge \<circ> map sql_text) (rs_data rs) @
                     [gauge scrapeCollectorSuccess 1 [''primary_key''],
                      gauge scrapeDurationSeconds d [''primary_key''], up_metric True])"
  using Collect_primary_alone(1) [OF conn ver q cols good prog] newer en by simp

text \<open>
  C16: a scan error is local to the scraper (spec section 7).  When a row with a NULL
  column stops the primary-key scraper, the cycle still responds with \<open>up 1\<close>, reports
  the scraper failed with its duration, and keeps the gauges it sent for the rows
  before that one.
\<close>

theorem Collect_primary_scan_error_local:
  assumes conn: "Connection inst = (Inr srv, i1)" and ver: "srv_version srv = Inr v"
    and np: "\<not> list_ex unit_panics (cycle_units env i1 (eligible cfg v scs))"
    and pk: "ScrapePrimaryKey \<in> set (eligible cfg v scs)"
    and q: "QueryContext srv Background primaryQuery = Inr rs"
    and cols: "length (rs_columns rs) = 3" and rows: "rs_data rs = good @ row # rest"
    and g: "list_all primary_row_good good" and lr: "length row = 3" and nl: "SqlNull \<in> set row"
    and prog: "env_progress env ''primary_key'' = Returned d"
  shows "\<exists>out. cycle_output (Collect cfg scs env inst) = Response out \<and>
           set (map (primary_gauge \<circ> map sql_text) good) \<subseteq> set out \<and>
           gauge scrapeCollectorSuccess 0 [''primary_key''] \<in> set out \<and>
           gauge scrapeDurationSeconds d [''primary_key''] \<in> set out \<and>
           up_metric True \<in> set out"
proof -
  obtain e where "primary_row_loop (rs_columns rs) (row # rest) = \<lparr>sent = [], ret = RetErr e\<rparr>"
    using primary_row_loop_null [OF cols lr nl] by blast
  then have run: "ScrapePrimaryKey_Scrape Background i1 =
                    \<lparr>sent = map (primary_gauge \<circ> map sql_text) good, ret = RetErr e\<rparr>"
    using ScrapePrimaryKey_Scrape_rows [OF Connection_Inr_db [OF conn] q cols] rows
          primary_row_loop_prefix [OF cols g] by simp
  have iso: "unit_outcome (env_deadline env) ScrapePrimaryKey (ScrapePrimaryKey_Scrape Background i1)
               (Returned d) \<in> set (cy_outcomes (Collect cfg scs env inst)) \<and>
             (\<exists>out. cycle_output (Collect cfg scs env inst) = Response out \<and>
               set (unit_timely (ScrapePrimaryKey_Scrape Background i1) (Returned d)) \<subseteq> set out)"
    using Collect_outcome_isolated [OF conn ver np pk] prog by simp
  then obtain out where out: "cycle_output (Collect cfg scs env inst) = Response out"
    and oc: "unit_outcome (env_deadline env) ScrapePrimaryKey (ScrapePrimaryKey_Scrape Background i1)
               (Returned d) \<in> set (cy_outcomes (Collect cfg scs env inst))"
    and tim: "set (unit_timely (ScrapePrimaryKey_Scrape Background i1) (Returned d)) \<subseteq> set out"
    by blast
  have "set (report_outcome (unit_outcome (env_deadline env) ScrapePrimaryKey
          (ScrapePrimaryKey_Scrape Background i1) (Returned d))) \<subseteq> set out"
    by (rule Collect_ok_reports(1) [OF conn ver np out oc])
  then have "gauge scrapeCollectorSuccess 0 [''primary_key''] \<in> set out \<and>
             gauge scrapeDurationSeconds d [''primary_key''] \<in> set out"
    by (simp add: run unit_outcome_def report_outcome_def)
  moreover have "up_metric True \<in> set out" by (rule Collect_ok_reports(2) [OF conn ver np out])
  moreover have "set (map (primary_gauge \<circ> map sql_text) good) \<subseteq> set out"
    using tim by (simp add: run unit_timely_def)
  ultimately show ?thesis using out by blast
qed

text \<open>
  C17: a table whose schema, name or engine is not valid UTF-8 crashes the whole
  exporter: \<open>MustNewConstMetric\<close> panics inside the scraper's goroutine, nothing
  recovers it, and the cycle gives no response at all, contrary to spec section 7.
\<close>

theorem Collect_primary_utf8_crash:
  assumes conn: "Connection inst = (Inr srv, i1)" and ver: "srv_version srv = Inr v"
    and pk: "ScrapePrimaryKey \<in> set (eligible cfg v scs)"
    and q: "QueryContext srv Background primaryQuery = Inr rs"
    and cols: "length (rs_columns rs) = 3" and rows: "rs_data rs = good @ row # rest"
    and g: "list_all primary_row_good good" and lr: "length row = 3" and nn: "SqlNull \<notin> set row"
    and bad: "\<not> list_all (utf8_ValidString \<circ> sql_text) row"
  shows "\<exists>e. cycle_output (Collect cfg scs env inst) = Crashed e"
proof -
  obtain w where "primary_row_loop (rs_columns rs) (row # rest) = \<lparr>sent = [], ret = Panic (ErrLabelUtf8 w)\<rparr>"
    using primary_row_loop_utf8 [OF cols lr nn bad] by blast
  then have "ret (ScrapePrimaryKey_Scrape Background i1) = Panic (ErrLabelUtf8 w)"
    using ScrapePrimaryKey_Scrape_rows [OF Connection_Inr_db [OF conn] q cols] rows
          primary_row_loop_prefix [OF cols g] by simp
  then have "list_ex unit_panics (cycle_units env i1 (eligible cfg v scs))"
    using pk by (force simp add: list_ex_iff cycle_units_def unit_panics_def)
  then show ?thesis by (rule Collect_crash [OF conn ver])
qed

text \<open>
  C25: the fan-in keeps the order of the primary-key scraper's gauges.  However its
  sends interleave with the other producers' (none of which sends a metric of the check
  descriptor), once it has sent everything the check gauges that the sink delivered in
  the cycle are exactly those \<open>Scrape\<close> sent, in the order it sent them: the table-name
  order of the query (C1) reaches the exposition layer.
\<close>

theorem sink_delivers_primary_gauges_in_order:
  assumes q: "qs0 = before @ sent (ScrapePrimaryKey_Scrape ctx inst) # after"
    and others: "list_all (\<lambda>m. metric_desc m \<noteq> CheckPrimaryKeyDesc) (concat (before @ after))"
    and op: "sk_open s0" and fresh: "sk_items s0 = []"
    and run: "sink_steps (qs0, s0) (qs, s)" and fin: "qs ! length before = []"
  shows "filter (\<lambda>m. metric_desc m = CheckPrimaryKeyDesc) (sk_items s) =
           sent (ScrapePrimaryKey_Scrape ctx inst)"
proof -
  let ?P = "\<lambda>m. metric_desc m = CheckPrimaryKeyDesc"
  have i: "length before < length qs0" using q by simp
  have oth: "\<forall>j < length qs0. j \<noteq> length before \<longrightarrow> \<not> list_ex ?P (qs0 ! j)"
  proof (intro allI impI)
    fix j assume "j < length qs0" "j \<noteq> length before"
    then have "qs0 ! j \<in> set (before @ after)" using q nth_append_Cons_other by metis
    then show "\<not> list_ex ?P (qs0 ! j)" using others by (auto simp add: list_all_iff list_ex_iff)
  qed
  have "\<exists>p new. qs0 ! length before = p @ qs ! length before \<and> sk_items s = sk_items s0 @ new \<and>
          filter ?P new = filter ?P p"
    using sink_steps_filter [OF run, where i = "length before" and P = ?P] op i oth by simp
  then obtain p new where p: "qs0 ! length before = p @ qs ! length before"
    and new: "sk_items s = sk_items s0 @ new" and f: "filter ?P new = filter ?P p" by blast
  have "p = sent (ScrapePrimaryKey_Scrape ctx inst)" using p fin q by simp
  moreover have "filter ?P (sent (ScrapePrimaryKey_Scrape ctx inst)) = sent (ScrapePrimaryKey_Scrape ctx inst)"
    using ScrapePrimaryKey_Scrape_sent_gauge by (fastforce simp add: filter_id_conv)
  ultimately show ?thesis using new fresh f by simp
qed

section \<open>The example evaluated\<close>

lemma ex_sel [simp]:
  "getDB (ex_inst_of srv) = Some srv"
  "srv_query (ex_server_of rs) ctx primaryQuery = Inr rs"
  "srv_version (ex_server_of rs) = Inr 5.7"
  "rs_columns (ex_rows_of d e) = [''TABLE_SCHEMA'', ''TABLE_NAME'', ''ENGINE'']"
  "rs_data (ex_rows_of d e) = d"
  "rs_err (ex_rows_of d e) = e"
  by (simp_all add: getDB_def ex_inst_of_def ex_server_of_def ex_rows_of_def)

lemma ex_conn: "Connection (newInstance (Some ex_server)) = (Inr ex_server, ex_inst)"
  by (simp add: Connection_def newInstance_def ex_inst_def ex_inst_of_def)

lemma ex_answer: "primaryQuery_answer id ex_info ex_rows"
  by (simp add: primaryQuery_answer_def ex_rows_def ex_rows_of_def ex_info_def ex_table_def
                primary_from_where_def left_join_def primary_on_def primary_where_def
                primary_select_def primary_order_by_def row_table_name_def)

lemma ex_tables:
  "\<forall>t \<in> set (tables_without_pk ex_info).
     t_engine t \<noteq> None \<and> list_all utf8_ValidString (table_labels t)"
  by (simp add: tables_without_pk_def ex_info_def ex_table_def has_primary_key_def
                primary_on_def table_labels_def utf8_ValidString_def)

lemma ex_good: "list_all primary_row_good (rs_data ex_rows)"
  by (simp add: ex_rows_def primary_row_good_def utf8_ValidString_def)


lemma ex_run:
  "ScrapePrimaryKey_Scrape Background ex_inst =
     \<lparr>sent = map (primary_gauge \<circ> map sql_text) (rs_data ex_rows), ret = RetNil\<rparr>"
proof -
  have "length (rs_columns ex_rows) = 3" by (simp add: ex_rows_def)
  with ex_good show ?thesis
    by (simp add: ex_inst_def ex_server_def ScrapePrimaryKey_Scrape_rows primary_row_loop_good)
qed

lemma CheckPrimaryKeyDesc_not_meta [simp]:
  "CheckPrimaryKeyDesc \<noteq> scrapeCollectorSuccess" "CheckPrimaryKeyDesc \<noteq> scrapeDurationSeconds"
  "CheckPrimaryKeyDesc \<noteq> upDesc"
  by (auto dest!: arg_cong [where f = fqName] simp add: CheckPrimaryKeyDesc_eq)

lemma ex_registry_sel [simp]:
  "sc_Name ex_scraper_a = ''a''" "sc_Version ex_scraper_a = 5.0"
  "sc_Scrape ex_scraper_a ctx i = \<lparr>sent = [], ret = RetNil\<rparr>"
  "sc_Name ex_scraper_b = ''b''" "sc_Version ex_scraper_b = 8.0"
  "sc_Scrape ex_scraper_b ctx i = \<lparr>sent = [], ret = RetErr ErrDeadlineExceeded\<rparr>"
  by (simp_all add: ex_scraper_a_def ex_scraper_b_def)

lemma ex_eligible: "eligible ex_cfg 5.7 ex_registry = [ScrapePrimaryKey, ex_scraper_a]"
  by (simp add: eligible_def ex_registry_def ex_cfg_def scraper_enabled_def ScrapePrimaryKey_Version_def)

lemma ex_no_panic:
  "\<not> list_ex unit_panics (cycle_units ex_env ex_inst (eligible ex_cfg 5.7 ex_registry))"
  by (simp add: ex_eligible cycle_units_def unit_panics_def ex_run)

lemma ex_own: "own_metrics ex_registry ex_inst"
  by (auto simp add: own_metrics_def ex_registry_def ex_run)

lemma ex_registry_ok: "registry_ok ex_registry"
  by (simp add: registry_ok_def ex_registry_def)

lemma ex_server_version: "srv_version ex_server = Inr 5.7"
  by (simp add: ex_server_def)

lemma ex_primary_in_registry: "ScrapePrimaryKey \<in> set ex_registry"
  by (simp add: ex_registry_def)

lemma ex_primary_eligible: "ScrapePrimaryKey \<in> set (eligible ex_cfg 5.7 ex_registry)"
  by (simp add: ex_eligible)

lemma ex_old_sel [simp]:
  "srv_query ex_old_server ctx primaryQuery = Inr ex_rows"
  "srv_version ex_old_server = Inr 5.6"
  by (simp_all add: ex_old_server_def)

lemma ex_old_conn:
  "Connection (newInstance (Some ex_old_server)) = (Inr ex_old_server, ex_inst_of ex_old_server)"
  by (simp add: Connection_def newInstance_def ex_inst_of_def)

lemma ex_old_run:
  "ScrapePrimaryKey_Scrape Background (ex_inst_of ex_old_server) =
     \<lparr>sent = map (primary_gauge \<circ> map sql_text) (rs_data ex_rows), ret = RetNil\<rparr>"
proof -
  have "length (rs_columns ex_rows) = 3" by (simp add: ex_rows_def)
  with ex_good show ?thesis by (simp add: ScrapePrimaryKey_Scrape_rows primary_row_loop_good)
qed

lemma ex_old_no_panic:
  "\<not> list_ex unit_panics (cycle_units ex_env (ex_inst_of ex_old_server) (eligible ex_cfg 5.6 ex_registry))"
  by (simp add: eligible_def ex_registry_def ex_cfg_def scraper_enabled_def cycle_units_def
                unit_panics_def ScrapePrimaryKey_Version_def)

lemma ex_old_own: "own_metrics ex_registry (ex_inst_of ex_old_server)"
  by (auto simp add: own_metrics_def ex_registry_def ex_old_run)

lemma ex_slow_no_panic:
  "\<not> list_ex unit_panics (cycle_units ex_env_slow ex_inst (eligible ex_cfg 5.7 ex_registry))"
  by (simp add: ex_eligible cycle_units_def unit_panics_def ex_run)

lemma ex_conn_of: "Connection (newInstance (Some srv)) = (Inr srv, ex_inst_of srv)"
  by (simp add: Connection_def newInstance_def ex_inst_of_def)

lemma ex_audit_good: "list_all primary_row_good [ex_audit_row]"
  by (simp add: ex_audit_row_def primary_row_good_def utf8_ValidString_def)

lemma ex_cursor_run:
  "fst (primary_rows_loop (rows_open ex_rows) primary_vars_zero) =
     \<lparr>sent = map (primary_gauge \<circ> map sql_text) (rs_data ex_rows), ret = RetNil\<rparr>"
  using ex_run ScrapePrimaryKey_Run_rows [of ex_inst ex_server Background ex_rows]
  by (simp add: ScrapePrimaryKey_Scrape_def ex_inst_def ex_server_def)

section \<open>Witnesses\<close>

text \<open>
  Each claim with hypotheses applied at the example, every hypothesis discharged there.
\<close>

theorem ScrapePrimaryKey_Scrape_correct_witness:
  "ret (ScrapePrimaryKey_Scrape Background ex_inst) = RetNil \<and>
   mset (map labelValues (sent (ScrapePrimaryKey_Scrape Background ex_inst))) =
     mset (map table_labels (tables_without_pk ex_info)) \<and>
   list_all (\<lambda>m. metric_desc m = CheckPrimaryKeyDesc \<and> metric_type m = GaugeValue \<and> metric_value m = 0)
     (sent (ScrapePrimaryKey_Scrape Background ex_inst)) \<and>
   sorted (map (\<lambda>m. id (labelValues m ! 1)) (sent (ScrapePrimaryKey_Scrape Background ex_inst)))"
proof -
  have h1: "getDB ex_inst = Some ex_server" by (simp add: ex_inst_def)
  have h2: "QueryContext ex_server Background primaryQuery = Inr ex_rows" by (simp add: ex_server_def)
  show ?thesis
    unfolding list_all_iff by (rule ScrapePrimaryKey_Scrape_correct [OF h1 h2 ex_answer ex_tables])
qed

theorem Collect_meta_exactly_eligible_witness:
  "\<exists>out. cycle_output (Collect ex_cfg ex_registry ex_env (newInstance (Some ex_server))) = Response out \<and>
     map labelValues (filter (\<lambda>m. metric_desc m = scrapeCollectorSuccess) out) =
       map (\<lambda>s. [sc_Name s]) (eligible ex_cfg 5.7 ex_registry) \<and>
     map labelValues (filter (\<lambda>m. metric_desc m = scrapeDurationSeconds) out) =
       map (\<lambda>s. [sc_Name s]) (eligible ex_cfg 5.7 ex_registry) \<and>
     distinct (map labelValues (filter (\<lambda>m. metric_desc m = scrapeCollectorSuccess) out))"
  by (rule Collect_meta_exactly_eligible [OF ex_conn ex_server_version ex_no_panic ex_own ex_registry_ok])

theorem Collect_excludes_newer_scraper_witness:
  "ex_scraper_b \<notin> fst ` set (cy_runs (Collect ex_cfg ex_registry ex_env (newInstance (Some ex_server)))) \<and>
   (\<exists>out. cycle_output (Collect ex_cfg ex_registry ex_env (newInstance (Some ex_server))) = Response out \<and>
      (\<forall>m \<in> set out. metric_desc m \<in> {scrapeCollectorSuccess, scrapeDurationSeconds} \<longrightarrow>
         labelValues m \<noteq> [sc_Name ex_scraper_b]))"
proof -
  have s: "ex_scraper_b \<in> set ex_registry" by (simp add: ex_registry_def)
  have newer: "(5.7::rat) < sc_Version ex_scraper_b" by simp
  show ?thesis
    by (rule Collect_excludes_newer_scraper
          [OF ex_conn ex_server_version ex_no_panic ex_own ex_registry_ok s newer])
qed

theorem Collect_fatal_only_up_witness:
  "cycle_output (Collect ex_cfg ex_registry ex_env (newInstance None)) = Response [up_metric False] \<and>
   cy_runs (Collect ex_cfg ex_registry ex_env (newInstance None)) = []"
proof -
  have "fst (Connection (newInstance None)) = Inl ErrConnection \<or>
        (fst (Connection (newInstance None)) = Inr ex_server \<and> srv_version ex_server = Inl ErrConnection)"
    by (simp add: Connection_def newInstance_def)
  then show ?thesis by (rule Collect_fatal_only_up)
qed

theorem Collect_outcome_isolated_witness:
  "unit_outcome (env_deadline ex_env) ex_scraper_a (sc_Scrape ex_scraper_a Background ex_inst)
      (env_progress ex_env (sc_Name ex_scraper_a))
     \<in> set (cy_outcomes (Collect ex_cfg ex_registry ex_env (newInstance (Some ex_server)))) \<and>
   (\<exists>out. cycle_output (Collect ex_cfg ex_registry ex_env (newInstance (Some ex_server))) = Response out \<and>
      set (unit_timely (sc_Scrape ex_scraper_a Background ex_inst) (env_progress ex_env (sc_Name ex_scraper_a)))
        \<subseteq> set out)"
proof -
  have s: "ex_scraper_a \<in> set (eligible ex_cfg 5.7 ex_registry)" by (simp add: ex_eligible)
  show ?thesis by (rule Collect_outcome_isolated [OF ex_conn ex_server_version ex_no_panic s])
qed

theorem ScrapePrimaryKey_Scrape_query_error_witness:
  "ScrapePrimaryKey_Scrape CtxDeadline (ex_inst_of ex_dead_server) =
   \<lparr>sent = [], ret = RetErr ErrDeadlineExceeded\<rparr>"
proof -
  have h1: "getDB (ex_inst_of ex_dead_server) = Some ex_dead_server" by simp
  have h2: "QueryContext ex_dead_server CtxDeadline primaryQuery = Inl ErrDeadlineExceeded"
    by (simp add: ex_dead_server_def)
  show ?thesis by (rule ScrapePrimaryKey_Scrape_query_error [OF h1 h2])
qed

theorem ScrapePrimaryKey_Scrape_null_column_witness:
  "\<exists>e. ScrapePrimaryKey_Scrape Background
        (ex_inst_of (ex_server_of (ex_rows_of [ex_audit_row, ex_null_row] None))) =
       \<lparr>sent = map (primary_gauge \<circ> map sql_text) [ex_audit_row], ret = RetErr e\<rparr>"
proof -
  let ?rs = "ex_rows_of [ex_audit_row, ex_null_row] None"
  have h1: "getDB (ex_inst_of (ex_server_of ?rs)) = Some (ex_server_of ?rs)" by simp
  have h2: "QueryContext (ex_server_of ?rs) Background primaryQuery = Inr ?rs" by simp
  have h3: "length (rs_columns ?rs) = 3" by simp
  have h4: "rs_data ?rs = [ex_audit_row] @ ex_null_row # []" by simp
  have h5: "list_all primary_row_good [ex_audit_row]"
    by (simp add: ex_audit_row_def primary_row_good_def utf8_ValidString_def)
  have h6: "length ex_null_row = 3" and h7: "SqlNull \<in> set ex_null_row"
    by (simp_all add: ex_null_row_def)
  show ?thesis by (rule ScrapePrimaryKey_Scrape_null_column [OF h1 h2 h3 h4 h5 h6 h7])
qed

theorem ScrapePrimaryKey_Scrape_ignores_rows_err_witness:
  "ScrapePrimaryKey_Scrape Background
     (ex_inst_of (ex_server_of (ex_rows_of (rs_data ex_rows) (Some ErrDeadlineExceeded)))) =
   \<lparr>sent = map (primary_gauge \<circ> map sql_text) (rs_data (ex_rows_of (rs_data ex_rows) (Some ErrDeadlineExceeded))),
    ret = RetNil\<rparr>"
proof -
  let ?rs = "ex_rows_of (rs_data ex_rows) (Some ErrDeadlineExceeded)"
  have h1: "getDB (ex_inst_of (ex_server_of ?rs)) = Some (ex_server_of ?rs)" by simp
  have h2: "QueryContext (ex_server_of ?rs) Background primaryQuery = Inr ?rs" by simp
  have h3: "length (rs_columns ?rs) = 3" by simp
  have h4: "list_all primary_row_good (rs_data ?rs)" using ex_good by simp
  have h5: "rs_err ?rs = Some ErrDeadlineExceeded" by simp
  show ?thesis by (rule ScrapePrimaryKey_Scrape_ignores_rows_err [OF h1 h2 h3 h4 h5])
qed

theorem ScrapePrimaryKey_Scrape_panics_on_utf8_witness:
  "\<exists>v. \<not> utf8_ValidString v \<and>
     ScrapePrimaryKey_Scrape Background
       (ex_inst_of (ex_server_of (ex_rows_of [ex_audit_row, ex_bad_utf8_row] None))) =
       \<lparr>sent = map (primary_gauge \<circ> map sql_text) [ex_audit_row], ret = Panic (ErrLabelUtf8 v)\<rparr>"
proof -
  let ?rs = "ex_rows_of [ex_audit_row, ex_bad_utf8_row] None"
  have h1: "getDB (ex_inst_of (ex_server_of ?rs)) = Some (ex_server_of ?rs)" by simp
  have h2: "QueryContext (ex_server_of ?rs) Background primaryQuery = Inr ?rs" by simp
  have h3: "length (rs_columns ?rs) = 3" by simp
  have h4: "rs_data ?rs = [ex_audit_row] @ ex_bad_utf8_row # []" by simp
  have h5: "list_all primary_row_good [ex_audit_row]"
    by (simp add: ex_audit_row_def primary_row_good_def utf8_ValidString_def)
  have h6: "length ex_bad_utf8_row = 3" and h7: "SqlNull \<notin> set ex_bad_utf8_row"
    and h8: "\<not> list_all (utf8_ValidString \<circ> sql_text) ex_bad_utf8_row"
    by (simp_all add: ex_bad_utf8_row_def utf8_ValidString_def)
  show ?thesis by (rule ScrapePrimaryKey_Scrape_panics_on_utf8 [OF h1 h2 h3 h4 h5 h6 h7 h8])
qed

theorem primary_row_loop_sends_prefix_witness:
  "\<exists>k \<le> length [ex_audit_row, ex_null_row].
     sent (primary_row_loop (rs_columns ex_rows) [ex_audit_row, ex_null_row]) =
       map (primary_gauge \<circ> map sql_text) (take k [ex_audit_row, ex_null_row]) \<and>
     list_all primary_row_good (take k [ex_audit_row, ex_null_row]) \<and>
     (ret (primary_row_loop (rs_columns ex_rows) [ex_audit_row, ex_null_row]) = RetNil \<longleftrightarrow>
      k = length [ex_audit_row, ex_null_row])"
proof -
  have h: "length (rs_columns ex_rows) = 3" by (simp add: ex_rows_def)
  show ?thesis by (rule primary_row_loop_sends_prefix [OF h])
qed

theorem ScrapePrimaryKey_Scrape_only_tables_without_pk_witness:
  "list_all (\<lambda>m. \<exists>t \<in> set (tables_without_pk ex_info). labelValues m = table_labels t)
     (sent (ScrapePrimaryKey_Scrape Background ex_inst))"
proof -
  have h1: "getDB ex_inst = Some ex_server" by (simp add: ex_inst_def)
  have h2: "QueryContext ex_server Background primaryQuery = Inr ex_rows" by (simp add: ex_server_def)
  show ?thesis unfolding list_all_iff by (rule ScrapePrimaryKey_Scrape_only_tables_without_pk [OF h1 h2 ex_answer])
qed

theorem Collect_timeout_reported_witness:
  "\<lparr>oc_name = sc_Name ex_scraper_a, oc_success = False, oc_error = Some ErrTimeout,
     oc_duration = env_deadline ex_env\<rparr>
     \<in> set (cy_outcomes (Collect ex_cfg ex_registry ex_env (newInstance (Some ex_server)))) \<and>
   (\<exists>out. cycle_output (Collect ex_cfg ex_registry ex_env (newInstance (Some ex_server))) = Response out \<and>
      gauge scrapeCollectorSuccess 0 [sc_Name ex_scraper_a] \<in> set out \<and>
      gauge scrapeDurationSeconds (env_deadline ex_env) [sc_Name ex_scraper_a] \<in> set out \<and>
      up_metric True \<in> set out)"
proof -
  have s: "ex_scraper_a \<in> set (eligible ex_cfg 5.7 ex_registry)" by (simp add: ex_eligible)
  have run: "env_progress ex_env (sc_Name ex_scraper_a) = StillRunning 0" by (simp add: ex_env_def)
  show ?thesis by (rule Collect_timeout_reported [OF ex_conn ex_server_version ex_no_panic s run])
qed

theorem Collect_drops_late_sends_witness:
  "\<not> sk_open (cy_sink (Collect ex_cfg ex_registry ex_env (newInstance (Some ex_server)))) \<and>
   sk_items (cy_sink (Collect ex_cfg ex_registry ex_env (newInstance (Some ex_server)))) =
     concat (map (\<lambda>(s, r, p). unit_timely r p)
       (cy_runs (Collect ex_cfg ex_registry ex_env (newInstance (Some ex_server))))) @
     concat (map report_outcome (cy_outcomes (Collect ex_cfg ex_registry ex_env (newInstance (Some ex_server))))) @
     [up_metric True] \<and>
   sk_dropped (cy_sink (Collect ex_cfg ex_registry ex_env (newInstance (Some ex_server)))) =
     length (concat (map (\<lambda>(s, r, p). unit_late r p)
       (cy_runs (Collect ex_cfg ex_registry ex_env (newInstance (Some ex_server))))))"
  by (rule Collect_drops_late_sends [OF ex_conn ex_server_version ex_no_panic])

theorem primary_scraper_in_cycle_witness:
  "cycle_output (Collect ex_cfg [ScrapePrimaryKey] ex_env (newInstance (Some ex_server))) =
     Response (map (primary_gauge \<circ> map sql_text) (rs_data ex_rows) @
               [gauge scrapeCollectorSuccess 1 [''primary_key''],
                gauge scrapeDurationSeconds 0.25 [''primary_key''], up_metric True])"
proof -
  have en: "scraper_enabled ex_cfg ''primary_key''" by (simp add: ex_cfg_def scraper_enabled_def)
  have q: "QueryContext ex_server Background primaryQuery = Inr ex_rows" by (simp add: ex_server_def)
  have cols: "length (rs_columns ex_rows) = 3" by (simp add: ex_rows_def)
  have prog: "env_progress ex_env ''primary_key'' = Returned 0.25" by (simp add: ex_env_def)
  show ?thesis
    by (rule primary_scraper_in_cycle [OF ex_conn ex_server_version _ en q cols ex_good prog]) simp
qed


theorem Collect_primary_reported_iff_eligible_witness:
  "\<exists>out. cycle_output (Collect ex_cfg ex_registry ex_env (newInstance (Some ex_server))) = Response out \<and>
     count (mset (map labelValues (filter (\<lambda>m. metric_desc m = scrapeCollectorSuccess) out)))
       [''primary_key''] = 1 \<and>
     count (mset (map labelValues (filter (\<lambda>m. metric_desc m = scrapeDurationSeconds) out)))
       [''primary_key''] = 1"
proof -
  have en: "scraper_enabled ex_cfg ''primary_key''" by (simp add: ex_cfg_def scraper_enabled_def)
  show ?thesis
    using Collect_primary_reported_iff_eligible
            [OF ex_conn ex_server_version ex_no_panic ex_own ex_registry_ok ex_primary_in_registry] en
    by simp
qed

theorem Collect_primary_skipped_below_57_witness:
  "ScrapePrimaryKey \<notin> fst ` set (cy_runs (Collect ex_cfg ex_registry ex_env (newInstance (Some ex_old_server)))) \<and>
   (\<exists>out. cycle_output (Collect ex_cfg ex_registry ex_env (newInstance (Some ex_old_server))) = Response out \<and>
      (\<forall>m \<in> set out. metric_desc m \<in> {scrapeCollectorSuccess, scrapeDurationSeconds} \<longrightarrow>
         labelValues m \<noteq> [''primary_key'']))"
proof -
  have ver: "srv_version ex_old_server = Inr 5.6" by simp
  have old: "(5.6::rat) < 5.7" by simp
  show ?thesis
    by (rule Collect_primary_skipped_below_57
          [OF ex_old_conn ver ex_old_no_panic ex_old_own ex_registry_ok ex_primary_in_registry old])
qed

theorem Collect_primary_isolated_witness:
  "\<exists>out. cycle_output (Collect ex_cfg ex_registry ex_env (newInstance (Some ex_server))) = Response out \<and>
     (\<forall>t \<in> set (tables_without_pk ex_info). primary_gauge (table_labels t) \<in> set out) \<and>
     gauge scrapeCollectorSuccess 1 [''primary_key''] \<in> set out \<and>
     gauge scrapeDurationSeconds 0.25 [''primary_key''] \<in> set out"
proof -
  have q: "QueryContext ex_server Background primaryQuery = Inr ex_rows" by (simp add: ex_server_def)
  have prog: "env_progress ex_env ''primary_key'' = Returned 0.25" by (simp add: ex_env_def)
  show ?thesis
    by (rule Collect_primary_isolated
          [OF ex_conn ex_server_version ex_no_panic ex_primary_eligible q ex_answer ex_tables prog])
qed

theorem Collect_primary_connected_witness:
  "\<exists>srv i1. Connection (newInstance (Some ex_server)) = (Inr srv, i1) \<and> getDB i1 = Some srv \<and>
     ScrapePrimaryKey_Scrape Background ex_inst = ScrapePrimaryKey_Scrape Background i1 \<and>
     ret (ScrapePrimaryKey_Scrape Background ex_inst) \<noteq> Panic ErrNilDB"
proof -
  have "(ScrapePrimaryKey, ScrapePrimaryKey_Scrape Background ex_inst, Returned 0.25)
          \<in> set (cy_runs (Collect ex_cfg ex_registry ex_env (newInstance (Some ex_server))))"
    by (simp add: Collect_runs [OF ex_conn ex_server_version] ex_eligible cycle_units_def ex_env_def)
  then show ?thesis by (rule Collect_primary_connected)
qed

theorem Collect_primary_timeout_witness:
  "\<exists>out. cycle_output (Collect ex_cfg ex_registry ex_env_slow (newInstance (Some ex_server))) = Response out \<and>
     set (map (primary_gauge \<circ> map sql_text) (take 1 (rs_data ex_rows))) \<subseteq> set out \<and>
     gauge scrapeCollectorSuccess 0 [''primary_key''] \<in> set out \<and>
     gauge scrapeDurationSeconds (env_deadline ex_env_slow) [''primary_key''] \<in> set out \<and>
     up_metric True \<in> set out"
proof -
  have q: "QueryContext ex_server Background primaryQuery = Inr ex_rows" by (simp add: ex_server_def)
  have cols: "length (rs_columns ex_rows) = 3" by (simp add: ex_rows_def)
  have prog: "env_progress ex_env_slow ''primary_key'' = StillRunning 1" by (simp add: ex_env_slow_def)
  show ?thesis
    by (rule Collect_primary_timeout
          [OF ex_conn ex_server_version ex_slow_no_panic ex_primary_eligible q cols ex_good prog])
qed


theorem ScrapePrimaryKey_Scrape_label_schema_witness:
  "fixed_label_schema (ScrapePrimaryKey_Scrape Background ex_inst) \<and>
   list_all (\<lambda>m. metric_desc m = CheckPrimaryKeyDesc \<and> metric_type m = GaugeValue \<and>
                   metric_value m = 0 \<and> length (labelValues m) = length PrimarylabelNames)
     (sent (ScrapePrimaryKey_Scrape Background ex_inst))"
  unfolding list_all_iff by (rule ScrapePrimaryKey_Scrape_label_schema)


theorem Collect_primary_scan_error_local_witness:
  "\<exists>out. cycle_output (Collect ex_cfg ex_registry ex_env
           (newInstance (Some (ex_server_of (ex_rows_of [ex_audit_row, ex_null_row] None))))) = Response out \<and>
     set (map (primary_gauge \<circ> map sql_text) [ex_audit_row]) \<subseteq> set out \<and>
     gauge scrapeCollectorSuccess 0 [''primary_key''] \<in> set out \<and>
     gauge scrapeDurationSeconds 0.25 [''primary_key''] \<in> set out \<and>
     up_metric True \<in> set out"
proof -
  let ?rs = "ex_rows_of [ex_audit_row, ex_null_row] None"
  let ?srv = "ex_server_of ?rs"
  have q: "QueryContext ?srv Background primaryQuery = Inr ?rs" by simp
  have ver: "srv_version ?srv = Inr 5.7" by simp
  have cols: "length (rs_columns ?rs) = 3" by simp
  have rows: "rs_data ?rs = [ex_audit_row] @ ex_null_row # []" by simp
  have lr: "length ex_null_row = 3" and nl: "SqlNull \<in> set ex_null_row"
    by (simp_all add: ex_null_row_def)
  obtain e where "primary_row_loop (rs_columns ?rs) (ex_null_row # []) = \<lparr>sent = [], ret = RetErr e\<rparr>"
    using primary_row_loop_null [OF cols lr nl] by blast
  then have run: "ScrapePrimaryKey_Scrape Background (ex_inst_of ?srv) =
                    \<lparr>sent = map (primary_gauge \<circ> map sql_text) [ex_audit_row], ret = RetErr e\<rparr>"
    using ScrapePrimaryKey_Scrape_rows [of "ex_inst_of ?srv" ?srv Background ?rs] rows
          primary_row_loop_prefix [OF cols ex_audit_good] by simp
  have np: "\<not> list_ex unit_panics (cycle_units ex_env (ex_inst_of ?srv) (eligible ex_cfg 5.7 ex_registry))"
    by (simp add: ex_eligible cycle_units_def unit_panics_def run)
  have prog: "env_progress ex_env ''primary_key'' = Returned 0.25" by (simp add: ex_env_def)
  show ?thesis
    by (rule Collect_primary_scan_error_local
          [OF ex_conn_of ver np ex_primary_eligible q cols rows ex_audit_good lr nl prog])
qed

theorem Collect_primary_utf8_crash_witness:
  "\<exists>e. cycle_output (Collect ex_cfg ex_registry ex_env
         (newInstance (Some (ex_server_of (ex_rows_of [ex_audit_row, ex_bad_utf8_row] None))))) = Crashed e"
proof -
  let ?rs = "ex_rows_of [ex_audit_row, ex_bad_utf8_row] None"
  let ?srv = "ex_server_of ?rs"
  have q: "QueryContext ?srv Background primaryQuery = Inr ?rs" by simp
  have ver: "srv_version ?srv = Inr 5.7" by simp
  have cols: "length (rs_columns ?rs) = 3" by simp
  have rows: "rs_data ?rs = [ex_audit_row] @ ex_bad_utf8_row # []" by simp
  have lr: "length ex_bad_utf8_row = 3" and nn: "SqlNull \<notin> set ex_bad_utf8_row"
    and bad: "\<not> list_all (utf8_ValidString \<circ> sql_text) ex_bad_utf8_row"
    by (simp_all add: ex_bad_utf8_row_def utf8_ValidString_def)
  show ?thesis
    by (rule Collect_primary_utf8_crash
          [OF ex_conn_of ver ex_primary_eligible q cols rows ex_audit_good lr nn bad])
qed


theorem primary_rows_loop_refines_list_witness:
  "fst (primary_rows_loop (rows_open ex_rows) primary_vars_zero) =
     primary_row_loop (rs_columns (rows_open ex_rows)) (rs_data (rows_open ex_rows)) \<and>
   rs_data (snd (primary_rows_loop (rows_open ex_rows) primary_vars_zero)) =
     drop (length (sent (fst (primary_rows_loop (rows_open ex_rows) primary_vars_zero))) +
           (if ret (fst (primary_rows_loop (rows_open ex_rows) primary_vars_zero)) = RetNil then 0 else 1))
       (rs_data (rows_open ex_rows))"
proof -
  have h1: "length (rs_columns (rows_open ex_rows)) = 3" by (simp add: ex_rows_def)
  have h2: "cur_lasterr (rows_open ex_rows) = None" and h3: "\<not> cur_closed (rows_open ex_rows)"
    by simp_all
  show ?thesis by (rule primary_rows_loop_refines_list [OF h1 h2 h3 surjective_pairing])
qed

theorem primary_rows_loop_exits_at_end_witness:
  "cur_closed (snd (primary_rows_loop (rows_open ex_rows) primary_vars_zero)) \<and>
   rs_data (snd (primary_rows_loop (rows_open ex_rows) primary_vars_zero)) = [] \<and>
   Rows_Err (snd (primary_rows_loop (rows_open ex_rows) primary_vars_zero)) = rs_err (rows_open ex_rows) \<and>
   length (sent (fst (primary_rows_loop (rows_open ex_rows) primary_vars_zero))) =
     length (rs_data (rows_open ex_rows))"
proof -
  have h1: "\<not> cur_closed (rows_open ex_rows)" by simp
  have h3: "ret (fst (primary_rows_loop (rows_open ex_rows) primary_vars_zero)) = RetNil"
    by (simp add: ex_cursor_run)
  show ?thesis by (rule primary_rows_loop_exits_at_end [OF h1 surjective_pairing h3])
qed

theorem ScrapePrimaryKey_Scrape_sends_at_most_rows_witness:
  "length (sent (ScrapePrimaryKey_Scrape Background ex_inst)) \<le> length (rs_data ex_rows)"
proof -
  have h1: "getDB ex_inst = Some ex_server" by (simp add: ex_inst_def)
  have h2: "QueryContext ex_server Background primaryQuery = Inr ex_rows" by (simp add: ex_server_def)
  show ?thesis by (rule ScrapePrimaryKey_Scrape_sends_at_most_rows [OF h1 h2])
qed

theorem primary_scan_select_roundtrip_witness:
  "\<exists>vars1. primary_scan ((rows_open ex_rows)\<lparr>cur_last :=
              Some (primary_select (ex_table ''shop'' ''audit'' (Some ''MyISAM'') ''BASE TABLE'', None))\<rparr>)
            primary_vars_zero = Inr vars1 \<and>
     table_schema vars1 = ''shop'' \<and> table_name vars1 = ''audit'' \<and> Some (engine vars1) = Some ''MyISAM''"
proof -
  let ?t = "ex_table ''shop'' ''audit'' (Some ''MyISAM'') ''BASE TABLE''"
  let ?c = "(rows_open ex_rows)\<lparr>cur_last := Some (primary_select (?t, None))\<rparr>"
  have h1: "length (rs_columns ?c) = 3" by (simp add: ex_rows_def)
  have h2: "cur_lasterr ?c = None" and h3: "\<not> cur_closed ?c" by simp_all
  have h4: "cur_last ?c = Some (primary_select (?t, None))" by simp
  have h5: "t_engine ?t \<noteq> None" by (simp add: ex_table_def)
  show ?thesis
    using primary_scan_select_roundtrip [OF h1 h2 h3 h4 h5, of primary_vars_zero]
    by (simp add: ex_table_def)
qed


theorem sink_delivers_primary_gauges_in_order_witness:
  "list_all (\<lambda>m. metric_desc m \<noteq> CheckPrimaryKeyDesc) (concat [[up_metric True]]) \<and>
   sink_steps ([sent (ScrapePrimaryKey_Scrape Background ex_inst), [up_metric True]], sink_new)
     ([[], []], sink_send_all (concat [sent (ScrapePrimaryKey_Scrape Background ex_inst), [up_metric True]]) sink_new) \<and>
   filter (\<lambda>m. metric_desc m = CheckPrimaryKeyDesc)
     (sk_items (sink_send_all (concat [sent (ScrapePrimaryKey_Scrape Background ex_inst), [up_metric True]]) sink_new)) =
   sent (ScrapePrimaryKey_Scrape Background ex_inst)"
proof -
  let ?qs = "[sent (ScrapePrimaryKey_Scrape Background ex_inst), [up_metric True]]"
  have q: "?qs = [] @ sent (ScrapePrimaryKey_Scrape Background ex_inst) # [[up_metric True]]" by simp
  have others: "list_all (\<lambda>m. metric_desc m \<noteq> CheckPrimaryKeyDesc) (concat ([] @ [[up_metric True]]))"
    by (simp add: up_metric_def gauge_def not_sym [OF CheckPrimaryKeyDesc_not_meta(3)])
  have run: "sink_steps (?qs, sink_new) ([[], []], sink_send_all (concat ?qs) sink_new)"
    using sink_steps_drain [of ?qs sink_new] by simp
  have fin: "[[], []] ! length ([] :: Metric list list) = ([] :: Metric list)" by simp
  have op: "sk_open sink_new" and fresh: "sk_items sink_new = []" by simp_all
  show ?thesis
    using others run sink_delivers_primary_gauges_in_order [OF q others op fresh run fin] by simp
qed


theorem ScrapePrimaryKey_Scrape_scan_error_from_row_witness:
  "ret (ScrapePrimaryKey_Scrape Background (ex_inst_of (ex_server_of (ex_rows_of [ex_null_row] None)))) =
     RetErr (ErrScanColumn 2 ''ENGINE'' ErrConvertNull) \<and>
   (\<exists>row \<in> set (rs_data (ex_rows_of [ex_null_row] None)).
      Rows_Scan (rs_columns (ex_rows_of [ex_null_row] None)) row 3 =
        Inl (ErrScanColumn 2 ''ENGINE'' ErrConvertNull)) \<and>
   ErrScanColumn 2 ''ENGINE'' ErrConvertNull \<noteq> ErrRowsClosed \<and>
   ErrScanColumn 2 ''ENGINE'' ErrConvertNull \<noteq> ErrScanNoNext"
proof -
  let ?rs = "ex_rows_of [ex_null_row] None"
  have h1: "getDB (ex_inst_of (ex_server_of ?rs)) = Some (ex_server_of ?rs)" by simp
  have h2: "QueryContext (ex_server_of ?rs) Background primaryQuery = Inr ?rs" by simp
  have cols: "length (rs_columns ?rs) = 3" by simp
  have h3: "ret (ScrapePrimaryKey_Scrape Background (ex_inst_of (ex_server_of ?rs))) =
              RetErr (ErrScanColumn 2 ''ENGINE'' ErrConvertNull)"
    by (simp only: ScrapePrimaryKey_Scrape_rows [OF h1 h2 cols])
       (simp add: ex_null_row_def Rows_Scan_def numeral_2_eq_2)
  show ?thesis using h3 ScrapePrimaryKey_Scrape_scan_error_from_row [OF h1 h2 h3] by simp
qed

theorem ScrapePrimaryKey_Scrape_column_mismatch_witness:
  "Rows_wf \<lparr>rs_columns = [''TABLE_NAME'', ''ENGINE''],
            rs_data = [[SqlBytes ''orders'', SqlBytes ''InnoDB'']], rs_err = None\<rparr> \<and>
   ScrapePrimaryKey_Scrape Background
     (ex_inst_of (ex_server_of \<lparr>rs_columns = [''TABLE_NAME'', ''ENGINE''],
                                 rs_data = [[SqlBytes ''orders'', SqlBytes ''InnoDB'']], rs_err = None\<rparr>)) =
   \<lparr>sent = [], ret = RetErr (ErrScanArgs 2 3)\<rparr>"
proof -
  let ?rs = "\<lparr>rs_columns = [''TABLE_NAME'', ''ENGINE''],
              rs_data = [[SqlBytes ''orders'', SqlBytes ''InnoDB'']], rs_err = None\<rparr>"
  have h1: "getDB (ex_inst_of (ex_server_of ?rs)) = Some (ex_server_of ?rs)" by simp
  have h2: "QueryContext (ex_server_of ?rs) Background primaryQuery = Inr ?rs" by simp
  have h3: "Rows_wf ?rs" by (simp add: Rows_wf_def)
  have h4: "rs_data ?rs \<noteq> []" and h5: "length (rs_columns ?rs) \<noteq> 3" by simp_all
  show ?thesis using h3 ScrapePrimaryKey_Scrape_column_mismatch [OF h1 h2 h3 h4 h5] by simp
qed


theorem ScrapePrimaryKey_Run_nil_db_witness:
  "getDB (newInstance (Some ex_server)) = None \<and>
   ScrapePrimaryKey_Run Background (newInstance (Some ex_server)) =
     (\<lparr>sent = [], ret = Panic ErrNilDB\<rparr>, None)"
proof -
  have h: "getDB (newInstance (Some ex_server)) = None" by (simp add: getDB_def newInstance_def)
  show ?thesis using h ScrapePrimaryKey_Run_nil_db [OF h] by simp
qed

end
